theory Spec2Isabelle
  imports Complex_Main
begin

section \<open>Lode Runner simulation core: data model\<close>

text \<open>
  Shallow embedding of the game logic of \<^verbatim>\<open>lode_runner/main.cpp\<close>.
  Conventions of the embedding:
  \<^item> a C++ \<^verbatim>\<open>float\<close> is a \<^typ>\<open>real\<close>: arithmetic is exact, rounding is not modelled;
  \<^item> a C++ \<^verbatim>\<open>int\<close> is an \<^typ>\<open>int\<close>; the counters of the game stay far from 32 bits;
  \<^item> \<^verbatim>\<open>static_cast<int>(floor(v))\<close> is \<open>\<lfloor>v\<rfloor>\<close>;
  \<^item> the global variables form the record \<open>game\<close>, every function takes the
    state and returns the new one;
  \<^item> the arrays \<^verbatim>\<open>level[GRID_HEIGHT][GRID_WIDTH]\<close>, \<^verbatim>\<open>collectibles\<close> and
    \<^verbatim>\<open>enemies[MAX_ENEMIES]\<close> are total functions of their indices (first index the
    row \<open>y\<close>, then the column \<open>x\<close>); the source guards its writes by bounds checks
    or uses constant indices, and an unguarded read is read as the function's value;
  \<^item> \<^verbatim>\<open>std::map<std::pair<int,int>, DugHole>\<close> is an association list kept in the
    key order of \<^verbatim>\<open>std::pair\<close>, which is the order the iterator of
    \<^verbatim>\<open>updateDigging\<close> visits;
  \<^item> an \<^verbatim>\<open>Entity&\<close> is a reference \<open>eref\<close> (the player or the enemy of an index),
    so that the address tests \<^verbatim>\<open>&entity == &player\<close> are tests on the reference;
  \<^item> the fields \<^verbatim>\<open>x\<close>, \<^verbatim>\<open>y\<close> of \<^verbatim>\<open>Entity\<close> are \<open>ex\<close>, \<open>ey\<close> and the fields
    \<^verbatim>\<open>gridX\<close>, \<^verbatim>\<open>gridY\<close> of \<^verbatim>\<open>DugHole\<close> are \<open>hgridX\<close>, \<open>hgridY\<close>;
  \<^item> console output is dropped.
\<close>

subsection \<open>Constants\<close>

definition WINDOW_WIDTH :: real where "WINDOW_WIDTH = 800"
definition WINDOW_HEIGHT :: real where "WINDOW_HEIGHT = 600"
definition GRID_WIDTH :: int where "GRID_WIDTH = 20"
definition GRID_HEIGHT :: int where "GRID_HEIGHT = 15"
definition TILE_SIZE :: real where "TILE_SIZE = 40"

definition PLAYER_SPEED :: real where "PLAYER_SPEED = 150"
definition ENEMY_SPEED :: real where "ENEMY_SPEED = 120"
definition GRAVITY :: real where "GRAVITY = 500"
definition JUMP_FORCE :: real where "JUMP_FORCE = 10"
definition CLIMB_SPEED :: real where "CLIMB_SPEED = 150"
definition ROPE_SPEED :: real where "ROPE_SPEED = 150"

definition numEnemies :: nat where "numEnemies = 3"
definition INITIAL_LIVES :: int where "INITIAL_LIVES = 3"
definition DIG_REFILL_TIME :: real where "DIG_REFILL_TIME = 7"
definition POINTS_PER_COLLECTIBLE :: int where "POINTS_PER_COLLECTIBLE = 100"
definition ENEMY_RESPAWN_DELAY :: real where "ENEMY_RESPAWN_DELAY = 3"

subsection \<open>Tiles, entities, holes, the state\<close>

datatype TileType = EMPTY | BRICK | LADDER | ROPE | SOLID_BRICK | EXIT_LADDER

record Entity =
  ex :: real
  ey :: real
  vx :: real
  vy :: real
  isJumping :: bool
  isClimbing :: bool
  isOnRope :: bool
  isFalling :: bool
  faceRight :: bool
  isTrapped :: bool
  trappedTimer :: real
  isAlive :: bool
  respawnTimer :: real
  startGridX :: int
  startGridY :: int

record DugHole =
  hgridX :: int
  hgridY :: int
  timer :: real
  originalType :: TileType

type_synonym holes = "((int \<times> int) \<times> DugHole) list"

record game =
  player :: Entity
  enemies :: "nat \<Rightarrow> Entity"
  level :: "int \<Rightarrow> int \<Rightarrow> TileType"
  dugHoles :: holes
  gameOver :: bool
  gameWon :: bool
  levelComplete :: bool
  keyStates :: "char \<Rightarrow> bool"
  specialKeyStates :: "int \<Rightarrow> bool"
  collectibles :: "int \<Rightarrow> int \<Rightarrow> int"
  collectiblesCollected :: int
  totalCollectibles :: int
  score :: int
  lives :: int
  gameTime :: real

datatype eref = PlayerRef | EnemyRef nat

fun getE :: "eref \<Rightarrow> game \<Rightarrow> Entity" where
  "getE PlayerRef s = player s"
| "getE (EnemyRef i) s = enemies s i"

fun putE :: "eref \<Rightarrow> Entity \<Rightarrow> game \<Rightarrow> game" where
  "putE PlayerRef e s = s\<lparr>player := e\<rparr>"
| "putE (EnemyRef i) e s = s\<lparr>enemies := (enemies s)(i := e)\<rparr>"

subsection \<open>The hole registry\<close>

text \<open>The order of \<^verbatim>\<open>std::pair<int,int>\<close>: first components, then second ones.\<close>

definition key_less :: "int \<times> int \<Rightarrow> int \<times> int \<Rightarrow> bool" where
  "key_less a b = (fst a < fst b \<or> (fst a = fst b \<and> snd a < snd b))"

text \<open>\<^verbatim>\<open>dugHoles.find(k)\<close>; \<open>None\<close> is \<^verbatim>\<open>dugHoles.end()\<close>.\<close>

definition findHole :: "holes \<Rightarrow> int \<times> int \<Rightarrow> DugHole option" where
  "findHole hs k = map_of hs k"

text \<open>\<^verbatim>\<open>dugHoles[k] = h\<close>: a new entry at its place in the key order, or the entry
  of the key overwritten.\<close>

fun assignHole :: "int \<times> int \<Rightarrow> DugHole \<Rightarrow> holes \<Rightarrow> holes" where
  "assignHole k h [] = [(k, h)]"
| "assignHole k h ((k', h') # r) =
     (if key_less k k' then (k, h) # (k', h') # r
      else if k = k' then (k, h) # r
      else (k', h') # assignHole k h r)"

subsection \<open>Grid queries\<close>

definition getGridX :: "real \<Rightarrow> int" where
  "getGridX px = \<lfloor>px / TILE_SIZE\<rfloor>"

definition getGridY :: "real \<Rightarrow> int" where
  "getGridY py = \<lfloor>py / TILE_SIZE\<rfloor>"

definition getTileAt :: "game \<Rightarrow> real \<Rightarrow> real \<Rightarrow> TileType" where
  "getTileAt s px py =
     (let gridX = \<lfloor>px / TILE_SIZE\<rfloor>; gridY = \<lfloor>py / TILE_SIZE\<rfloor> in
      if gridX < 0 \<or> gridX \<ge> GRID_WIDTH \<or> gridY < 0 \<or> gridY \<ge> GRID_HEIGHT then SOLID_BRICK
      else if findHole (dugHoles s) (gridX, gridY) \<noteq> None then EMPTY
      else level s gridY gridX)"

definition isColliding ::
  "real \<Rightarrow> real \<Rightarrow> real \<Rightarrow> real \<Rightarrow> real \<Rightarrow> real \<Rightarrow> real \<Rightarrow> real \<Rightarrow> bool" where
  "isColliding x1 y1 w1 h1 x2 y2 w2 h2 =
     (x1 < x2 + w2 \<and> x1 + w1 > x2 \<and> y1 < y2 + h2 \<and> y1 + h1 > y2)"

subsection \<open>Digging and refilling\<close>

definition digHole :: "int \<Rightarrow> int \<Rightarrow> game \<Rightarrow> game" where
  "digHole gridX gridY s =
     (if gridX < 0 \<or> gridX \<ge> GRID_WIDTH \<or> gridY < 0 \<or> gridY \<ge> GRID_HEIGHT then s
      else if level s gridY gridX = BRICK then
        (if findHole (dugHoles s) (gridX, gridY) = None then
           s\<lparr>dugHoles := assignHole (gridX, gridY)
                \<lparr>hgridX = gridX, hgridY = gridY, timer = DIG_REFILL_TIME, originalType = BRICK\<rparr>
                (dugHoles s)\<rparr>
         else s)
      else s)"

definition killEnemy :: "Entity \<Rightarrow> Entity" where
  "killEnemy enemy =
     (if \<not> isAlive enemy then enemy
      else enemy\<lparr>isAlive := False, isTrapped := False,
                 respawnTimer := ENEMY_RESPAWN_DELAY, vx := 0, vy := 0\<rparr>)"

text \<open>The body of \<^verbatim>\<open>updateDigging\<close> for an entry whose time is up, before the
  entry is erased: the tile is restored, a trapped player in the cell is freed and the
  live trapped enemies in the cell are killed.\<close>

definition trappedIn :: "Entity \<Rightarrow> int \<Rightarrow> int \<Rightarrow> bool" where
  "trappedIn e cx cy =
     (isTrapped e \<and> getGridX (ex e + TILE_SIZE * 0.4) = cx \<and> getGridY (ey e) = cy)"

definition refillEnemy :: "int \<Rightarrow> int \<Rightarrow> nat \<Rightarrow> game \<Rightarrow> game" where
  "refillEnemy cx cy i s =
     (if isAlive (enemies s i) \<and> trappedIn (enemies s i) cx cy
      then s\<lparr>enemies := (enemies s)(i := killEnemy (enemies s i))\<rparr>
      else s)"

definition refillHole :: "DugHole \<Rightarrow> game \<Rightarrow> game" where
  "refillHole h s =
     (let cx = hgridX h; cy = hgridY h in
      if cx \<ge> 0 \<and> cx < GRID_WIDTH \<and> cy \<ge> 0 \<and> cy < GRID_HEIGHT then
        (let s1 = s\<lparr>level := (level s)(cy := (level s cy)(cx := originalType h))\<rparr>;
             s2 = (if trappedIn (player s1) cx cy
                   then s1\<lparr>player := (player s1)\<lparr>isTrapped := False,
                                                   ey := ey (player s1) + 5,
                                                   isFalling := True\<rparr>\<rparr>
                   else s1)
         in fold (refillEnemy cx cy) [0..<numEnemies] s2)
      else s)"

text \<open>The iteration of \<^verbatim>\<open>updateDigging\<close> over the registry, in key order. It
  returns the entries that stay and the state after the refills; the body never reads
  the registry, which \<open>updateDigging\<close> stores at the end.\<close>

fun updateDiggingLoop :: "real \<Rightarrow> holes \<Rightarrow> game \<Rightarrow> holes \<times> game" where
  "updateDiggingLoop deltaTime [] s = ([], s)"
| "updateDiggingLoop deltaTime ((k, h) # r) s =
     (let h' = h\<lparr>timer := timer h - deltaTime\<rparr> in
      if timer h' \<le> 0 then updateDiggingLoop deltaTime r (refillHole h' s)
      else (case updateDiggingLoop deltaTime r s of (r', s') \<Rightarrow> ((k, h') # r', s')))"

definition updateDigging :: "real \<Rightarrow> game \<Rightarrow> game" where
  "updateDigging deltaTime s =
     (case updateDiggingLoop deltaTime (dugHoles s) s of (hs, s') \<Rightarrow> s'\<lparr>dugHoles := hs\<rparr>)"

subsection \<open>Ground, ladder and rope detection\<close>

definition solid :: "TileType \<Rightarrow> bool" where
  "solid t = (t = BRICK \<or> t = SOLID_BRICK)"

text \<open>\<^verbatim>\<open>canMoveTo\<close>: the nine sample points, \<open>checkX\<close> in the outer loop. The two
  flags are not read by the source either.\<close>

definition canMoveTo :: "game \<Rightarrow> real \<Rightarrow> real \<Rightarrow> real \<Rightarrow> real \<Rightarrow> bool \<Rightarrow> bool \<Rightarrow> bool" where
  "canMoveTo s px py width height onRope climbing =
     list_all (\<lambda>checkX. list_all (\<lambda>checkY. \<not> solid (getTileAt s checkX checkY))
                                  [py, py + height / 2, py + height])
              [px, px + width / 2, px + width]"

text \<open>The test of \<^verbatim>\<open>isOnGround\<close> and of the landing loop of \<^verbatim>\<open>updatePhysics\<close>:
  enemy \<open>i\<close> is another entity than the one referred to, and is trapped.\<close>

definition otherTrapped :: "eref \<Rightarrow> game \<Rightarrow> nat \<Rightarrow> bool" where
  "otherTrapped r s i = (r \<noteq> EnemyRef i \<and> isTrapped (enemies s i))"

definition isOnGround :: "eref \<Rightarrow> game \<Rightarrow> Entity \<Rightarrow> bool" where
  "isOnGround r s entity =
     (let entityWidth = TILE_SIZE * 0.8;
          checkXLeft = ex entity + entityWidth * 0.1;
          checkXCenter = ex entity + entityWidth * 0.5;
          checkXRight = ex entity + entityWidth * 0.9;
          checkY = ey entity - 1;
          onSolidTile = (solid (getTileAt s checkXLeft checkY) \<or>
                         solid (getTileAt s checkXCenter checkY) \<or>
                         solid (getTileAt s checkXRight checkY))
      in if onSolidTile then True
         else list_ex (\<lambda>i. otherTrapped r s i \<and>
                  (let enemyHeadY = ey (enemies s i) + TILE_SIZE * 0.9 in
                   \<bar>ey entity - enemyHeadY\<bar> < 5 \<and>
                   ex entity + entityWidth > ex (enemies s i) \<and>
                   ex entity < ex (enemies s i) + TILE_SIZE * 0.8))
                [0..<numEnemies])"

definition ladderTile :: "TileType \<Rightarrow> bool" where
  "ladderTile t = (t = LADDER \<or> t = EXIT_LADDER)"

definition isOnLadder :: "game \<Rightarrow> Entity \<Rightarrow> bool" where
  "isOnLadder s entity =
     (let entityWidth = TILE_SIZE * 0.8; entityHeight = TILE_SIZE * 0.95;
          checkX = ex entity + entityWidth / 2;
          checkYBottom = ey entity + entityHeight * 0.1;
          checkYMiddle = ey entity + entityHeight * 0.5;
          checkYTop = ey entity + entityHeight * 0.9
      in ladderTile (getTileAt s checkX checkYBottom) \<or>
         ladderTile (getTileAt s checkX checkYMiddle) \<or>
         ladderTile (getTileAt s checkX checkYTop))"

definition checkOnRope :: "game \<Rightarrow> Entity \<Rightarrow> bool" where
  "checkOnRope s entity =
     (let entityWidth = TILE_SIZE * 0.8; entityHeight = TILE_SIZE * 0.95;
          checkX = ex entity + entityWidth / 2;
          checkY = ey entity + entityHeight * 0.5
      in if getTileAt s checkX checkY = ROPE
         then \<bar>ey entity - of_int (getGridY checkY) * TILE_SIZE\<bar> < TILE_SIZE * 0.3
         else False)"

subsection \<open>The physics resolver\<close>

text \<open>The branch of \<^verbatim>\<open>updatePhysics\<close> for a trapped entity.\<close>

definition trappedPhysics :: "eref \<Rightarrow> real \<Rightarrow> game \<Rightarrow> Entity \<Rightarrow> Entity" where
  "trappedPhysics r deltaTime s entity =
     (let e1 = entity\<lparr>trappedTimer := trappedTimer entity - deltaTime, vx := 0, vy := 0\<rparr>;
          gridX = getGridX (ex e1 + TILE_SIZE * 0.4);
          gridY = getGridY (ey e1)
      in if trappedTimer e1 \<le> 0 then
           (if findHole (dugHoles s) (gridX, gridY) = None then
              (if r \<noteq> PlayerRef then killEnemy e1
               else e1\<lparr>isTrapped := False, ey := ey e1 + 5, isFalling := True\<rparr>)
            else e1\<lparr>trappedTimer := 0.01\<rparr>)
         else e1)"

definition applyGravity :: "real \<Rightarrow> Entity \<Rightarrow> Entity" where
  "applyGravity deltaTime entity =
     (if \<not> isClimbing entity \<and> \<not> isOnRope entity
      then entity\<lparr>vy := vy entity - GRAVITY * deltaTime\<rparr>
      else if isClimbing entity \<and> vy entity = 0 then entity\<lparr>vy := 0\<rparr>
      else entity)"

text \<open>The loop over the trapped enemies while moving down: the head height of the
  first enemy landed on, which the source stores in \<^verbatim>\<open>newY\<close> before \<^verbatim>\<open>break\<close>.\<close>

definition headLanding :: "eref \<Rightarrow> game \<Rightarrow> real \<Rightarrow> real \<Rightarrow> real \<Rightarrow> real \<Rightarrow> real option" where
  "headLanding r s nextLeft nextRight nextBottom oldY =
     (case filter (\<lambda>i. otherTrapped r s i \<and>
                    (let enemyHeadY = ey (enemies s i) + TILE_SIZE * 0.9 in
                     nextBottom \<le> enemyHeadY \<and> oldY \<ge> enemyHeadY \<and>
                     nextRight > ex (enemies s i) \<and>
                     nextLeft < ex (enemies s i) + TILE_SIZE * 0.8))
                  [0..<numEnemies] of
        [] \<Rightarrow> None
      | i # _ \<Rightarrow> Some (ey (enemies s i) + TILE_SIZE * 0.9))"

text \<open>Vertical collision: from the tentative position \<open>(newX, newY)\<close> to the resolved
  \<open>newY\<close> and the entity with its velocity and flags updated.\<close>

definition verticalCollision ::
  "eref \<Rightarrow> game \<Rightarrow> real \<Rightarrow> real \<Rightarrow> real \<Rightarrow> Entity \<Rightarrow> real \<times> Entity" where
  "verticalCollision r s oldY newX newY entity =
     (let entityWidth = TILE_SIZE * 0.8; entityHeight = TILE_SIZE * 0.95;
          nextLeft = newX; nextRight = newX + entityWidth;
          nextBottom = newY; nextTop = newY + entityHeight
      in if vy entity \<noteq> 0 then
           (let checkXLeft = nextLeft + TILE_SIZE * 0.1;
                checkXRight = nextRight - TILE_SIZE * 0.1;
                checkY = (if vy entity < 0 then nextBottom else nextTop);
                tileLeft = getTileAt s checkXLeft checkY;
                tileRight = getTileAt s checkXRight checkY;
                (collision, newY', e') =
                  (if vy entity < 0 then
                     (let landed = headLanding r s nextLeft nextRight nextBottom oldY;
                          collision = (solid tileLeft \<or> solid tileRight \<or> landed \<noteq> None);
                          newY1 = (case landed of None \<Rightarrow> newY | Some h \<Rightarrow> h)
                      in if collision then
                           (True, of_int (getGridY checkY + 1) * TILE_SIZE,
                            entity\<lparr>vy := 0, isFalling := False,
                                   isJumping := (if r = PlayerRef then False
                                                 else isJumping entity)\<rparr>)
                         else (False, newY1, entity))
                   else
                     (if solid tileLeft \<or> solid tileRight then
                        (True, of_int (getGridY checkY) * TILE_SIZE - entityHeight,
                         entity\<lparr>vy := 0\<rparr>)
                      else (False, newY, entity)))
            in if \<not> collision \<and> vy e' < 0 \<and> \<not> isClimbing e' \<and> \<not> isOnRope e'
               then (newY', e'\<lparr>isFalling := True\<rparr>)
               else (newY', e'))
         else (newY, entity))"

text \<open>Horizontal collision: the three samples at the leading edge, at the resolved
  \<open>newY\<close>.\<close>

definition hSamples :: "game \<Rightarrow> real \<Rightarrow> real \<Rightarrow> Entity \<Rightarrow> TileType \<times> TileType \<times> TileType" where
  "hSamples s newX newY entity =
     (let entityWidth = TILE_SIZE * 0.8; entityHeight = TILE_SIZE * 0.95;
          nextLeft = newX; nextRight = newX + entityWidth;
          checkYBottom = newY + TILE_SIZE * 0.1;
          checkYMiddle = newY + entityHeight * 0.5;
          checkYTop = newY + entityHeight * 0.9;
          checkX = (if vx entity < 0 then nextLeft else nextRight)
      in (getTileAt s checkX checkYBottom, getTileAt s checkX checkYMiddle,
          getTileAt s checkX checkYTop))"

definition horizontalCollision :: "game \<Rightarrow> real \<Rightarrow> real \<Rightarrow> Entity \<Rightarrow> real \<times> Entity" where
  "horizontalCollision s newX newY entity =
     (let entityWidth = TILE_SIZE * 0.8;
          nextLeft = newX; nextRight = newX + entityWidth
      in if vx entity \<noteq> 0 then
           (let checkX = (if vx entity < 0 then nextLeft else nextRight);
                (tileBottom, tileMiddle, tileTop) = hSamples s newX newY entity
            in if solid tileBottom \<or> solid tileMiddle \<or> solid tileTop then
                 (let onValidTraversal = (isClimbing entity \<or> isOnRope entity)
                  in if \<not> onValidTraversal \<or>
                        (tileBottom \<noteq> LADDER \<and> tileBottom \<noteq> ROPE \<and>
                         tileMiddle \<noteq> LADDER \<and> tileMiddle \<noteq> ROPE \<and>
                         tileTop \<noteq> LADDER \<and> tileTop \<noteq> ROPE)
                     then
                       (let gridX = getGridX checkX
                        in ((if vx entity < 0 then of_int (gridX + 1) * TILE_SIZE
                             else of_int gridX * TILE_SIZE - entityWidth),
                            entity\<lparr>vx := 0\<rparr>))
                     else (newX, entity))
               else (newX, entity))
         else (newX, entity))"

text \<open>The checks at the window edges. The player falling off the screen loses a life,
  an enemy is killed; the state returned carries \<open>lives\<close> and \<open>gameOver\<close>.\<close>

definition boundaryChecks :: "eref \<Rightarrow> Entity \<Rightarrow> game \<Rightarrow> Entity \<times> game" where
  "boundaryChecks r entity s =
     (let entityWidth = TILE_SIZE * 0.8;
          e1 = (if ex entity < 0 then entity\<lparr>ex := 0\<rparr> else entity);
          e2 = (if ex e1 + entityWidth > WINDOW_WIDTH
                then e1\<lparr>ex := WINDOW_WIDTH - entityWidth\<rparr> else e1)
      in if ey e2 < - TILE_SIZE then
           (let e3 = e2\<lparr>ey := 0, vy := 0\<rparr>
            in if r = PlayerRef then
                 (let s1 = s\<lparr>lives := lives s - 1\<rparr>
                  in if lives s1 \<le> 0 then (e3, s1\<lparr>gameOver := True\<rparr>)
                     else (e3\<lparr>ex := of_int (startGridX e3) * TILE_SIZE + TILE_SIZE * 0.1,
                              ey := of_int (startGridY e3) * TILE_SIZE,
                              vx := 0, vy := 0, isFalling := False\<rparr>, s1))
               else (killEnemy e3, s))
         else (e2, s))"

text \<open>The part of \<^verbatim>\<open>updatePhysics\<close> of an entity that is not trapped, up to the
  boundary checks.\<close>

definition movePhysics :: "eref \<Rightarrow> real \<Rightarrow> game \<Rightarrow> Entity \<times> game" where
  "movePhysics r deltaTime s =
     (let e1 = applyGravity deltaTime (getE r s);
          oldY = ey e1;
          newX = ex e1 + vx e1 * deltaTime;
          newY = ey e1 + vy e1 * deltaTime;
          (newY2, e2) = verticalCollision r s oldY newX newY e1;
          (newX3, e3) = horizontalCollision s newX newY2 e2
      in boundaryChecks r (e3\<lparr>ex := newX3, ey := newY2\<rparr>) s)"

text \<open>The end of the fall of an entity that stands on the ground with no vertical
  velocity.\<close>

definition landingReset :: "eref \<Rightarrow> game \<Rightarrow> Entity \<Rightarrow> Entity" where
  "landingReset r s entity =
     (if isFalling entity \<and> vy entity = 0 \<and> isOnGround r s entity
      then entity\<lparr>isFalling := False,
                  isJumping := (if r = PlayerRef then False else isJumping entity)\<rparr>
      else entity)"

text \<open>The cell the feet are in, as the hole check computes it.\<close>

definition footCell :: "Entity \<Rightarrow> int \<times> int" where
  "footCell entity =
     (getGridX (ex entity + TILE_SIZE * 0.8 / 2), getGridY (ey entity + 1))"

definition inGrid :: "int \<Rightarrow> int \<Rightarrow> bool" where
  "inGrid gridX gridY = (gridX \<ge> 0 \<and> gridX < GRID_WIDTH \<and> gridY \<ge> 0 \<and> gridY < GRID_HEIGHT)"

definition holeCapture :: "game \<Rightarrow> Entity \<Rightarrow> Entity" where
  "holeCapture s entity =
     (let entityWidth = TILE_SIZE * 0.8;
          gridX = fst (footCell entity); gridYFeet = snd (footCell entity)
      in if inGrid gridX gridYFeet then
           (case findHole (dugHoles s) (gridX, gridYFeet) of
              None \<Rightarrow> entity
            | Some hole \<Rightarrow>
                if isFalling entity then
                  (if \<not> isTrapped entity then
                     entity\<lparr>isTrapped := True,
                            trappedTimer := (if timer hole - 0.1 < 0 then 0.01
                                             else timer hole - 0.1),
                            ex := of_int gridX * TILE_SIZE + (TILE_SIZE - entityWidth) / 2,
                            ey := of_int gridYFeet * TILE_SIZE,
                            vx := 0, vy := 0, isFalling := False, isClimbing := False\<rparr>
                   else entity)
                else entity)
         else entity)"

definition updatePhysics :: "eref \<Rightarrow> real \<Rightarrow> game \<Rightarrow> game" where
  "updatePhysics r deltaTime s =
     (if isTrapped (getE r s) then putE r (trappedPhysics r deltaTime s (getE r s)) s
      else (case movePhysics r deltaTime s of
              (e, s') \<Rightarrow> putE r (holeCapture s' (landingReset r s' e)) s'))"

subsection \<open>Input\<close>

text \<open>The codes of the arrow keys in the GLUT header, which is not part of the
  repository.\<close>

definition GLUT_KEY_LEFT :: int where "GLUT_KEY_LEFT = 100"
definition GLUT_KEY_UP :: int where "GLUT_KEY_UP = 101"
definition GLUT_KEY_RIGHT :: int where "GLUT_KEY_RIGHT = 102"
definition GLUT_KEY_DOWN :: int where "GLUT_KEY_DOWN = 103"

definition horizontalInput :: "game \<Rightarrow> bool \<Rightarrow> real \<Rightarrow> bool \<Rightarrow> Entity \<Rightarrow> Entity" where
  "horizontalInput s pressed dir right p =
     (if pressed then
        (let p1 = (if isOnRope p then p\<lparr>vx := dir * ROPE_SPEED\<rparr>
                   else if \<not> isClimbing p then p\<lparr>vx := dir * PLAYER_SPEED\<rparr>
                   else p);
             p2 = p1\<lparr>faceRight := right\<rparr>
         in if \<not> isOnRope p2 then p2\<lparr>isClimbing := False\<rparr> else p2)
      else p)"

definition ladderInput :: "game \<Rightarrow> bool \<Rightarrow> Entity \<Rightarrow> Entity" where
  "ladderInput s onLadder p =
     (if onLadder then
        (let p1 = p\<lparr>isFalling := False, isOnRope := False\<rparr>
         in if keyStates s CHR ''w'' \<or> specialKeyStates s GLUT_KEY_UP
            then p1\<lparr>vy := CLIMB_SPEED, isClimbing := True\<rparr>
            else if keyStates s CHR ''s'' \<or> specialKeyStates s GLUT_KEY_DOWN
            then p1\<lparr>vy := - CLIMB_SPEED, isClimbing := True\<rparr>
            else p1\<lparr>vy := 0, isClimbing := False\<rparr>)
      else p\<lparr>isClimbing := False\<rparr>)"

definition ropeInput :: "game \<Rightarrow> Entity \<Rightarrow> Entity" where
  "ropeInput s p =
     (if isOnRope p then
        (let playerGridY = getGridY (ey p + TILE_SIZE * 0.1);
             playerGridX = getGridX (ex p + TILE_SIZE * 0.4)
         in if level s playerGridY playerGridX = ROPE
            then p\<lparr>vy := 0, isClimbing := False, isFalling := False\<rparr>
            else p)
      else p)"

text \<open>The movement part of \<^verbatim>\<open>handleInput\<close>: the player and the space key.\<close>

definition moveInput :: "game \<Rightarrow> game" where
  "moveInput s =
     (let p0 = (player s)\<lparr>vx := 0\<rparr>;
          onLadder = isOnLadder s p0;
          p1 = p0\<lparr>isOnRope := checkOnRope s p0\<rparr>;
          p2 = horizontalInput s (keyStates s CHR ''a'' \<or> specialKeyStates s GLUT_KEY_LEFT)
                 (- 1) False p1;
          p3 = horizontalInput s (keyStates s CHR ''d'' \<or> specialKeyStates s GLUT_KEY_RIGHT)
                 1 True p2;
          p4 = ladderInput s onLadder p3;
          p5 = ropeInput s p4;
          groundCheck = isOnGround PlayerRef s p5
      in if keyStates s CHR '' '' \<and> groundCheck \<and> \<not> isClimbing p5 \<and> \<not> isOnRope p5 \<and>
            \<not> isFalling p5
         then s\<lparr>player := p5\<lparr>vy := JUMP_FORCE, isJumping := True, isFalling := False\<rparr>,
                keyStates := (keyStates s)(CHR '' '' := False)\<rparr>
         else s\<lparr>player := p5\<rparr>)"

definition digAt :: "int \<Rightarrow> int \<Rightarrow> game \<Rightarrow> game" where
  "digAt targetX targetY s =
     (if level s targetY targetX = BRICK \<and> findHole (dugHoles s) (targetX, targetY) = None
      then digHole targetX targetY s else s)"

text \<open>The digging part of \<^verbatim>\<open>handleInput\<close>.\<close>

definition digInput :: "game \<Rightarrow> game" where
  "digInput s =
     (let p = player s;
          playerGridX = getGridX (ex p + TILE_SIZE * 0.4);
          playerGridY = getGridY (ey p);
          checkYBelow = ey p - 1;
          tileBelow = getTileAt s (ex p + TILE_SIZE * 0.4) checkYBelow;
          canStand = (tileBelow = BRICK \<or> tileBelow = SOLID_BRICK \<or> tileBelow = LADDER \<or>
                      tileBelow = ROPE \<or> isOnLadder s p \<or> checkOnRope s p)
      in if canStand \<and> \<not> isFalling p \<and> \<not> isClimbing p then
           (let targetY = playerGridY - 1
            in if keyStates s CHR ''q'' then
                 (let targetX = playerGridX - 1;
                      s1 = (if targetX \<ge> 0 \<and> targetY \<ge> 0 then digAt targetX targetY s else s)
                  in s1\<lparr>keyStates := (keyStates s1)(CHR ''q'' := False)\<rparr>)
               else if keyStates s CHR ''e'' then
                 (let targetX = playerGridX + 1;
                      s1 = (if targetX < GRID_WIDTH \<and> targetY \<ge> 0 then digAt targetX targetY s
                            else s)
                  in s1\<lparr>keyStates := (keyStates s1)(CHR ''e'' := False)\<rparr>)
               else s)
         else s)"

definition handleInput :: "real \<Rightarrow> game \<Rightarrow> game" where
  "handleInput deltaTime s =
     (if gameOver s \<or> gameWon s \<or> isTrapped (player s) \<or> \<not> isAlive (player s) then s
      else digInput (moveInput s))"

subsection \<open>The player\<close>

definition collectAt :: "int \<Rightarrow> int \<Rightarrow> game \<Rightarrow> game" where
  "collectAt checkX checkY s =
     (if checkX \<ge> 0 \<and> checkX < GRID_WIDTH \<and> checkY \<ge> 0 \<and> checkY < GRID_HEIGHT then
        (if collectibles s checkY checkX = 1 then
           (let collectibleX = of_int checkX * TILE_SIZE + TILE_SIZE * 0.2;
                collectibleY = of_int checkY * TILE_SIZE + TILE_SIZE * 0.2;
                collectibleSize = TILE_SIZE * 0.6
            in if isColliding (ex (player s)) (ey (player s)) (TILE_SIZE * 0.8)
                    (TILE_SIZE * 0.95) collectibleX collectibleY collectibleSize collectibleSize
               then s\<lparr>collectibles := (collectibles s)(checkY := (collectibles s checkY)(checkX := 0)),
                      collectiblesCollected := collectiblesCollected s + 1,
                      score := score s + POINTS_PER_COLLECTIBLE\<rparr>
               else s)
         else s)
      else s)"

definition checkWin :: "game \<Rightarrow> game" where
  "checkWin s =
     (let p = player s;
          playerCenterX = ex p + (TILE_SIZE * 0.8) / 2
      in if levelComplete s \<and> \<not> gameWon s then
           (let topGridY = GRID_HEIGHT - 1;
                playerHeadGridY = getGridY (ey p + TILE_SIZE * 0.9)
            in if playerHeadGridY \<ge> topGridY - 1 then
                 (let tileAtHead = getTileAt s playerCenterX (ey p + TILE_SIZE * 0.9);
                      tileAtFeet = getTileAt s playerCenterX (ey p + 1)
                  in if tileAtHead = EXIT_LADDER \<or> tileAtFeet = EXIT_LADDER
                     then s\<lparr>gameWon := True\<rparr> else s)
               else s)
         else s)"

definition updatePlayer :: "real \<Rightarrow> game \<Rightarrow> game" where
  "updatePlayer deltaTime s =
     (if \<not> isAlive (player s) then s
      else
        (let s1 = updatePhysics PlayerRef deltaTime s;
             playerCenterX = ex (player s1) + (TILE_SIZE * 0.8) / 2;
             playerCenterY = ey (player s1) + (TILE_SIZE * 0.95) / 2;
             centerGridX = getGridX playerCenterX;
             centerGridY = getGridY playerCenterY;
             s2 = fold (\<lambda>dx. fold (\<lambda>dy. collectAt (centerGridX + dx) (centerGridY + dy))
                                   [- 1, 0, 1])
                       [- 1, 0, 1] s1
         in checkWin s2))"

subsection \<open>The enemies\<close>

text \<open>The scan for a ladder from the head upwards.\<close>

function ladderAboveFrom :: "game \<Rightarrow> real \<Rightarrow> int \<Rightarrow> bool" where
  "ladderAboveFrom s enemyCenterX gy =
     (if gy < GRID_HEIGHT then
        (let t = getTileAt s enemyCenterX (of_int gy * TILE_SIZE + 1)
         in if t = LADDER then True
            else if t = BRICK \<or> t = SOLID_BRICK then False
            else ladderAboveFrom s enemyCenterX (gy + 1))
      else False)"
  by pat_completeness auto
termination
  by (relation "measure (\<lambda>(s, cx, gy). nat (GRID_HEIGHT - gy))") auto

declare ladderAboveFrom.simps [simp del]

text \<open>An enemy placed at its start cell, as at a respawn and after catching the player.
  \<open>coin\<close> is the outcome of \<^verbatim>\<open>rand() % 2 == 0\<close>.\<close>

definition respawnEnemy :: "bool \<Rightarrow> Entity \<Rightarrow> Entity" where
  "respawnEnemy coin e =
     (let v = (if coin then 1 else - 1) * ENEMY_SPEED / 2
      in e\<lparr>ex := of_int (startGridX e) * TILE_SIZE + TILE_SIZE * 0.1,
           ey := of_int (startGridY e) * TILE_SIZE,
           vx := v, vy := 0, isClimbing := False, isOnRope := False, isFalling := False,
           faceRight := (v > 0), isTrapped := False, trappedTimer := 0,
           isAlive := True, respawnTimer := 0\<rparr>)"

definition chase :: "real \<Rightarrow> bool \<Rightarrow> bool \<Rightarrow> real \<Rightarrow> real" where
  "chase diffX canMoveLeft canMoveRight speed =
     (if diffX > TILE_SIZE * 0.2 \<and> canMoveRight then speed
      else if diffX < - TILE_SIZE * 0.2 \<and> canMoveLeft then - speed
      else 0)"

text \<open>The decision of the enemy of index \<open>i\<close>: the enemy with its rope state, the
  rope nudge and the final velocities and flags written, before its physics step.\<close>

definition enemyAI :: "nat \<Rightarrow> game \<Rightarrow> Entity" where
  "enemyAI i s =
     (let e0 = enemies s i;
          targetX = ex (player s); targetY = ey (player s);
          enemyX = ex e0; enemyY = ey e0;
          diffX = targetX - enemyX; diffY = targetY - enemyY;
          enemyWidth = TILE_SIZE * 0.8; enemyHeight = TILE_SIZE * 0.95;
          enemyCenterX = enemyX + enemyWidth / 2;
          enemyFeetY = enemyY;
          enemyHeadY = enemyY + enemyHeight;
          enemyGridX = getGridX enemyCenterX;
          enemyGridY = getGridY enemyFeetY;
          enemyHeadGridY = getGridY enemyHeadY;
          enemyOnLadder = isOnLadder s e0;
          enemyOnRope = checkOnRope s e0;
          e1 = e0\<lparr>isOnRope := enemyOnRope\<rparr>;
          ladderAtFeet = (getTileAt s enemyCenterX enemyFeetY = LADDER);
          ladderBelow = (getTileAt s enemyCenterX (enemyFeetY - 1) = LADDER \<or> ladderAtFeet);
          ladderAbove = ladderAboveFrom s enemyCenterX enemyHeadGridY;
          ropeAtLevel = (getTileAt s enemyCenterX (enemyY + enemyHeight * 0.5) = ROPE);
          canMoveLeft = canMoveTo s (enemyX - 1) enemyY enemyWidth enemyHeight
                          enemyOnRope enemyOnLadder;
          canMoveRight = canMoveTo s (enemyX + 1) enemyY enemyWidth enemyHeight
                           enemyOnRope enemyOnLadder;
          (desiredVX, desiredVY, wantsToClimb, e2) =
            (if \<bar>diffY\<bar> > TILE_SIZE * 0.75 then
               (if diffY > 0 \<and> ladderAbove then (0, CLIMB_SPEED, True, e1)
                else if diffY < 0 \<and> ladderBelow then (0, - CLIMB_SPEED, True, e1)
                else if ropeAtLevel \<and> \<bar>diffY\<bar> < TILE_SIZE * 1.5
                then (chase diffX canMoveLeft canMoveRight ROPE_SPEED, 0, False, e1)
                else (chase diffX canMoveLeft canMoveRight ENEMY_SPEED, 0, False, e1))
             else
               (if enemyOnRope then
                  (let ropeGridY = getGridY (enemyY + enemyHeight * 0.5);
                       targetRopeY = of_int ropeGridY * TILE_SIZE;
                       en = (if ropeGridY \<ge> 0 \<and> ropeGridY < GRID_HEIGHT then
                               (if \<bar>ey e1 - targetRopeY\<bar> > 1
                                then e1\<lparr>ey := ey e1 + (targetRopeY - ey e1) * 0.1\<rparr>
                                else e1)\<lparr>vy := 0, isFalling := False\<rparr>
                             else e1)
                   in (chase diffX canMoveLeft canMoveRight ROPE_SPEED, 0, False, en))
                else if ladderAtFeet \<and> \<bar>diffX\<bar> < TILE_SIZE * 0.6
                then (chase diffX canMoveLeft canMoveRight (ENEMY_SPEED / 2), 0, False, e1)
                else (chase diffX canMoveLeft canMoveRight ENEMY_SPEED, 0, False, e1)));
          desiredVX' =
            (if \<not> wantsToClimb \<and> \<not> enemyOnRope \<and> desiredVX \<noteq> 0 \<and> \<not> isFalling e2 then
               (let nextX = enemyCenterX +
                              (if desiredVX > 0 then TILE_SIZE * 0.6 else - TILE_SIZE * 0.6);
                    checkYBelowNext = enemyFeetY - 1;
                    tileBelowNext = getTileAt s nextX checkYBelowNext;
                    tileAtNextFeet = getTileAt s nextX enemyFeetY;
                    holeBelowNext =
                      (findHole (dugHoles s) (getGridX nextX, getGridY checkYBelowNext) \<noteq> None);
                    emptyBelowNext = (tileBelowNext = EMPTY \<and> \<not> holeBelowNext);
                    d1 = (if emptyBelowNext \<and> tileAtNextFeet \<noteq> LADDER \<and> tileAtNextFeet \<noteq> ROPE
                          then (if diffY > - TILE_SIZE then 0 else desiredVX)
                          else desiredVX);
                    holeAtNextFeet =
                      (findHole (dugHoles s) (getGridX nextX, enemyGridY) \<noteq> None)
                in if holeAtNextFeet \<and> tileAtNextFeet \<noteq> LADDER \<and> tileAtNextFeet \<noteq> ROPE
                   then 0 else d1)
             else desiredVX)
      in e2\<lparr>vx := desiredVX', vy := desiredVY, isClimbing := wantsToClimb,
            faceRight := (if desiredVX' \<noteq> 0 then desiredVX' > 0 else faceRight e2)\<rparr>)"

text \<open>The contact of enemy \<open>i\<close> with the player, after the physics step of the enemy.\<close>

definition catchPlayer :: "bool \<Rightarrow> nat \<Rightarrow> game \<Rightarrow> game" where
  "catchPlayer coin i s =
     (let enemyWidth = TILE_SIZE * 0.8; enemyHeight = TILE_SIZE * 0.95
      in if \<not> isTrapped (player s) \<and>
            isColliding (ex (player s)) (ey (player s)) (TILE_SIZE * 0.8) (TILE_SIZE * 0.95)
              (ex (enemies s i)) (ey (enemies s i)) enemyWidth enemyHeight
         then
           (if \<not> gameOver s \<and> \<not> gameWon s then
              (let s1 = s\<lparr>lives := lives s - 1\<rparr>
               in if lives s1 \<le> 0 then s1\<lparr>gameOver := True\<rparr>
                  else
                    (let p = player s1;
                         e = enemies s1 i;
                         v = (if coin then 1 else - 1) * ENEMY_SPEED / 2
                     in s1\<lparr>player := p\<lparr>ex := of_int (startGridX p) * TILE_SIZE + TILE_SIZE * 0.1,
                                        ey := of_int (startGridY p) * TILE_SIZE,
                                        vx := 0, vy := 0, isFalling := False,
                                        isTrapped := False, isJumping := False\<rparr>,
                           enemies := (enemies s1)(i :=
                             e\<lparr>ex := of_int (startGridX e) * TILE_SIZE + TILE_SIZE * 0.1,
                               ey := of_int (startGridY e) * TILE_SIZE,
                               vx := v, isAlive := True, isTrapped := False, vy := 0,
                               isClimbing := False, isOnRope := False, isFalling := False,
                               faceRight := (v > 0)\<rparr>)\<rparr>))
            else s)
         else s)"

text \<open>One iteration of the loop of \<^verbatim>\<open>updateEnemies\<close>. \<open>rnd i\<close> is the outcome of
  the call of \<^verbatim>\<open>rand\<close> for enemy \<open>i\<close> in this tick (an iteration makes at most one).\<close>

definition updateEnemy :: "real \<Rightarrow> (nat \<Rightarrow> bool) \<Rightarrow> nat \<Rightarrow> game \<Rightarrow> game" where
  "updateEnemy deltaTime rnd i s =
     (if \<not> isAlive (enemies s i) then
        (let e1 = (enemies s i)\<lparr>respawnTimer := respawnTimer (enemies s i) - deltaTime\<rparr>
         in s\<lparr>enemies := (enemies s)(i := (if respawnTimer e1 \<le> 0
                                              then respawnEnemy (rnd i) e1 else e1))\<rparr>)
      else if isTrapped (enemies s i) then updatePhysics (EnemyRef i) deltaTime s
      else
        catchPlayer (rnd i) i
          (updatePhysics (EnemyRef i) deltaTime (s\<lparr>enemies := (enemies s)(i := enemyAI i s)\<rparr>)))"

definition updateEnemies :: "real \<Rightarrow> (nat \<Rightarrow> bool) \<Rightarrow> game \<Rightarrow> game" where
  "updateEnemies deltaTime rnd s = fold (updateEnemy deltaTime rnd) [0..<numEnemies] s"

subsection \<open>The end of the level\<close>

definition revealColumn :: "int \<Rightarrow> game \<Rightarrow> game" where
  "revealColumn cx s =
     (if level s (GRID_HEIGHT - 2) cx = LADDER then
        (if level s (GRID_HEIGHT - 1) cx = EMPTY \<or> level s (GRID_HEIGHT - 1) cx = LADDER
         then s\<lparr>level := (level s)(GRID_HEIGHT - 1 := (level s (GRID_HEIGHT - 1))(cx := EXIT_LADDER))\<rparr>
         else s)
      else s)"

definition revealExitLadder :: "game \<Rightarrow> game" where
  "revealExitLadder s =
     (let s1 = fold revealColumn [0..GRID_WIDTH - 1] s;
          foundExit = list_ex (\<lambda>cx. level s1 (GRID_HEIGHT - 1) cx = EXIT_LADDER)
                        [0..GRID_WIDTH - 1]
      in if \<not> foundExit then
           (let centerX = GRID_WIDTH div 2
            in if level s1 (GRID_HEIGHT - 2) centerX = LADDER \<or>
                  level s1 (GRID_HEIGHT - 2) centerX = EMPTY
               then s1\<lparr>level := (level s1)(GRID_HEIGHT - 1 :=
                                   (level s1 (GRID_HEIGHT - 1))(centerX := EXIT_LADDER))\<rparr>
               else s1)
         else s1)"

definition checkLevelCompletion :: "game \<Rightarrow> game" where
  "checkLevelCompletion s =
     (if \<not> levelComplete s \<and> collectiblesCollected s \<ge> totalCollectibles s \<and>
         totalCollectibles s > 0
      then revealExitLadder (s\<lparr>levelComplete := True\<rparr>)
      else s)"

subsection \<open>The tick\<close>

text \<open>\<^verbatim>\<open>update\<close>, from the time elapsed since the last call, which the source
  reads from the clock.\<close>

definition update :: "real \<Rightarrow> (nat \<Rightarrow> bool) \<Rightarrow> game \<Rightarrow> game" where
  "update elapsed rnd s =
     (let maxDeltaTime = 0.1;
          deltaTime = (if elapsed > maxDeltaTime then maxDeltaTime else elapsed);
          s1 = s\<lparr>gameTime := gameTime s + deltaTime\<rparr>
      in if \<not> gameOver s1 \<and> \<not> gameWon s1 then
           checkLevelCompletion
             (updateDigging deltaTime
               (updateEnemies deltaTime rnd
                 (updatePlayer deltaTime
                   (handleInput deltaTime s1))))
         else s1)"

subsection \<open>Loading the level\<close>

text \<open>The compiled layout, top row first.\<close>

definition levelLayout :: "string list" where
  "levelLayout =
     [''SSSSSSSSSSSSSSSSSSSS'',
      ''SEEEEEEEEEEEEEEEEEES'',
      ''SCBBCBBLBBBBBLBBCBCS'',
      ''SLRRRRRLRRRRRLRRRRRS'',
      ''SL C C L C C L C C LS'',
      ''SCBBLBBBLELBBBBLBBBS'',
      ''SRRRRR C L C C RRCRRS'',
      ''SE E E B L B E E E ES'',
      ''SBBBEBBBLBLBBBBBBBBS'',
      ''SC RRRR L L RRRRR CS'',
      ''SE E E B L B E E E ES'',
      ''SBCBEBBBLBLBBBEBBEBS'',
      ''SXXXXXXELPBLXXXXXXBS'',
      ''SEEEEE B B B EEEEEES'',
      ''SSSSSSSSSSSSSSSSSSSS'']"

definition setTile :: "int \<Rightarrow> int \<Rightarrow> TileType \<Rightarrow> game \<Rightarrow> game" where
  "setTile gy gx t s = s\<lparr>level := (level s)(gy := (level s gy)(gx := t))\<rparr>"

definition setCollectible :: "int \<Rightarrow> int \<Rightarrow> int \<Rightarrow> game \<Rightarrow> game" where
  "setCollectible gy gx v s = s\<lparr>collectibles := (collectibles s)(gy := (collectibles s gy)(gx := v))\<rparr>"

text \<open>The local variables of \<^verbatim>\<open>initLevel\<close> next to the state.\<close>

record loader =
  lgame :: game
  playerStartX :: int
  playerStartY :: int
  enemyStartPositions :: "(int \<times> int) list"

definition clearCell :: "int \<Rightarrow> int \<Rightarrow> game \<Rightarrow> game" where
  "clearCell gy gx s = setCollectible gy gx 0 (setTile gy gx EMPTY s)"

definition loadCell :: "int \<Rightarrow> int \<Rightarrow> loader \<Rightarrow> loader" where
  "loadCell gy gx l =
     (let layoutHeight = int (length levelLayout);
          layoutY = layoutHeight - 1 - gy
      in if layoutY < 0 \<or> layoutY \<ge> layoutHeight then l
         else
           (let row = levelLayout ! nat layoutY
            in if gx \<ge> int (length row) then l
               else
                 (let tileChar = row ! nat gx; s = lgame l
                  in if tileChar = CHR ''S'' then l\<lparr>lgame := setTile gy gx SOLID_BRICK s\<rparr>
                     else if tileChar = CHR ''B'' then l\<lparr>lgame := setTile gy gx BRICK s\<rparr>
                     else if tileChar = CHR ''L'' then l\<lparr>lgame := setTile gy gx LADDER s\<rparr>
                     else if tileChar = CHR ''R'' then l\<lparr>lgame := setTile gy gx ROPE s\<rparr>
                     else if tileChar = CHR ''C'' then
                       (let s1 = setTile gy gx BRICK s;
                            s2 = (if gy + 1 < GRID_HEIGHT then setCollectible (gy + 1) gx 1 s1
                                  else setCollectible gy gx 1 s1)
                        in l\<lparr>lgame := s2\<lparr>totalCollectibles := totalCollectibles s2 + 1\<rparr>\<rparr>)
                     else if tileChar = CHR ''P'' then
                       l\<lparr>lgame := setTile gy gx EMPTY s, playerStartX := gx, playerStartY := gy\<rparr>
                     else if tileChar = CHR ''X'' then
                       l\<lparr>lgame := setTile gy gx EMPTY s,
                         enemyStartPositions := enemyStartPositions l @ [(gx, gy)]\<rparr>
                     else l\<lparr>lgame := setTile gy gx EMPTY s\<rparr>)))"

definition assignEnemyStart :: "(int \<times> int) list \<Rightarrow> nat \<Rightarrow> game \<Rightarrow> game" where
  "assignEnemyStart ps i s =
     (let e = enemies s i;
          e' = (if ps \<noteq> [] then e\<lparr>startGridX := fst (ps ! (i mod length ps)),
                                   startGridY := snd (ps ! (i mod length ps))\<rparr>
                else e\<lparr>startGridX := GRID_WIDTH - 2 - int i, startGridY := 2\<rparr>)
      in s\<lparr>enemies := (enemies s)(i := e')\<rparr>)"

definition initLevel :: "game \<Rightarrow> game" where
  "initLevel s =
     (let s0 = s\<lparr>totalCollectibles := 0, levelComplete := False\<rparr>;
          s1 = fold (\<lambda>gy. fold (clearCell gy) [0..GRID_WIDTH - 1]) [0..GRID_HEIGHT - 1] s0;
          l = fold (\<lambda>gy. fold (loadCell gy) [0..GRID_WIDTH - 1]) [0..GRID_HEIGHT - 1]
                \<lparr>lgame = s1, playerStartX = 1, playerStartY = 3, enemyStartPositions = []\<rparr>;
          s2 = (lgame l)\<lparr>player := (player (lgame l))\<lparr>startGridX := playerStartX l,
                                                       startGridY := playerStartY l\<rparr>\<rparr>
      in fold (assignEnemyStart (enemyStartPositions l)) [0..<numEnemies] s2)"

text \<open>\<^verbatim>\<open>initEntities\<close>; for an enemy it writes the fields a respawn writes.\<close>

definition initEntities :: "(nat \<Rightarrow> bool) \<Rightarrow> game \<Rightarrow> game" where
  "initEntities rnd s =
     (let p = player s;
          s1 = s\<lparr>player := p\<lparr>ex := of_int (startGridX p) * TILE_SIZE + TILE_SIZE * 0.1,
                              ey := of_int (startGridY p) * TILE_SIZE,
                              vx := 0, vy := 0, isJumping := False, isClimbing := False,
                              isOnRope := False, isFalling := False, faceRight := True,
                              isTrapped := False, trappedTimer := 0, isAlive := True,
                              respawnTimer := 0\<rparr>\<rparr>
      in fold (\<lambda>i g. g\<lparr>enemies := (enemies g)(i := respawnEnemy (rnd i) (enemies g i))\<rparr>)
           [0..<numEnemies] s1)"

text \<open>\<^verbatim>\<open>init\<close> without the graphics, which is also \<^verbatim>\<open>resetGame\<close>.\<close>

definition init :: "(nat \<Rightarrow> bool) \<Rightarrow> game \<Rightarrow> game" where
  "init rnd s =
     (initEntities rnd (initLevel s))\<lparr>score := 0, lives := INITIAL_LIVES,
        collectiblesCollected := 0, gameOver := False, gameWon := False,
        levelComplete := False, dugHoles := [], gameTime := 0\<rparr>"

text \<open>The memory before \<^verbatim>\<open>main\<close> runs: the initialisers of the globals, zeroes
  elsewhere.\<close>

definition zeroEntity :: Entity where
  "zeroEntity = \<lparr>ex = 0, ey = 0, vx = 0, vy = 0, isJumping = False, isClimbing = False,
     isOnRope = False, isFalling = False, faceRight = False, isTrapped = False,
     trappedTimer = 0, isAlive = False, respawnTimer = 0, startGridX = 0, startGridY = 0\<rparr>"

definition startMemory :: game where
  "startMemory = \<lparr>player = zeroEntity, enemies = (\<lambda>i. zeroEntity), level = (\<lambda>gy gx. EMPTY),
     dugHoles = [], gameOver = False, gameWon = False, levelComplete = False,
     keyStates = (\<lambda>c. False), specialKeyStates = (\<lambda>k. False),
     collectibles = (\<lambda>gy gx. 0), collectiblesCollected = 0, totalCollectibles = 0,
     score = 0, lives = INITIAL_LIVES, gameTime = 0\<rparr>"

text \<open>The state when the game starts.\<close>

definition newGame :: "(nat \<Rightarrow> bool) \<Rightarrow> game" where
  "newGame rnd = init rnd startMemory"

section \<open>Notions used to state the properties\<close>

subsection \<open>The loaded level in closed form\<close>

text \<open>The tile that the \<^verbatim>\<open>switch\<close> of \<^verbatim>\<open>initLevel\<close> stores for a character.\<close>

definition tileOfChar :: "char \<Rightarrow> TileType" where
  "tileOfChar c =
     (if c = CHR ''S'' then SOLID_BRICK
      else if c = CHR ''B'' \<or> c = CHR ''C'' then BRICK
      else if c = CHR ''L'' then LADDER
      else if c = CHR ''R'' then ROPE
      else EMPTY)"

definition layoutTile :: "int \<Rightarrow> int \<Rightarrow> TileType" where
  "layoutTile gy gx = tileOfChar (levelLayout ! nat (14 - gy) ! nat gx)"

definition inLayout :: "int \<Rightarrow> int \<Rightarrow> bool" where
  "inLayout gy gx =
     (0 \<le> gy \<and> gy \<le> 14 \<and> 0 \<le> gx \<and> gx < int (length (levelLayout ! nat (14 - gy))))"

text \<open>1 for a cell of the layout that holds a collectible, 0 otherwise.\<close>

definition collectibleAt :: "int \<Rightarrow> int \<Rightarrow> int" where
  "collectibleAt gy gx =
     (if inLayout gy gx \<and> levelLayout ! nat (14 - gy) ! nat gx = CHR ''C'' then 1 else 0)"

subsection \<open>The registry\<close>

text \<open>What \<^verbatim>\<open>digHole\<close> establishes for every entry of the registry: the key is a
  cell of the grid, the entry records its own key and the kind \<open>BRICK\<close>; the keys of a
  \<^verbatim>\<open>std::map\<close> are distinct.\<close>

definition holesInGrid :: "holes \<Rightarrow> bool" where
  "holesInGrid hs = list_all (\<lambda>(k, h). inGrid (fst k) (snd k)) hs"

definition holeOk :: "(int \<times> int) \<times> DugHole \<Rightarrow> bool" where
  "holeOk kh = (inGrid (fst (fst kh)) (snd (fst kh)) \<and> hgridX (snd kh) = fst (fst kh) \<and>
                hgridY (snd kh) = snd (fst kh) \<and> originalType (snd kh) = BRICK)"

definition holesWf :: "holes \<Rightarrow> bool" where
  "holesWf hs = (distinct (map fst hs) \<and> list_all holeOk hs)"

text \<open>An entry whose time is up in a tick of length \<open>deltaTime\<close>, and an entry after
  the tick.\<close>

definition expired :: "real \<Rightarrow> DugHole \<Rightarrow> bool" where
  "expired deltaTime h = (timer h - deltaTime \<le> 0)"

definition decay :: "real \<Rightarrow> (int \<times> int) \<times> DugHole \<Rightarrow> (int \<times> int) \<times> DugHole" where
  "decay deltaTime kh = (fst kh, (snd kh)\<lparr>timer := timer (snd kh) - deltaTime\<rparr>)"

text \<open>The entity is trapped in the cell of an entry that is refilled in the tick.\<close>

definition refilledUnder :: "real \<Rightarrow> holes \<Rightarrow> Entity \<Rightarrow> bool" where
  "refilledUnder deltaTime hs e =
     list_ex (\<lambda>kh. expired deltaTime (snd kh) \<and> inGrid (hgridX (snd kh)) (hgridY (snd kh)) \<and>
                   trappedIn e (hgridX (snd kh)) (hgridY (snd kh))) hs"

text \<open>The cell is written by a refill of the tick.\<close>

definition refilledCell :: "real \<Rightarrow> holes \<Rightarrow> int \<Rightarrow> int \<Rightarrow> bool" where
  "refilledCell deltaTime hs cy cx =
     list_ex (\<lambda>kh. expired deltaTime (snd kh) \<and> inGrid (hgridX (snd kh)) (hgridY (snd kh)) \<and>
                   hgridX (snd kh) = cx \<and> hgridY (snd kh) = cy) hs"

text \<open>The player as a refill frees it.\<close>

definition freed :: "Entity \<Rightarrow> Entity" where
  "freed p = p\<lparr>isTrapped := False, ey := ey p + 5, isFalling := True\<rparr>"

subsection \<open>Example states\<close>

definition heads :: "nat \<Rightarrow> bool" where
  "heads i = True"

definition standing :: "real \<Rightarrow> real \<Rightarrow> Entity" where
  "standing px py =
     \<lparr>ex = px, ey = py, vx = 0, vy = 0, isJumping = False, isClimbing = False,
      isOnRope = False, isFalling = False, faceRight = True, isTrapped = False,
      trappedTimer = 0, isAlive = True, respawnTimer = 0, startGridX = 1, startGridY = 2\<rparr>"

definition brickHole :: "int \<Rightarrow> int \<Rightarrow> real \<Rightarrow> (int \<times> int) \<times> DugHole" where
  "brickHole gx gy t = ((gx, gy), \<lparr>hgridX = gx, hgridY = gy, timer = t, originalType = BRICK\<rparr>)"

text \<open>The new game after a dig at the brick of column 3, row 3.\<close>

definition dugGame :: game where
  "dugGame = digHole 3 3 (newGame heads)"

text \<open>Two holes, the first one about to be refilled, with enemy 0 and the player
  trapped in it.\<close>

definition refillGame :: game where
  "refillGame =
     (newGame heads)\<lparr>dugHoles := [brickHole 3 3 0.01, brickHole 5 3 5],
                      player := (standing 124 120)\<lparr>isTrapped := True, trappedTimer := 0.01\<rparr>,
                      enemies := (enemies (newGame heads))
                        (0 := (standing 124 120)\<lparr>isTrapped := True, trappedTimer := 0.01\<rparr>)\<rparr>"

text \<open>Three holes, the second one about to be refilled: enemy 0 is trapped in the
  first one with a velocity requested, the player falls into the second one and
  enemy 2 falls into the third one.\<close>

definition trapGame :: game where
  "trapGame =
     (newGame heads)\<lparr>dugHoles := [brickHole 3 3 5, brickHole 5 3 0.05, brickHole 11 3 5],
                      player := (standing 204 125)\<lparr>vy := - 50, isFalling := True\<rparr>,
                      enemies := (\<lambda>i. standing 44 40)
                        (0 := (standing 124 120)\<lparr>isTrapped := True, trappedTimer := 4.9,
                                                   vx := 120, vy := - 8\<rparr>,
                         2 := (standing 444 125)\<lparr>vy := - 50, isFalling := True\<rparr>)\<rparr>"

subsection \<open>Horizontal blocking\<close>

text \<open>The condition under which the horizontal collision of the source blocks, from
  the flag \<open>onValidTraversal\<close> and the three samples.\<close>

definition ladderOrRope :: "TileType \<Rightarrow> bool" where
  "ladderOrRope t = (t = LADDER \<or> t = ROPE)"

definition blocksInCode :: "bool \<Rightarrow> TileType \<times> TileType \<times> TileType \<Rightarrow> bool" where
  "blocksInCode traversal samples =
     (case samples of (tileBottom, tileMiddle, tileTop) \<Rightarrow>
        (solid tileBottom \<or> solid tileMiddle \<or> solid tileTop) \<and>
        \<not> (traversal \<and>
           (ladderOrRope tileBottom \<or> ladderOrRope tileMiddle \<or> ladderOrRope tileTop)))"

text \<open>The condition in the words of the specification: a sample that is a brick
  blocks unless the entity is on a traversal and that sample is itself a ladder or a
  rope.\<close>

definition blocksAsStated :: "bool \<Rightarrow> TileType \<times> TileType \<times> TileType \<Rightarrow> bool" where
  "blocksAsStated traversal samples =
     (case samples of (tileBottom, tileMiddle, tileTop) \<Rightarrow>
        list_ex (\<lambda>t. solid t \<and> \<not> (traversal \<and> ladderOrRope t))
          [tileBottom, tileMiddle, tileTop])"

text \<open>The position the source snaps to.\<close>

definition snapX :: "real \<Rightarrow> Entity \<Rightarrow> real" where
  "snapX newX entity =
     (if vx entity < 0 then of_int (getGridX newX + 1) * TILE_SIZE
      else of_int (getGridX (newX + TILE_SIZE * 0.8)) * TILE_SIZE - TILE_SIZE * 0.8)"

text \<open>The player on the rope of row 11, slightly below its level, moving right towards
  the brick of column 3, row 10; and the player on the floor of row 2 walking right
  into the brick of column 10.\<close>

definition ropeGame :: game where
  "ropeGame = (newGame heads)\<lparr>player := (standing 87 430)\<lparr>isOnRope := True, vx := 150\<rparr>,
                               enemies := (\<lambda>i. standing 44 40)\<rparr>"

definition walkGame :: game where
  "walkGame = (newGame heads)\<lparr>player := (standing 366 80)\<lparr>vx := 150\<rparr>,
                               enemies := (\<lambda>i. standing 44 40)\<rparr>"

subsection \<open>Lives\<close>

text \<open>The loss of a life, as the source writes it at both places: \<^verbatim>\<open>lives--\<close>, then
  \<^verbatim>\<open>gameOver = true\<close> when no life is left.\<close>

definition loseLife :: "game \<Rightarrow> game" where
  "loseLife s =
     (if lives s - 1 \<le> 0 then s\<lparr>lives := lives s - 1, gameOver := True\<rparr>
      else s\<lparr>lives := lives s - 1\<rparr>)"

text \<open>The entity of \<open>movePhysics\<close> at the moment the boundary checks start.\<close>

definition preBoundary :: "eref \<Rightarrow> real \<Rightarrow> game \<Rightarrow> Entity" where
  "preBoundary r deltaTime s =
     (let e1 = applyGravity deltaTime (getE r s);
          oldY = ey e1;
          newX = ex e1 + vx e1 * deltaTime;
          newY = ey e1 + vy e1 * deltaTime;
          (newY2, e2) = verticalCollision r s oldY newX newY e1;
          (newX3, e3) = horizontalCollision s newX newY2 e2
      in e3\<lparr>ex := newX3, ey := newY2\<rparr>)"

text \<open>The off-screen fall of an entity in its physics step: it is not trapped and the
  boundary check finds it below the floor threshold.\<close>

definition fellOff :: "eref \<Rightarrow> real \<Rightarrow> game \<Rightarrow> bool" where
  "fellOff r deltaTime s =
     (\<not> isTrapped (getE r s) \<and> ey (preBoundary r deltaTime s) < - TILE_SIZE)"

text \<open>The contact of enemy \<open>i\<close> with the player, as \<open>catchPlayer\<close> tests it.\<close>

definition contact :: "nat \<Rightarrow> game \<Rightarrow> bool" where
  "contact i s =
     (\<not> isTrapped (player s) \<and>
      isColliding (ex (player s)) (ey (player s)) (TILE_SIZE * 0.8) (TILE_SIZE * 0.95)
        (ex (enemies s i)) (ey (enemies s i)) (TILE_SIZE * 0.8) (TILE_SIZE * 0.95))"

text \<open>The state in which \<open>updateEnemy\<close> tests the contact of a live enemy that is not
  trapped: after its decision and its physics step.\<close>

definition afterEnemyStep :: "real \<Rightarrow> nat \<Rightarrow> game \<Rightarrow> game" where
  "afterEnemyStep deltaTime i s =
     updatePhysics (EnemyRef i) deltaTime (s\<lparr>enemies := (enemies s)(i := enemyAI i s)\<rparr>)"

definition caught :: "real \<Rightarrow> nat \<Rightarrow> game \<Rightarrow> bool" where
  "caught deltaTime i s =
     (isAlive (enemies s i) \<and> \<not> isTrapped (enemies s i) \<and>
      contact i (afterEnemyStep deltaTime i s) \<and> \<not> gameOver s \<and> \<not> gameWon s)"

subsection \<open>Invariants of the session\<close>

text \<open>Every entry of the registry is well formed and lies on a cell that the grid
  stores as \<open>BRICK\<close>.\<close>

definition brickUnderHoles :: "game \<Rightarrow> bool" where
  "brickUnderHoles s =
     (holesWf (dugHoles s) \<and>
      list_all (\<lambda>kh. level s (snd (fst kh)) (fst (fst kh)) = BRICK) (dugHoles s))"

text \<open>The game is over exactly when no life is left.\<close>

definition overIffNoLives :: "game \<Rightarrow> bool" where
  "overIffNoLives s = (gameOver s = (lives s \<le> 0))"

text \<open>The time step of a tick, from the time elapsed.\<close>

definition clampDelta :: "real \<Rightarrow> real" where
  "clampDelta elapsed = (if elapsed > 0.1 then 0.1 else elapsed)"

text \<open>The fallback of the exit reveal writes the centre cell of the top row, which the
  loaded level stores as \<open>SOLID_BRICK\<close>: that cell is no \<open>BRICK\<close>.\<close>

definition topCentreNotBrick :: "game \<Rightarrow> bool" where
  "topCentreNotBrick s = (level s (GRID_HEIGHT - 1) (GRID_WIDTH div 2) \<noteq> BRICK)"

definition sessionInv :: "game \<Rightarrow> bool" where
  "sessionInv s = (brickUnderHoles s \<and> topCentreNotBrick s \<and> overIffNoLives s)"

text \<open>The steps of a tick that is not skipped, for the clamped time step.\<close>

definition tickSteps :: "real \<Rightarrow> (nat \<Rightarrow> bool) \<Rightarrow> game \<Rightarrow> game" where
  "tickSteps dt rnd s =
     checkLevelCompletion (updateDigging dt (updateEnemies dt rnd (updatePlayer dt (handleInput dt s))))"

text \<open>The states of a session: the new game, a tick, a change of the key tables by the
  keyboard callbacks, and the reset that \<^verbatim>\<open>keyboardDown\<close> runs for the key R when the game
  is over or won.\<close>

inductive reachable :: "game \<Rightarrow> bool" where
  start: "reachable (newGame rnd)"
| tick: "reachable s \<Longrightarrow> reachable (update elapsed rnd s)"
| keys: "reachable s \<Longrightarrow> reachable (s\<lparr>keyStates := k, specialKeyStates := sk\<rparr>)"
| reset: "reachable s \<Longrightarrow> gameOver s \<or> gameWon s \<Longrightarrow> reachable (init rnd s)"

text \<open>The new game with every collectible collected.\<close>

definition collectedGame :: game where
  "collectedGame = (newGame heads)\<lparr>collectiblesCollected := totalCollectibles (newGame heads),
                                    enemies := (\<lambda>i. standing 44 40)\<rparr>"

text \<open>The game over; the player on the floor of the pit with a downward velocity that
  takes it below the window in one tick; an enemy next to the player on that floor.\<close>

definition overGame :: game where
  "overGame = (newGame heads)\<lparr>lives := 0, gameOver := True\<rparr>"

definition fallGame :: game where
  "fallGame = (newGame heads)\<lparr>player := (standing 124 40)\<lparr>vy := - 8000, isFalling := True\<rparr>,
                               enemies := (\<lambda>i. standing 44 40),
                               keyStates := (\<lambda>c. False), specialKeyStates := (\<lambda>k. False)\<rparr>"

definition contactGame :: game where
  "contactGame = (newGame heads)\<lparr>player := standing 84 40, enemies := (\<lambda>i. standing 100 40)\<rparr>"

text \<open>The last life: the player and the enemies next to each other on the floor of the
  pit, no key pressed.\<close>

definition lastLifeGame :: game where
  "lastLifeGame = contactGame\<lparr>lives := 1, keyStates := (\<lambda>c. False),
                              specialKeyStates := (\<lambda>k. False)\<rparr>"

text \<open>The state inside a tick of \<^verbatim>\<open>update\<close> after the first iteration of the loop of
  \<^verbatim>\<open>updateEnemies\<close>.\<close>

definition afterFirstEnemy :: "real \<Rightarrow> (nat \<Rightarrow> bool) \<Rightarrow> game \<Rightarrow> game" where
  "afterFirstEnemy elapsed rnd s =
     (let deltaTime = clampDelta elapsed
      in updateEnemy deltaTime rnd 0
           (updatePlayer deltaTime
             (handleInput deltaTime (s\<lparr>gameTime := gameTime s + deltaTime\<rparr>))))"

text \<open>No key is pressed, the player stands on the bricks of row 9, and the enemies hang
  on the rope of row 8 below the ladder of column 4.\<close>

definition climbGame :: game where
  "climbGame = (newGame heads)\<lparr>player := standing 84 400,
                                enemies := (\<lambda>i. (standing 164 320)\<lparr>isOnRope := True\<rparr>),
                                keyStates := (\<lambda>c. False), specialKeyStates := (\<lambda>k. False)\<rparr>"

section \<open>Properties\<close>

lemmas consts_defs =
  WINDOW_WIDTH_def WINDOW_HEIGHT_def GRID_WIDTH_def GRID_HEIGHT_def TILE_SIZE_def
  PLAYER_SPEED_def ENEMY_SPEED_def GRAVITY_def JUMP_FORCE_def CLIMB_SPEED_def
  ROPE_SPEED_def INITIAL_LIVES_def DIG_REFILL_TIME_def POINTS_PER_COLLECTIBLE_def
  ENEMY_RESPAWN_DELAY_def

subsection \<open>The loaded level\<close>


lemma length_levelLayout: "length levelLayout = 15"
  by (simp add: levelLayout_def)

lemma level_setTile [simp]: "level (setTile gy gx t s) = (level s)(gy := (level s gy)(gx := t))"
  by (simp add: setTile_def)

lemma level_setCollectible [simp]: "level (setCollectible gy gx v s) = level s"
  by (simp add: setCollectible_def)

lemma loadCell_level:
  "0 \<le> gx \<Longrightarrow> level (lgame (loadCell gy gx l)) =
     (if inLayout gy gx then (level (lgame l))(gy := (level (lgame l) gy)(gx := layoutTile gy gx))
      else level (lgame l))"
  by (auto simp add: loadCell_def Let_def length_levelLayout inLayout_def layoutTile_def tileOfChar_def)

lemma fold_loadCell_level:
  "\<forall>x\<in>set xs. 0 \<le> x \<Longrightarrow>
   level (lgame (fold (loadCell gy) xs l)) y x =
     (if y = gy \<and> x \<in> set xs \<and> inLayout gy x then layoutTile gy x else level (lgame l) y x)"
proof (induction xs arbitrary: l)
  case Nil
  then show ?case by simp
next
  case (Cons a xs)
  then show ?case by (auto simp add: loadCell_level)
qed

lemma fold2_loadCell_level:
  "\<forall>x\<in>set xs. 0 \<le> x \<Longrightarrow>
   level (lgame (fold (\<lambda>gy. fold (loadCell gy) xs) ys l)) y x =
     (if y \<in> set ys \<and> x \<in> set xs \<and> inLayout y x then layoutTile y x else level (lgame l) y x)"
proof (induction ys arbitrary: l)
  case Nil
  then show ?case by simp
next
  case (Cons a ys)
  then show ?case by (auto simp add: fold_loadCell_level)
qed

lemma fold_clearCell_level:
  "level (fold (clearCell gy) xs s) y x =
     (if y = gy \<and> x \<in> set xs then EMPTY else level s y x)"
  by (induction xs arbitrary: s) (auto simp add: clearCell_def)

lemma fold2_clearCell_level:
  "level (fold (\<lambda>gy. fold (clearCell gy) xs) ys s) y x =
     (if y \<in> set ys \<and> x \<in> set xs then EMPTY else level s y x)"
  by (induction ys arbitrary: s) (auto simp add: fold_clearCell_level)

lemma fold_assignEnemyStart_level [simp]:
  "level (fold (assignEnemyStart ps) is s) = level s"
  by (induction "is" arbitrary: s) (auto simp add: assignEnemyStart_def Let_def)

lemma level_initLevel:
  "level (initLevel s) y x =
     (if 0 \<le> y \<and> y \<le> 14 \<and> 0 \<le> x \<and> x \<le> 19
      then (if inLayout y x then layoutTile y x else EMPTY)
      else level s y x)"
  by (simp add: initLevel_def Let_def fold2_loadCell_level fold2_clearCell_level GRID_WIDTH_def GRID_HEIGHT_def)

lemma fold_respawn_level [simp]:
  "level (fold (\<lambda>i g. g\<lparr>enemies := (enemies g)(i := f i g)\<rparr>) is s) = level s"
  by (induction "is" arbitrary: s) auto

lemma layout_rows_long: "list_all (\<lambda>row. 20 \<le> length row) levelLayout"
  by (simp add: levelLayout_def)

lemma inLayout_grid: "0 \<le> y \<Longrightarrow> y \<le> 14 \<Longrightarrow> 0 \<le> x \<Longrightarrow> x \<le> 19 \<Longrightarrow> inLayout y x"
proof -
  assume a: "0 \<le> y" "y \<le> 14" "0 \<le> x" "x \<le> 19"
  have "nat (14 - y) < length levelLayout"
    using a by (simp add: length_levelLayout)
  then have "20 \<le> length (levelLayout ! nat (14 - y))"
    using layout_rows_long by (simp add: list_all_length)
  then show ?thesis using a by (simp add: inLayout_def)
qed

lemma level_newGame:
  "level (newGame rnd) y x =
     (if 0 \<le> y \<and> y \<le> 14 \<and> 0 \<le> x \<and> x \<le> 19 then layoutTile y x else EMPTY)"
  by (simp add: newGame_def init_def initEntities_def Let_def level_initLevel inLayout_grid
      startMemory_def)

lemma dugHoles_newGame [simp]: "dugHoles (newGame rnd) = []"
  by (simp add: newGame_def init_def)



subsection \<open>The registry and the tile query\<close>


lemma findHole_Nil [simp]: "findHole [] k = None"
  by (simp add: findHole_def)

lemma findHole_assignHole:
  "findHole (assignHole k h hs) = (findHole hs)(k \<mapsto> h)"
  by (induction hs) (auto simp add: findHole_def fun_eq_iff)

lemma length_assignHole:
  "findHole hs k = None \<Longrightarrow> length (assignHole k h hs) = Suc (length hs)"
  by (induction hs) (auto simp add: findHole_def split: if_splits)

lemma set_assignHole:
  "findHole hs k = None \<Longrightarrow> set (assignHole k h hs) = insert (k, h) (set hs)"
  by (induction hs) (auto simp add: findHole_def split: if_splits)

lemma findHole_Some_mem: "findHole hs k = Some h \<Longrightarrow> (k, h) \<in> set hs"
  by (simp add: findHole_def map_of_SomeD)

lemma holesInGrid_find:
  "holesInGrid hs \<Longrightarrow> findHole hs (gx, gy) \<noteq> None \<Longrightarrow> inGrid gx gy"
  by (auto simp add: holesInGrid_def list_all_iff dest!: findHole_Some_mem)

lemma holesInGrid_digHole:
  "holesInGrid (dugHoles s) \<Longrightarrow> holesInGrid (dugHoles (digHole gx gy s))"
  by (auto simp add: digHole_def holesInGrid_def list_all_iff set_assignHole inGrid_def)

subsection \<open>The refill of the holes\<close>


lemma fold_refillEnemy_enemies:
  "enemies (fold (refillEnemy cx cy) js s) i =
     (if i \<in> set js \<and> isAlive (enemies s i) \<and> trappedIn (enemies s i) cx cy
      then killEnemy (enemies s i) else enemies s i)"
proof (induction js arbitrary: s)
  case Nil
  then show ?case by simp
next
  case (Cons a js)
  show ?case
    by (simp add: Cons.IH) (auto simp add: refillEnemy_def killEnemy_def)
qed

lemma fold_refillEnemy_frame:
  "\<exists>E. fold (refillEnemy cx cy) js s = s\<lparr>enemies := E\<rparr>"
proof (induction js arbitrary: s)
  case Nil
  have "s = s\<lparr>enemies := enemies s\<rparr>" by simp
  then show ?case by (metis fold_simps(1))
next
  case (Cons a js)
  obtain E where "fold (refillEnemy cx cy) js (refillEnemy cx cy a s) = (refillEnemy cx cy a s)\<lparr>enemies := E\<rparr>"
    using Cons.IH by blast
  then have "fold (refillEnemy cx cy) (a # js) s = s\<lparr>enemies := E\<rparr>"
    by (simp add: refillEnemy_def)
  then show ?case by blast
qed

lemma refillHole_enemies:
  "enemies (refillHole h s) i =
     (if inGrid (hgridX h) (hgridY h) \<and> i < numEnemies \<and> isAlive (enemies s i) \<and>
         trappedIn (enemies s i) (hgridX h) (hgridY h)
      then killEnemy (enemies s i) else enemies s i)"
  by (simp add: refillHole_def Let_def fold_refillEnemy_enemies inGrid_def)

lemma refillHole_frame:
  "\<exists>P E L. refillHole h s = s\<lparr>player := P, enemies := E, level := L\<rparr>"
proof (cases "inGrid (hgridX h) (hgridY h)")
  case True
  let ?s1 = "s\<lparr>level := (level s)(hgridY h := (level s (hgridY h))(hgridX h := originalType h))\<rparr>"
  let ?s2 = "if trappedIn (player ?s1) (hgridX h) (hgridY h)
             then ?s1\<lparr>player := (player ?s1)\<lparr>isTrapped := False, ey := ey (player ?s1) + 5, isFalling := True\<rparr>\<rparr>
             else ?s1"
  obtain E where "fold (refillEnemy (hgridX h) (hgridY h)) [0..<numEnemies] ?s2 = ?s2\<lparr>enemies := E\<rparr>"
    using fold_refillEnemy_frame by blast
  then have "refillHole h s = ?s2\<lparr>enemies := E\<rparr>"
    using True by (simp add: refillHole_def Let_def inGrid_def)
  also have "\<dots> = s\<lparr>player := player ?s2, enemies := E, level := level ?s2\<rparr>"
    by simp
  finally show ?thesis by blast
next
  case False
  then have "refillHole h s = s"
    by (auto simp add: refillHole_def Let_def inGrid_def)
  then have "refillHole h s = s\<lparr>player := player s, enemies := enemies s, level := level s\<rparr>"
    by simp
  then show ?thesis by blast
qed

lemma fold_refillEnemy_player [simp]:
  "player (fold (refillEnemy cx cy) js s) = player s"
  by (induction js arbitrary: s) (auto simp add: refillEnemy_def)

lemma fold_refillEnemy_level [simp]:
  "level (fold (refillEnemy cx cy) js s) = level s"
  by (induction js arbitrary: s) (auto simp add: refillEnemy_def)

lemma refillHole_player:
  "player (refillHole h s) =
     (if inGrid (hgridX h) (hgridY h) \<and> trappedIn (player s) (hgridX h) (hgridY h)
      then freed (player s) else player s)"
  by (simp add: refillHole_def Let_def inGrid_def freed_def)

lemma refillHole_level:
  "level (refillHole h s) =
     (if inGrid (hgridX h) (hgridY h)
      then (level s)(hgridY h := (level s (hgridY h))(hgridX h := originalType h))
      else level s)"
  by (simp add: refillHole_def Let_def inGrid_def)

lemma loop_expired:
  "expired dt h \<Longrightarrow>
   updateDiggingLoop dt ((k, h) # hs) s =
     updateDiggingLoop dt hs (refillHole (h\<lparr>timer := timer h - dt\<rparr>) s)"
  by (simp add: Let_def expired_def)

lemma loop_kept:
  "\<not> expired dt h \<Longrightarrow>
   updateDiggingLoop dt ((k, h) # hs) s =
     ((k, h\<lparr>timer := timer h - dt\<rparr>) # fst (updateDiggingLoop dt hs s),
      snd (updateDiggingLoop dt hs s))"
  by (simp add: Let_def expired_def split: prod.splits)

declare updateDiggingLoop.simps(2) [simp del]

lemma updateDiggingLoop_holes:
  "fst (updateDiggingLoop dt hs s) = map (decay dt) (filter (\<lambda>kh. \<not> expired dt (snd kh)) hs)"
proof (induction hs arbitrary: s)
  case Nil
  then show ?case by simp
next
  case (Cons kh hs)
  obtain k h where kh: "kh = (k, h)" by (cases kh)
  show ?case
  proof (cases "expired dt h")
    case True
    then show ?thesis by (simp add: kh loop_expired Cons.IH)
  next
    case False
    then show ?thesis by (simp add: kh loop_kept Cons.IH decay_def)
  qed
qed

lemma trappedIn_freed [simp]: "\<not> trappedIn (freed p) cx cy"
  by (simp add: trappedIn_def freed_def)

lemma killEnemy_dead [simp]: "\<not> isAlive (killEnemy e)"
  by (simp add: killEnemy_def)

lemma updateDiggingLoop_player:
  "player (snd (updateDiggingLoop dt hs s)) =
     (if refilledUnder dt hs (player s) then freed (player s) else player s)"
proof (induction hs arbitrary: s)
  case Nil
  then show ?case by (simp add: refilledUnder_def)
next
  case (Cons kh hs)
  obtain k h where kh: "kh = (k, h)" by (cases kh)
  show ?case
  proof (cases "expired dt h")
    case True
    then show ?thesis
      by (auto simp add: kh loop_expired Cons.IH refillHole_player refilledUnder_def list_ex_iff)
  next
    case False
    then show ?thesis
      by (simp add: kh loop_kept Cons.IH refilledUnder_def)
  qed
qed

lemma updateDiggingLoop_enemies:
  "enemies (snd (updateDiggingLoop dt hs s)) i =
     (if i < numEnemies \<and> isAlive (enemies s i) \<and> refilledUnder dt hs (enemies s i)
      then killEnemy (enemies s i) else enemies s i)"
proof (induction hs arbitrary: s)
  case Nil
  then show ?case by (simp add: refilledUnder_def)
next
  case (Cons kh hs)
  obtain k h where kh: "kh = (k, h)" by (cases kh)
  show ?case
  proof (cases "expired dt h")
    case True
    then show ?thesis
      by (auto simp add: kh loop_expired Cons.IH refillHole_enemies refilledUnder_def list_ex_iff)
  next
    case False
    then show ?thesis
      by (simp add: kh loop_kept Cons.IH refilledUnder_def)
  qed
qed

lemma updateDiggingLoop_level:
  "list_all (\<lambda>kh. originalType (snd kh) = BRICK) hs \<Longrightarrow>
   level (snd (updateDiggingLoop dt hs s)) cy cx =
     (if refilledCell dt hs cy cx then BRICK else level s cy cx)"
proof (induction hs arbitrary: s)
  case Nil
  then show ?case by (simp add: refilledCell_def)
next
  case (Cons kh hs)
  obtain k h where kh: "kh = (k, h)" by (cases kh)
  from Cons.prems have rest: "list_all (\<lambda>kh. originalType (snd kh) = BRICK) hs"
    and brick: "originalType h = BRICK" by (simp_all add: kh)
  show ?case
  proof (cases "expired dt h")
    case True
    then show ?thesis using brick
      by (auto simp add: kh loop_expired Cons.IH [OF rest] refillHole_level refilledCell_def list_ex_iff)
  next
    case False
    then show ?thesis
      by (simp add: kh loop_kept Cons.IH [OF rest] refilledCell_def)
  qed
qed

lemma updateDiggingLoop_frame:
  "\<exists>P E L. snd (updateDiggingLoop dt hs s) = s\<lparr>player := P, enemies := E, level := L\<rparr>"
proof (induction hs arbitrary: s)
  case Nil
  have "s = s\<lparr>player := player s, enemies := enemies s, level := level s\<rparr>" by simp
  then show ?case by (metis updateDiggingLoop.simps(1) snd_conv)
next
  case (Cons kh hs)
  obtain k h where kh: "kh = (k, h)" by (cases kh)
  show ?case
  proof (cases "expired dt h")
    case True
    let ?s1 = "refillHole (h\<lparr>timer := timer h - dt\<rparr>) s"
    obtain P E L where 1: "snd (updateDiggingLoop dt hs ?s1) = ?s1\<lparr>player := P, enemies := E, level := L\<rparr>"
      using Cons.IH by blast
    obtain P' E' L' where 2: "?s1 = s\<lparr>player := P', enemies := E', level := L'\<rparr>"
      using refillHole_frame by blast
    have "snd (updateDiggingLoop dt (kh # hs) s) = s\<lparr>player := P, enemies := E, level := L\<rparr>"
      using True by (simp add: kh loop_expired 1) (subst 2, simp)
    then show ?thesis by blast
  next
    case False
    then show ?thesis
      by (simp add: kh loop_kept Cons.IH)
  qed
qed

lemma updateDigging_alt:
  "updateDigging dt s =
     (snd (updateDiggingLoop dt (dugHoles s) s))\<lparr>dugHoles := fst (updateDiggingLoop dt (dugHoles s) s)\<rparr>"
  by (simp add: updateDigging_def case_prod_beta)

lemma updateDigging_frame:
  "\<exists>P E L H. updateDigging dt s = s\<lparr>player := P, enemies := E, level := L, dugHoles := H\<rparr>"
proof -
  obtain P E L where "snd (updateDiggingLoop dt (dugHoles s) s) = s\<lparr>player := P, enemies := E, level := L\<rparr>"
    using updateDiggingLoop_frame by blast
  then have "updateDigging dt s = s\<lparr>player := P, enemies := E, level := L,
      dugHoles := fst (updateDiggingLoop dt (dugHoles s) s)\<rparr>"
    by (simp add: updateDigging_alt)
  then show ?thesis by blast
qed

lemma updateDigging_holes:
  "dugHoles (updateDigging dt s) =
     map (decay dt) (filter (\<lambda>kh. \<not> expired dt (snd kh)) (dugHoles s))"
  by (simp add: updateDigging_alt updateDiggingLoop_holes)

lemma updateDigging_player:
  "player (updateDigging dt s) =
     (if refilledUnder dt (dugHoles s) (player s) then freed (player s) else player s)"
  by (simp add: updateDigging_alt updateDiggingLoop_player)

lemma updateDigging_enemies:
  "enemies (updateDigging dt s) i =
     (if i < numEnemies \<and> isAlive (enemies s i) \<and> refilledUnder dt (dugHoles s) (enemies s i)
      then killEnemy (enemies s i) else enemies s i)"
  by (simp add: updateDigging_alt updateDiggingLoop_enemies)

lemma updateDigging_level:
  "list_all (\<lambda>kh. originalType (snd kh) = BRICK) (dugHoles s) \<Longrightarrow>
   level (updateDigging dt s) cy cx =
     (if refilledCell dt (dugHoles s) cy cx then BRICK else level s cy cx)"
  by (simp add: updateDigging_alt updateDiggingLoop_level)

lemma holesWf_brick: "holesWf hs \<Longrightarrow> list_all (\<lambda>kh. originalType (snd kh) = BRICK) hs"
  by (simp add: holesWf_def holeOk_def list_all_iff)

lemma findHole_decay_filter:
  "distinct (map fst hs) \<Longrightarrow> (k, h) \<in> set hs \<Longrightarrow> expired dt h \<Longrightarrow>
   findHole (map (decay dt) (filter (\<lambda>kh. \<not> expired dt (snd kh)) hs)) k = None"
proof -
  assume d: "distinct (map fst hs)" and m: "(k, h) \<in> set hs" and e: "expired dt h"
  have "k \<notin> fst ` set (map (decay dt) (filter (\<lambda>kh. \<not> expired dt (snd kh)) hs))"
  proof
    assume "k \<in> fst ` set (map (decay dt) (filter (\<lambda>kh. \<not> expired dt (snd kh)) hs))"
    then obtain h' where m': "(k, h') \<in> set hs" and ne: "\<not> expired dt h'"
      by (auto simp add: decay_def)
    from d m m' have "h = h'" by (meson eq_key_imp_eq_value)
    with e ne show False by simp
  qed
  then show ?thesis by (simp add: findHole_def map_of_eq_None_iff)
qed

subsection \<open>The example states\<close>

lemma layoutTile_3_3: "layoutTile 3 3 = BRICK"
  by (simp add: layoutTile_def levelLayout_def tileOfChar_def)

lemma layoutTile_3_1: "layoutTile 3 1 = BRICK"
  by (simp add: layoutTile_def levelLayout_def tileOfChar_def)

lemma layoutTile_3_5: "layoutTile 3 5 = BRICK"
  by (simp add: layoutTile_def levelLayout_def tileOfChar_def)

lemma dugGame_holes: "dugHoles dugGame = [brickHole 3 3 7]"
  by (simp add: dugGame_def digHole_def level_newGame layoutTile_3_3 findHole_def brickHole_def
      GRID_WIDTH_def GRID_HEIGHT_def DIG_REFILL_TIME_def)

lemma dugGame_level: "level dugGame = level (newGame heads)"
  by (simp add: dugGame_def digHole_def)

lemma refillGame_fields:
  "dugHoles refillGame = [brickHole 3 3 0.01, brickHole 5 3 5]"
  "level refillGame = level (newGame heads)"
  "player refillGame = (standing 124 120)\<lparr>isTrapped := True, trappedTimer := 0.01\<rparr>"
  "enemies refillGame 0 = (standing 124 120)\<lparr>isTrapped := True, trappedTimer := 0.01\<rparr>"
  by (simp_all add: refillGame_def)

lemma trapGame_fields:
  "dugHoles trapGame = [brickHole 3 3 5, brickHole 5 3 0.05, brickHole 11 3 5]"
  "level trapGame = level (newGame heads)"
  "player trapGame = (standing 204 125)\<lparr>vy := - 50, isFalling := True\<rparr>"
  "enemies trapGame 0 = (standing 124 120)\<lparr>isTrapped := True, trappedTimer := 4.9,
                                                   vx := 120, vy := - 8\<rparr>"
  "enemies trapGame (Suc 0) = standing 44 40"
  "enemies trapGame 2 = (standing 444 125)\<lparr>vy := - 50, isFalling := True\<rparr>"
  by (simp_all add: trapGame_def)

lemma upt_numEnemies: "[0..<numEnemies] = [0, 1, 2]"
  by (simp add: numEnemies_def numeral_3_eq_3 upt_conv_Cons)

lemma trapGame_enemy0:
  "updatePhysics (EnemyRef 0) (1 / 50) trapGame =
     trapGame\<lparr>enemies := (enemies trapGame)
       (0 := (standing 124 120)\<lparr>isTrapped := True, trappedTimer := (122 / 25)\<rparr>)\<rparr>"
  by (simp add: updatePhysics_def trappedPhysics_def Let_def trapGame_fields standing_def)

lemma trapGame_tiles:
  "getTileAt trapGame 448 (619 / 5) = EMPTY"
  "getTileAt trapGame 472 (619 / 5) = EMPTY"
  "getTileAt trapGame 208 (619 / 5) = EMPTY"
  "getTileAt trapGame 232 (619 / 5) = EMPTY"
  by (simp_all add: getTileAt_def Let_def TILE_SIZE_def GRID_WIDTH_def GRID_HEIGHT_def
      trapGame_fields brickHole_def findHole_def)

lemma falling_gravity:
  "applyGravity (1 / 50) ((standing px 125)\<lparr>vy := - 50, isFalling := True\<rparr>) =
     (standing px 125)\<lparr>vy := - 60, isFalling := True\<rparr>"
  by (simp add: applyGravity_def standing_def GRAVITY_def)

lemma trapGame_landing:
  "headLanding (EnemyRef 2) trapGame 444 476 (619 / 5) 125 = None"
  "headLanding PlayerRef trapGame 204 236 (619 / 5) 125 = None"
  by (simp_all add: headLanding_def otherTrapped_def upt_numEnemies trapGame_fields standing_def
      TILE_SIZE_def)

lemma trapGame_vertical:
  "verticalCollision (EnemyRef 2) trapGame 125 444 (619 / 5)
     ((standing 444 125)\<lparr>vy := - 60, isFalling := True\<rparr>) =
   (619 / 5, (standing 444 125)\<lparr>vy := - 60, isFalling := True\<rparr>)"
  "verticalCollision PlayerRef trapGame 125 204 (619 / 5)
     ((standing 204 125)\<lparr>vy := - 60, isFalling := True\<rparr>) =
   (619 / 5, (standing 204 125)\<lparr>vy := - 60, isFalling := True\<rparr>)"
  by (simp_all add: verticalCollision_def Let_def TILE_SIZE_def trapGame_tiles trapGame_landing solid_def
      standing_def)


lemma still_horizontal:
  "vx e = 0 \<Longrightarrow> horizontalCollision s nx ny e = (nx, e)"
  by (simp add: horizontalCollision_def)

lemma inside_boundary:
  "0 \<le> ex e \<Longrightarrow> ex e \<le> 768 \<Longrightarrow> - 40 \<le> ey e \<Longrightarrow> boundaryChecks r e s = (e, s)"
  by (simp add: boundaryChecks_def Let_def TILE_SIZE_def WINDOW_WIDTH_def)

lemma trapGame_move:
  "movePhysics (EnemyRef 2) (1 / 50) trapGame =
     ((standing 444 (619 / 5))\<lparr>vy := - 60, isFalling := True\<rparr>, trapGame)"
  "movePhysics PlayerRef (1 / 50) trapGame =
     ((standing 204 (619 / 5))\<lparr>vy := - 60, isFalling := True\<rparr>, trapGame)"
proof -
  have e: "(standing 444 125)\<lparr>vy := - 60, isFalling := True, ex := 444, ey := 619 / 5\<rparr> =
           (standing 444 (619 / 5))\<lparr>vy := - 60, isFalling := True\<rparr>"
    "(standing 204 125)\<lparr>vy := - 60, isFalling := True, ex := 204, ey := 619 / 5\<rparr> =
           (standing 204 (619 / 5))\<lparr>vy := - 60, isFalling := True\<rparr>"
    by (simp_all add: standing_def)
  have v: "vx ((standing 444 125)\<lparr>vy := - 60, isFalling := True\<rparr>) = 0"
    "vy ((standing 444 125)\<lparr>vy := - 60, isFalling := True\<rparr>) = - 60"
    "ex ((standing 444 125)\<lparr>vy := - 60, isFalling := True\<rparr>) = 444"
    "ey ((standing 444 125)\<lparr>vy := - 60, isFalling := True\<rparr>) = 125"
    "vx ((standing 204 125)\<lparr>vy := - 60, isFalling := True\<rparr>) = 0"
    "vy ((standing 204 125)\<lparr>vy := - 60, isFalling := True\<rparr>) = - 60"
    "ex ((standing 204 125)\<lparr>vy := - 60, isFalling := True\<rparr>) = 204"
    "ey ((standing 204 125)\<lparr>vy := - 60, isFalling := True\<rparr>) = 125"
    by (simp_all add: standing_def)
  have b: "boundaryChecks r ((standing 444 (619 / 5))\<lparr>vy := - 60, isFalling := True\<rparr>) trapGame =
      ((standing 444 (619 / 5))\<lparr>vy := - 60, isFalling := True\<rparr>, trapGame)"
    "boundaryChecks r ((standing 204 (619 / 5))\<lparr>vy := - 60, isFalling := True\<rparr>) trapGame =
      ((standing 204 (619 / 5))\<lparr>vy := - 60, isFalling := True\<rparr>, trapGame)" for r
    by (simp_all add: inside_boundary standing_def)
  show "movePhysics (EnemyRef 2) (1 / 50) trapGame =
     ((standing 444 (619 / 5))\<lparr>vy := - 60, isFalling := True\<rparr>, trapGame)"
    by (simp add: movePhysics_def Let_def trapGame_fields falling_gravity v trapGame_vertical
        still_horizontal e b)
  show "movePhysics PlayerRef (1 / 50) trapGame =
     ((standing 204 (619 / 5))\<lparr>vy := - 60, isFalling := True\<rparr>, trapGame)"
    by (simp add: movePhysics_def Let_def trapGame_fields falling_gravity v trapGame_vertical
        still_horizontal e b)
qed

lemma trapGame_reset:
  "landingReset r trapGame ((standing px (619 / 5))\<lparr>vy := - 60, isFalling := True\<rparr>) =
     (standing px (619 / 5))\<lparr>vy := - 60, isFalling := True\<rparr>"
  by (simp add: landingReset_def standing_def)

lemma trapGame_cells:
  "footCell ((standing 444 (619 / 5))\<lparr>vy := - 60, isFalling := True\<rparr>) = (11, 3)"
  "footCell ((standing 204 (619 / 5))\<lparr>vy := - 60, isFalling := True\<rparr>) = (5, 3)"
  by (simp_all add: footCell_def standing_def getGridX_def getGridY_def TILE_SIZE_def)

lemma trapGame_found:
  "findHole (dugHoles trapGame) (11, 3) = Some (snd (brickHole 11 3 5))"
  "findHole (dugHoles trapGame) (5, 3) = Some (snd (brickHole 5 3 0.05))"
  "findHole (dugHoles trapGame) (3, 3) = Some (snd (brickHole 3 3 5))"
  by (simp_all add: trapGame_fields findHole_def brickHole_def)


lemma getTileAt_plain:
  "dugHoles s = [] \<Longrightarrow> level s = level (newGame rnd) \<Longrightarrow>
   getTileAt s px py =
     (if inGrid (getGridX px) (getGridY py) then layoutTile (getGridY py) (getGridX px)
      else SOLID_BRICK)"
  by (auto simp add: getTileAt_def Let_def getGridX_def getGridY_def inGrid_def level_newGame
      GRID_WIDTH_def GRID_HEIGHT_def)

lemmas cell_eval = getGridX_def getGridY_def inGrid_def TILE_SIZE_def GRID_WIDTH_def
  GRID_HEIGHT_def

lemma layout_cells:
  "layoutTile 10 3 = BRICK" "layoutTile 11 3 = ROPE" "layoutTile 2 10 = BRICK"
  by (simp_all add: layoutTile_def levelLayout_def tileOfChar_def)

lemma ropeGame_fields:
  "dugHoles ropeGame = []" "level ropeGame = level (newGame heads)"
  "player ropeGame = (standing 87 430)\<lparr>isOnRope := True, vx := 150\<rparr>"
  "enemies ropeGame i = standing 44 40"
  by (simp_all add: ropeGame_def)

lemma walkGame_fields:
  "dugHoles walkGame = []" "level walkGame = level (newGame heads)"
  "player walkGame = (standing 366 80)\<lparr>vx := 150\<rparr>"
  "enemies walkGame i = standing 44 40"
  by (simp_all add: walkGame_def)

lemma ropeGame_samples:
  "hSamples ropeGame 90 430 (player ropeGame) = (BRICK, ROPE, ROPE)"
  by (simp add: hSamples_def standing_def getTileAt_plain [OF ropeGame_fields(1,2)]
      ropeGame_fields(3) cell_eval layout_cells)

lemma walkGame_samples:
  "hSamples walkGame 369 80 (player walkGame) = (BRICK, BRICK, BRICK)"
  by (simp add: hSamples_def standing_def getTileAt_plain [OF walkGame_fields(1,2)]
      walkGame_fields(3) cell_eval layout_cells)

lemma ropeGame_pass:
  "horizontalCollision ropeGame 90 430 (player ropeGame) = (90, player ropeGame)"
proof -
  have v: "vx (player ropeGame) = 150" "isOnRope (player ropeGame)"
    by (simp_all add: ropeGame_fields standing_def)
  show ?thesis
    by (simp add: horizontalCollision_def Let_def v ropeGame_samples solid_def)
qed

lemma ropeGame_step:
  "updatePhysics PlayerRef (1 / 50) ropeGame =
     ropeGame\<lparr>player := (player ropeGame)\<lparr>ex := 90\<rparr>\<rparr>"
proof -
  let ?p = "(standing 87 430)\<lparr>isOnRope := True, vx := 150\<rparr>"
  have g: "applyGravity (1 / 50) ?p = ?p"
    by (simp add: applyGravity_def standing_def)
  have f: "ex ?p = 87" "ey ?p = 430" "vx ?p = 150" "vy ?p = 0" "\<not> isTrapped ?p"
    "\<not> isFalling ?p"
    by (simp_all add: standing_def)
  have v: "verticalCollision PlayerRef ropeGame 430 90 430 ?p = (430, ?p)"
    by (simp add: verticalCollision_def f)
  have h: "horizontalCollision ropeGame 90 430 ?p = (90, ?p)"
    using ropeGame_pass by (simp add: ropeGame_fields)
  have b: "boundaryChecks PlayerRef (?p\<lparr>ex := 90, ey := 430\<rparr>) ropeGame =
             (?p\<lparr>ex := 90, ey := 430\<rparr>, ropeGame)"
    by (rule inside_boundary) (simp_all add: standing_def)
  have m: "movePhysics PlayerRef (1 / 50) ropeGame = (?p\<lparr>ex := 90, ey := 430\<rparr>, ropeGame)"
    by (simp add: movePhysics_def Let_def ropeGame_fields g f v h b)
  have l: "landingReset PlayerRef ropeGame (?p\<lparr>ex := 90, ey := 430\<rparr>) = ?p\<lparr>ex := 90, ey := 430\<rparr>"
    by (simp add: landingReset_def standing_def)
  have c: "holeCapture ropeGame (?p\<lparr>ex := 90, ey := 430\<rparr>) = ?p\<lparr>ex := 90, ey := 430\<rparr>"
    by (simp add: holeCapture_def Let_def ropeGame_fields split: if_splits)
  show ?thesis
    by (simp add: updatePhysics_def ropeGame_fields f m l c) (simp add: standing_def)
qed

subsection \<open>The physics resolver\<close>

lemma getE_putE [simp]: "getE r (putE r e s) = e"
  by (cases r) simp_all

lemma trappedPhysics_still:
  "isTrapped (trappedPhysics r dt s e) \<Longrightarrow>
   vx (trappedPhysics r dt s e) = 0 \<and> vy (trappedPhysics r dt s e) = 0 \<and>
   ex (trappedPhysics r dt s e) = ex e \<and> ey (trappedPhysics r dt s e) = ey e"
  by (auto simp add: trappedPhysics_def Let_def killEnemy_def split: if_splits)

lemma holeCapture_traps:
  "inGrid (fst (footCell e)) (snd (footCell e)) \<Longrightarrow> findHole (dugHoles s) (footCell e) = Some h \<Longrightarrow>
   isFalling e \<Longrightarrow> \<not> isTrapped e \<Longrightarrow>
   holeCapture s e =
     e\<lparr>isTrapped := True,
       trappedTimer := (if timer h - 0.1 < 0 then 0.01 else timer h - 0.1),
       ex := of_int (fst (footCell e)) * TILE_SIZE + (TILE_SIZE - TILE_SIZE * 0.8) / 2,
       ey := of_int (snd (footCell e)) * TILE_SIZE,
       vx := 0, vy := 0, isFalling := False, isClimbing := False\<rparr>"
  by (simp add: holeCapture_def Let_def)

lemma landingReset_same [simp]:
  "footCell (landingReset r s e) = footCell e"
  "isTrapped (landingReset r s e) = isTrapped e"
  by (simp_all add: landingReset_def footCell_def)

lemma killEnemy_trapped: "isTrapped (killEnemy e) \<Longrightarrow> isTrapped e"
  by (simp add: killEnemy_def split: if_splits)

lemma boundaryChecks_trapped:
  "boundaryChecks r e s = (e', s') \<Longrightarrow> isTrapped e' \<Longrightarrow> isTrapped e"
  by (auto simp add: boundaryChecks_def Let_def killEnemy_def split: if_splits)

lemma verticalCollision_trapped:
  "verticalCollision r s oy nx ny e = (ny', e') \<Longrightarrow> isTrapped e' = isTrapped e"
  by (auto simp add: verticalCollision_def Let_def split: if_splits prod.splits)

lemma horizontalCollision_trapped:
  "horizontalCollision s nx ny e = (nx', e') \<Longrightarrow> isTrapped e' = isTrapped e"
  by (auto simp add: horizontalCollision_def Let_def split: if_splits prod.splits)

lemma movePhysics_untrapped:
  "\<not> isTrapped (getE r s) \<Longrightarrow> movePhysics r dt s = (e, s') \<Longrightarrow> \<not> isTrapped e"
  apply (simp add: movePhysics_def Let_def split: prod.splits)
  apply (auto dest!: boundaryChecks_trapped verticalCollision_trapped horizontalCollision_trapped
      simp add: applyGravity_def split: if_splits)
  done


subsection \<open>What each step of the tick changes\<close>

lemma putE_fields [simp]:
  "level (putE r e s) = level s" "dugHoles (putE r e s) = dugHoles s"
  "lives (putE r e s) = lives s" "gameOver (putE r e s) = gameOver s"
  "gameWon (putE r e s) = gameWon s" "levelComplete (putE r e s) = levelComplete s"
  "collectibles (putE r e s) = collectibles s"
  "collectiblesCollected (putE r e s) = collectiblesCollected s"
  "totalCollectibles (putE r e s) = totalCollectibles s" "score (putE r e s) = score s"
  "keyStates (putE r e s) = keyStates s" "specialKeyStates (putE r e s) = specialKeyStates s"
  "gameTime (putE r e s) = gameTime s"
  by (cases r; simp)+

lemma loseLife_fields [simp]:
  "level (loseLife s) = level s" "dugHoles (loseLife s) = dugHoles s"
  "player (loseLife s) = player s" "enemies (loseLife s) = enemies s"
  "gameWon (loseLife s) = gameWon s" "levelComplete (loseLife s) = levelComplete s"
  "collectibles (loseLife s) = collectibles s"
  "collectiblesCollected (loseLife s) = collectiblesCollected s"
  "totalCollectibles (loseLife s) = totalCollectibles s" "score (loseLife s) = score s"
  "keyStates (loseLife s) = keyStates s" "specialKeyStates (loseLife s) = specialKeyStates s"
  "gameTime (loseLife s) = gameTime s"
  "lives (loseLife s) = lives s - 1"
  "gameOver (loseLife s) = (gameOver s \<or> lives s - 1 \<le> 0)"
  by (simp_all add: loseLife_def)

lemma boundaryChecks_state:
  "snd (boundaryChecks r e s) = (if r = PlayerRef \<and> ey e < - TILE_SIZE then loseLife s else s)"
  by (simp add: boundaryChecks_def Let_def loseLife_def)

lemma movePhysics_boundary:
  "movePhysics r dt s = boundaryChecks r (preBoundary r dt s) s"
  by (simp add: movePhysics_def preBoundary_def Let_def split: prod.splits)

lemma updatePhysics_frame:
  "\<exists>e. updatePhysics r dt s =
          putE r e (if r = PlayerRef \<and> fellOff r dt s then loseLife s else s)"
proof (cases "isTrapped (getE r s)")
  case True
  then show ?thesis by (auto simp add: updatePhysics_def fellOff_def)
next
  case False
  obtain e s' where m: "movePhysics r dt s = (e, s')" by (cases "movePhysics r dt s")
  then have "s' = snd (boundaryChecks r (preBoundary r dt s) s)"
    by (simp add: movePhysics_boundary)
  then have "s' = (if r = PlayerRef \<and> fellOff r dt s then loseLife s else s)"
    using False by (simp add: boundaryChecks_state fellOff_def)
  then show ?thesis using False m by (auto simp add: updatePhysics_def)
qed

lemma updatePhysics_fields [simp]:
  "level (updatePhysics r dt s) = level s" "dugHoles (updatePhysics r dt s) = dugHoles s"
  "gameWon (updatePhysics r dt s) = gameWon s"
  "levelComplete (updatePhysics r dt s) = levelComplete s"
  "collectibles (updatePhysics r dt s) = collectibles s"
  "collectiblesCollected (updatePhysics r dt s) = collectiblesCollected s"
  "totalCollectibles (updatePhysics r dt s) = totalCollectibles s"
  "score (updatePhysics r dt s) = score s"
  "keyStates (updatePhysics r dt s) = keyStates s"
  "specialKeyStates (updatePhysics r dt s) = specialKeyStates s"
  "gameTime (updatePhysics r dt s) = gameTime s"
  using updatePhysics_frame [of r dt s] by (auto split: if_splits)

lemma updatePhysics_lives:
  "lives (updatePhysics r dt s) =
     (if r = PlayerRef \<and> fellOff r dt s then lives s - 1 else lives s)"
  "gameOver (updatePhysics r dt s) =
     (if r = PlayerRef \<and> fellOff r dt s then gameOver s \<or> lives s - 1 \<le> 0 else gameOver s)"
  using updatePhysics_frame [of r dt s] by (auto split: if_splits)

lemma updatePhysics_enemy_player [simp]:
  "player (updatePhysics (EnemyRef i) dt s) = player s"
  using updatePhysics_frame [of "EnemyRef i" dt s] by auto

lemma updatePhysics_player_enemies [simp]:
  "enemies (updatePhysics PlayerRef dt s) = enemies s"
  using updatePhysics_frame [of PlayerRef dt s] by auto

lemma updatePhysics_other_enemy:
  "j \<noteq> i \<Longrightarrow> enemies (updatePhysics (EnemyRef i) dt s) j = enemies s j"
  using updatePhysics_frame [of "EnemyRef i" dt s] by auto

lemma moveInput_fields [simp]:
  "level (moveInput s) = level s" "dugHoles (moveInput s) = dugHoles s"
  "lives (moveInput s) = lives s" "gameOver (moveInput s) = gameOver s"
  "gameWon (moveInput s) = gameWon s" "levelComplete (moveInput s) = levelComplete s"
  "collectibles (moveInput s) = collectibles s"
  "collectiblesCollected (moveInput s) = collectiblesCollected s"
  "totalCollectibles (moveInput s) = totalCollectibles s" "score (moveInput s) = score s"
  "enemies (moveInput s) = enemies s" "gameTime (moveInput s) = gameTime s"
  by (simp_all add: moveInput_def Let_def)

lemma digHole_fields [simp]:
  "level (digHole gx gy s) = level s" "player (digHole gx gy s) = player s"
  "lives (digHole gx gy s) = lives s" "gameOver (digHole gx gy s) = gameOver s"
  "gameWon (digHole gx gy s) = gameWon s" "levelComplete (digHole gx gy s) = levelComplete s"
  "collectibles (digHole gx gy s) = collectibles s"
  "collectiblesCollected (digHole gx gy s) = collectiblesCollected s"
  "totalCollectibles (digHole gx gy s) = totalCollectibles s" "score (digHole gx gy s) = score s"
  "enemies (digHole gx gy s) = enemies s" "gameTime (digHole gx gy s) = gameTime s"
  "keyStates (digHole gx gy s) = keyStates s"
  by (simp_all add: digHole_def)

lemma digInput_fields [simp]:
  "level (digInput s) = level s" "player (digInput s) = player s"
  "lives (digInput s) = lives s" "gameOver (digInput s) = gameOver s"
  "gameWon (digInput s) = gameWon s" "levelComplete (digInput s) = levelComplete s"
  "collectibles (digInput s) = collectibles s"
  "collectiblesCollected (digInput s) = collectiblesCollected s"
  "totalCollectibles (digInput s) = totalCollectibles s" "score (digInput s) = score s"
  "enemies (digInput s) = enemies s" "gameTime (digInput s) = gameTime s"
  by (simp_all add: digInput_def digAt_def Let_def)

lemma digInput_holes:
  "dugHoles (digInput s) = dugHoles s \<or> (\<exists>gx gy. dugHoles (digInput s) = dugHoles (digHole gx gy s))"
  by (auto simp add: digInput_def digAt_def Let_def)

lemma handleInput_fields [simp]:
  "level (handleInput dt s) = level s"
  "lives (handleInput dt s) = lives s" "gameOver (handleInput dt s) = gameOver s"
  "gameWon (handleInput dt s) = gameWon s" "levelComplete (handleInput dt s) = levelComplete s"
  "collectibles (handleInput dt s) = collectibles s"
  "collectiblesCollected (handleInput dt s) = collectiblesCollected s"
  "totalCollectibles (handleInput dt s) = totalCollectibles s" "score (handleInput dt s) = score s"
  "enemies (handleInput dt s) = enemies s" "gameTime (handleInput dt s) = gameTime s"
  by (simp_all add: handleInput_def)

lemma keys_assignHole: "fst ` set (assignHole k h hs) = insert k (fst ` set hs)"
proof (induction hs)
  case Nil
  then show ?case by simp
next
  case (Cons a hs)
  obtain k' h' where a: "a = (k', h')" by (cases a)
  show ?case by (simp add: a Cons.IH insert_commute)
qed

lemma distinct_assignHole:
  "k \<notin> fst ` set hs \<Longrightarrow> distinct (map fst hs) \<Longrightarrow> distinct (map fst (assignHole k h hs))"
proof (induction hs)
  case Nil
  then show ?case by simp
next
  case (Cons a hs)
  obtain k' h' where a: "a = (k', h')" by (cases a)
  from Cons.prems have ne: "k \<noteq> k'" and nk: "k \<notin> fst ` set hs"
    and nk': "k' \<notin> fst ` set hs" and d: "distinct (map fst hs)"
    by (auto simp add: a)
  have "k' \<notin> fst ` set (assignHole k h hs)"
    using ne nk' by (simp add: keys_assignHole)
  then show ?case using ne nk nk' d Cons.IH [OF nk d]
    by (simp add: a)
qed

lemma findHole_None_keys: "findHole hs k = None \<Longrightarrow> k \<notin> fst ` set hs"
  by (simp add: findHole_def map_of_eq_None_iff)

lemma brickUnderHoles_digHole:
  "brickUnderHoles s \<Longrightarrow> brickUnderHoles (digHole gx gy s)"
proof (cases "inGrid gx gy \<and> level s gy gx = BRICK \<and> findHole (dugHoles s) (gx, gy) = None")
  case False
  then have "digHole gx gy s = s"
    by (auto simp add: digHole_def inGrid_def)
  then show "brickUnderHoles s \<Longrightarrow> brickUnderHoles (digHole gx gy s)" by simp
next
  case True
  assume b: "brickUnderHoles s"
  let ?h = "\<lparr>hgridX = gx, hgridY = gy, timer = DIG_REFILL_TIME, originalType = BRICK\<rparr>"
  from True have g: "inGrid gx gy" and l: "level s gy gx = BRICK"
    and n: "findHole (dugHoles s) (gx, gy) = None"
    by blast+
  then have dh: "dugHoles (digHole gx gy s) = assignHole (gx, gy) ?h (dugHoles s)"
    by (simp add: digHole_def inGrid_def)
  have st: "set (assignHole (gx, gy) ?h (dugHoles s)) = insert ((gx, gy), ?h) (set (dugHoles s))"
    using n by (rule set_assignHole)
  from b have d0: "distinct (map fst (dugHoles s))"
    by (simp add: brickUnderHoles_def holesWf_def)
  have d: "distinct (map fst (assignHole (gx, gy) ?h (dugHoles s)))"
    using findHole_None_keys [OF n] d0 by (rule distinct_assignHole)
  have ok: "holeOk ((gx, gy), ?h)" using g by (simp add: holeOk_def)
  show "brickUnderHoles (digHole gx gy s)"
    using b d ok l by (simp add: brickUnderHoles_def holesWf_def dh list_all_iff st)
qed

lemma brickUnderHoles_cong:
  "dugHoles t = dugHoles s \<Longrightarrow> level t = level s \<Longrightarrow> brickUnderHoles t = brickUnderHoles s"
  by (simp add: brickUnderHoles_def)

lemma brickUnderHoles_handleInput:
  "brickUnderHoles s \<Longrightarrow> brickUnderHoles (handleInput dt s)"
proof -
  assume b: "brickUnderHoles s"
  have m: "brickUnderHoles (moveInput s)"
    using b by (simp add: brickUnderHoles_cong [of "moveInput s" s])
  have "brickUnderHoles (digInput (moveInput s))"
    using digInput_holes [of "moveInput s"]
  proof
    assume "dugHoles (digInput (moveInput s)) = dugHoles (moveInput s)"
    then show ?thesis using m
      by (simp add: brickUnderHoles_cong [of "digInput (moveInput s)" "moveInput s"])
  next
    assume "\<exists>gx gy. dugHoles (digInput (moveInput s)) = dugHoles (digHole gx gy (moveInput s))"
    then obtain gx gy where
      "dugHoles (digInput (moveInput s)) = dugHoles (digHole gx gy (moveInput s))" by blast
    then have "brickUnderHoles (digInput (moveInput s)) = brickUnderHoles (digHole gx gy (moveInput s))"
      by (rule brickUnderHoles_cong) simp
    then show ?thesis using brickUnderHoles_digHole [OF m] by simp
  qed
  then show ?thesis using b by (simp add: handleInput_def)
qed

lemma collectAt_fields [simp]:
  "level (collectAt cx cy s) = level s" "dugHoles (collectAt cx cy s) = dugHoles s"
  "player (collectAt cx cy s) = player s" "enemies (collectAt cx cy s) = enemies s"
  "lives (collectAt cx cy s) = lives s" "gameOver (collectAt cx cy s) = gameOver s"
  "gameWon (collectAt cx cy s) = gameWon s" "levelComplete (collectAt cx cy s) = levelComplete s"
  "totalCollectibles (collectAt cx cy s) = totalCollectibles s"
  "gameTime (collectAt cx cy s) = gameTime s"
  by (simp_all add: collectAt_def Let_def)

lemma checkWin_fields [simp]:
  "level (checkWin s) = level s" "dugHoles (checkWin s) = dugHoles s"
  "player (checkWin s) = player s" "enemies (checkWin s) = enemies s"
  "lives (checkWin s) = lives s" "gameOver (checkWin s) = gameOver s"
  "levelComplete (checkWin s) = levelComplete s"
  "totalCollectibles (checkWin s) = totalCollectibles s"
  "collectiblesCollected (checkWin s) = collectiblesCollected s"
  "gameTime (checkWin s) = gameTime s"
  by (simp_all add: checkWin_def Let_def)

lemma updatePlayer_fields [simp]:
  "level (updatePlayer dt s) = level s" "dugHoles (updatePlayer dt s) = dugHoles s"
  "enemies (updatePlayer dt s) = enemies s"
  "levelComplete (updatePlayer dt s) = levelComplete s"
  "totalCollectibles (updatePlayer dt s) = totalCollectibles s"
  "gameTime (updatePlayer dt s) = gameTime s"
  by (simp_all add: updatePlayer_def Let_def)

lemma updatePlayer_lives:
  "lives (updatePlayer dt s) =
     (if isAlive (player s) \<and> fellOff PlayerRef dt s then lives s - 1 else lives s)"
  "gameOver (updatePlayer dt s) =
     (if isAlive (player s) \<and> fellOff PlayerRef dt s then gameOver s \<or> lives s - 1 \<le> 0
      else gameOver s)"
  by (simp_all add: updatePlayer_def Let_def updatePhysics_lives)

lemma catchPlayer_fields [simp]:
  "level (catchPlayer c i s) = level s" "dugHoles (catchPlayer c i s) = dugHoles s"
  "gameWon (catchPlayer c i s) = gameWon s" "levelComplete (catchPlayer c i s) = levelComplete s"
  "collectibles (catchPlayer c i s) = collectibles s"
  "collectiblesCollected (catchPlayer c i s) = collectiblesCollected s"
  "totalCollectibles (catchPlayer c i s) = totalCollectibles s"
  "score (catchPlayer c i s) = score s" "gameTime (catchPlayer c i s) = gameTime s"
  by (simp_all add: catchPlayer_def Let_def)

lemma catchPlayer_lives:
  "lives (catchPlayer c i s) =
     (if contact i s \<and> \<not> gameOver s \<and> \<not> gameWon s then lives s - 1 else lives s)"
  "gameOver (catchPlayer c i s) =
     (if contact i s \<and> \<not> gameOver s \<and> \<not> gameWon s then lives s - 1 \<le> 0 else gameOver s)"
  by (simp_all add: catchPlayer_def contact_def Let_def)

lemma updateEnemy_fields [simp]:
  "level (updateEnemy dt rnd i s) = level s" "dugHoles (updateEnemy dt rnd i s) = dugHoles s"
  "gameWon (updateEnemy dt rnd i s) = gameWon s"
  "levelComplete (updateEnemy dt rnd i s) = levelComplete s"
  "collectibles (updateEnemy dt rnd i s) = collectibles s"
  "collectiblesCollected (updateEnemy dt rnd i s) = collectiblesCollected s"
  "totalCollectibles (updateEnemy dt rnd i s) = totalCollectibles s"
  "score (updateEnemy dt rnd i s) = score s" "gameTime (updateEnemy dt rnd i s) = gameTime s"
  by (simp_all add: updateEnemy_def Let_def)

lemma updateEnemy_lives:
  "lives (updateEnemy dt rnd i s) = (if caught dt i s then lives s - 1 else lives s)"
  "gameOver (updateEnemy dt rnd i s) =
     (if caught dt i s then lives s - 1 \<le> 0 else gameOver s)"
  by (simp_all add: updateEnemy_def Let_def caught_def afterEnemyStep_def catchPlayer_lives
      updatePhysics_lives)

lemma updateEnemies_fields [simp]:
  "level (updateEnemies dt rnd s) = level s" "dugHoles (updateEnemies dt rnd s) = dugHoles s"
  "gameWon (updateEnemies dt rnd s) = gameWon s"
  "levelComplete (updateEnemies dt rnd s) = levelComplete s"
  "collectibles (updateEnemies dt rnd s) = collectibles s"
  "collectiblesCollected (updateEnemies dt rnd s) = collectiblesCollected s"
  "totalCollectibles (updateEnemies dt rnd s) = totalCollectibles s"
  "score (updateEnemies dt rnd s) = score s" "gameTime (updateEnemies dt rnd s) = gameTime s"
  by (simp_all add: updateEnemies_def upt_numEnemies)

lemma updateEnemy_lives_le: "lives (updateEnemy dt rnd i s) \<le> lives s"
  by (simp add: updateEnemy_lives)

lemma updateEnemy_over:
  "overIffNoLives s \<Longrightarrow> overIffNoLives (updateEnemy dt rnd i s)"
  by (auto simp add: overIffNoLives_def updateEnemy_lives caught_def)

lemma updateEnemy_terminal:
  "gameOver s \<Longrightarrow> lives (updateEnemy dt rnd i s) = lives s \<and> gameOver (updateEnemy dt rnd i s)"
  by (simp add: updateEnemy_lives caught_def)

lemma fold_updateEnemy_lives_le: "lives (fold (updateEnemy dt rnd) js s) \<le> lives s"
proof (induction js arbitrary: s)
  case Nil
  then show ?case by simp
next
  case (Cons a js)
  have "lives (fold (updateEnemy dt rnd) js (updateEnemy dt rnd a s)) \<le> lives (updateEnemy dt rnd a s)"
    by (rule Cons.IH)
  also have "\<dots> \<le> lives s" by (rule updateEnemy_lives_le)
  finally show ?case by simp
qed

lemma fold_updateEnemy_over:
  "overIffNoLives s \<Longrightarrow> overIffNoLives (fold (updateEnemy dt rnd) js s)"
  by (induction js arbitrary: s) (simp_all add: updateEnemy_over)

lemma fold_updateEnemy_terminal:
  "gameOver s \<Longrightarrow>
   lives (fold (updateEnemy dt rnd) js s) = lives s \<and> gameOver (fold (updateEnemy dt rnd) js s)"
  by (induction js arbitrary: s) (simp_all add: updateEnemy_terminal)

lemma updatePlayer_over:
  "overIffNoLives s \<Longrightarrow> \<not> gameOver s \<Longrightarrow> overIffNoLives (updatePlayer dt s)"
  by (auto simp add: overIffNoLives_def updatePlayer_lives)

lemma updateDigging_fields [simp]:
  "lives (updateDigging dt s) = lives s" "gameOver (updateDigging dt s) = gameOver s"
  "gameWon (updateDigging dt s) = gameWon s" "levelComplete (updateDigging dt s) = levelComplete s"
  "collectibles (updateDigging dt s) = collectibles s"
  "collectiblesCollected (updateDigging dt s) = collectiblesCollected s"
  "totalCollectibles (updateDigging dt s) = totalCollectibles s"
  "score (updateDigging dt s) = score s" "gameTime (updateDigging dt s) = gameTime s"
  using updateDigging_frame [of dt s] by auto

lemma fold_revealColumn_fields [simp]:
  "lives (fold revealColumn xs s) = lives s" "gameOver (fold revealColumn xs s) = gameOver s"
  "gameWon (fold revealColumn xs s) = gameWon s"
  "levelComplete (fold revealColumn xs s) = levelComplete s"
  "dugHoles (fold revealColumn xs s) = dugHoles s"
  "player (fold revealColumn xs s) = player s" "enemies (fold revealColumn xs s) = enemies s"
  "collectibles (fold revealColumn xs s) = collectibles s"
  "collectiblesCollected (fold revealColumn xs s) = collectiblesCollected s"
  "totalCollectibles (fold revealColumn xs s) = totalCollectibles s"
  "score (fold revealColumn xs s) = score s" "gameTime (fold revealColumn xs s) = gameTime s"
  by (induction xs arbitrary: s; simp add: revealColumn_def)+

lemma revealExitLadder_fields [simp]:
  "lives (revealExitLadder s) = lives s" "gameOver (revealExitLadder s) = gameOver s"
  "gameWon (revealExitLadder s) = gameWon s"
  "levelComplete (revealExitLadder s) = levelComplete s"
  "dugHoles (revealExitLadder s) = dugHoles s"
  "player (revealExitLadder s) = player s" "enemies (revealExitLadder s) = enemies s"
  "collectibles (revealExitLadder s) = collectibles s"
  "collectiblesCollected (revealExitLadder s) = collectiblesCollected s"
  "totalCollectibles (revealExitLadder s) = totalCollectibles s"
  "score (revealExitLadder s) = score s" "gameTime (revealExitLadder s) = gameTime s"
  by (simp_all add: revealExitLadder_def Let_def)

lemma checkLevelCompletion_fields [simp]:
  "lives (checkLevelCompletion s) = lives s" "gameOver (checkLevelCompletion s) = gameOver s"
  "gameWon (checkLevelCompletion s) = gameWon s"
  "dugHoles (checkLevelCompletion s) = dugHoles s"
  "player (checkLevelCompletion s) = player s" "enemies (checkLevelCompletion s) = enemies s"
  "collectibles (checkLevelCompletion s) = collectibles s"
  "collectiblesCollected (checkLevelCompletion s) = collectiblesCollected s"
  "totalCollectibles (checkLevelCompletion s) = totalCollectibles s"
  "score (checkLevelCompletion s) = score s" "gameTime (checkLevelCompletion s) = gameTime s"
  by (simp_all add: checkLevelCompletion_def)

text \<open>The reveal writes the top row only, and writes \<open>EXIT_LADDER\<close> only.\<close>

lemma fold_revealColumn_level:
  "level (fold revealColumn xs s) cy cx \<noteq> level s cy cx \<Longrightarrow>
   cy = GRID_HEIGHT - 1 \<and> level (fold revealColumn xs s) cy cx = EXIT_LADDER \<and>
   (level s cy cx = EMPTY \<or> level s cy cx = LADDER)"
proof (induction xs arbitrary: s)
  case Nil
  then show ?case by simp
next
  case (Cons a xs)
  have step: "level (revealColumn a s) cy cx \<noteq> level s cy cx \<Longrightarrow>
     cy = GRID_HEIGHT - 1 \<and> level (revealColumn a s) cy cx = EXIT_LADDER \<and>
     (level s cy cx = EMPTY \<or> level s cy cx = LADDER)"
    by (auto simp add: revealColumn_def split: if_splits)
  have keep: "level (revealColumn a s) cy cx = EXIT_LADDER \<Longrightarrow>
     level (fold revealColumn xs (revealColumn a s)) cy cx = EXIT_LADDER"
    using Cons.IH [of "revealColumn a s"] by auto
  show ?case
  proof (cases "level (revealColumn a s) cy cx = level s cy cx")
    case True
    then show ?thesis using Cons.IH [of "revealColumn a s"] Cons.prems by auto
  next
    case False
    from step [OF False] keep show ?thesis by auto
  qed
qed

lemma revealExitLadder_level:
  "level (revealExitLadder s) cy cx \<noteq> level s cy cx \<Longrightarrow>
   cy = GRID_HEIGHT - 1 \<and> level (revealExitLadder s) cy cx = EXIT_LADDER"
proof -
  assume c: "level (revealExitLadder s) cy cx \<noteq> level s cy cx"
  let ?s1 = "fold revealColumn [0..GRID_WIDTH - 1] s"
  show ?thesis
  proof (cases "level ?s1 cy cx = level s cy cx")
    case True
    with c show ?thesis
      by (auto simp add: revealExitLadder_def Let_def split: if_splits)
  next
    case False
    from fold_revealColumn_level [OF False]
    have 1: "cy = GRID_HEIGHT - 1" "level ?s1 cy cx = EXIT_LADDER" by blast+
    then show ?thesis
      by (auto simp add: revealExitLadder_def Let_def split: if_splits)
  qed
qed

lemma checkLevelCompletion_level:
  "level (checkLevelCompletion s) cy cx \<noteq> level s cy cx \<Longrightarrow>
   cy = GRID_HEIGHT - 1 \<and> level (checkLevelCompletion s) cy cx = EXIT_LADDER \<and>
   \<not> levelComplete s \<and> levelComplete (checkLevelCompletion s) \<and>
   collectiblesCollected s \<ge> totalCollectibles s \<and> totalCollectibles s > 0"
proof -
  assume c: "level (checkLevelCompletion s) cy cx \<noteq> level s cy cx"
  then have g: "\<not> levelComplete s \<and> collectiblesCollected s \<ge> totalCollectibles s \<and>
         totalCollectibles s > 0"
    by (auto simp add: checkLevelCompletion_def split: if_splits)
  then have e: "checkLevelCompletion s = revealExitLadder (s\<lparr>levelComplete := True\<rparr>)"
    by (simp add: checkLevelCompletion_def)
  from c have "level (revealExitLadder (s\<lparr>levelComplete := True\<rparr>)) cy cx \<noteq>
      level (s\<lparr>levelComplete := True\<rparr>) cy cx"
    by (simp add: e)
  from revealExitLadder_level [OF this] g show ?thesis by (auto simp add: e)
qed

lemma checkLevelCompletion_complete:
  "levelComplete s \<Longrightarrow> checkLevelCompletion s = s"
  "levelComplete s \<Longrightarrow> levelComplete (checkLevelCompletion s)"
  by (simp_all add: checkLevelCompletion_def)

lemma levelComplete_mono: "levelComplete s \<Longrightarrow> levelComplete (checkLevelCompletion s)"
  by (simp add: checkLevelCompletion_def)

lemma refilledCell_brick:
  "brickUnderHoles s \<Longrightarrow> refilledCell dt (dugHoles s) cy cx \<Longrightarrow> level s cy cx = BRICK"
  by (auto simp add: brickUnderHoles_def holesWf_def refilledCell_def list_ex_iff list_all_iff
      holeOk_def)

lemma updateDigging_level_same:
  "brickUnderHoles s \<Longrightarrow> level (updateDigging dt s) = level s"
proof -
  assume b: "brickUnderHoles s"
  then have wf: "holesWf (dugHoles s)" by (simp add: brickUnderHoles_def)
  have "level (updateDigging dt s) cy cx = level s cy cx" for cy cx
    using refilledCell_brick [OF b, of dt cy cx]
    by (simp add: updateDigging_level [OF holesWf_brick [OF wf]])
  then show ?thesis by (simp add: fun_eq_iff)
qed

lemma map_fst_decay [simp]: "map fst (map (decay dt) hs) = map fst hs"
  by (simp add: decay_def)

lemma holeOk_decay [simp]: "holeOk (decay dt kh) = holeOk kh"
  by (simp add: holeOk_def decay_def)

lemma holesWf_updateDigging:
  "holesWf (dugHoles s) \<Longrightarrow> holesWf (dugHoles (updateDigging dt s))"
proof -
  assume wf: "holesWf (dugHoles s)"
  let ?keep = "filter (\<lambda>kh. \<not> expired dt (snd kh)) (dugHoles s)"
  have "map fst (map (decay dt) ?keep) = map fst ?keep" by (rule map_fst_decay)
  moreover have "distinct (map fst ?keep)"
    using wf by (simp add: holesWf_def distinct_map_filter)
  ultimately have "distinct (map fst (map (decay dt) ?keep))" by (simp only:)
  moreover have "list_all holeOk (map (decay dt) ?keep)"
    using wf by (simp add: holesWf_def list_all_iff)
  ultimately show ?thesis by (simp only: holesWf_def updateDigging_holes simp_thms)
qed

lemma brickUnderHoles_updateDigging:
  "brickUnderHoles s \<Longrightarrow> brickUnderHoles (updateDigging dt s)"
proof -
  assume b: "brickUnderHoles s"
  then have wf: "holesWf (dugHoles (updateDigging dt s))"
    by (simp add: brickUnderHoles_def holesWf_updateDigging)
  have "list_all (\<lambda>kh. level s (snd (fst kh)) (fst (fst kh)) = BRICK) (dugHoles (updateDigging dt s))"
    using b by (auto simp add: brickUnderHoles_def updateDigging_holes list_all_iff decay_def)
  then show ?thesis using wf b
    by (simp add: brickUnderHoles_def updateDigging_level_same)
qed

lemma brickUnderHoles_checkLevelCompletion:
  "brickUnderHoles s \<Longrightarrow> topCentreNotBrick s \<Longrightarrow> brickUnderHoles (checkLevelCompletion s)"
proof -
  assume b: "brickUnderHoles s" and t: "topCentreNotBrick s"
  have "level (checkLevelCompletion s) (snd (fst kh)) (fst (fst kh)) = BRICK"
    if m: "kh \<in> set (dugHoles s)" for kh
  proof (rule ccontr)
    assume n: "level (checkLevelCompletion s) (snd (fst kh)) (fst (fst kh)) \<noteq> BRICK"
    from b m have l: "level s (snd (fst kh)) (fst (fst kh)) = BRICK"
      by (simp add: brickUnderHoles_def list_all_iff)
    with n have c: "level (checkLevelCompletion s) (snd (fst kh)) (fst (fst kh)) \<noteq>
        level s (snd (fst kh)) (fst (fst kh))" by simp
    then have g: "\<not> levelComplete s \<and> collectiblesCollected s \<ge> totalCollectibles s \<and>
         totalCollectibles s > 0"
      by (auto simp add: checkLevelCompletion_def split: if_splits)
    let ?s0 = "s\<lparr>levelComplete := True\<rparr>"
    let ?s1 = "fold revealColumn [0..GRID_WIDTH - 1] ?s0"
    have e: "checkLevelCompletion s = revealExitLadder ?s0"
      using g by (simp add: checkLevelCompletion_def)
    have s1: "level ?s1 (snd (fst kh)) (fst (fst kh)) = BRICK"
      using fold_revealColumn_level [of "[0..GRID_WIDTH - 1]" ?s0 "snd (fst kh)" "fst (fst kh)"] l
      by auto
    have "level (revealExitLadder ?s0) (snd (fst kh)) (fst (fst kh)) = BRICK"
    proof (cases "snd (fst kh) = GRID_HEIGHT - 1 \<and> fst (fst kh) = GRID_WIDTH div 2")
      case True
      with l t show ?thesis by (simp add: topCentreNotBrick_def)
    next
      case False
      then show ?thesis using s1
        by (auto simp add: revealExitLadder_def Let_def)
    qed
    with n e show False by simp
  qed
  then show ?thesis using b
    by (simp add: brickUnderHoles_def list_all_iff)
qed

lemma topCentre_checkLevelCompletion:
  "topCentreNotBrick s \<Longrightarrow> topCentreNotBrick (checkLevelCompletion s)"
  using checkLevelCompletion_level [of s "GRID_HEIGHT - 1" "GRID_WIDTH div 2"]
  by (auto simp add: topCentreNotBrick_def)

lemma update_alt:
  "update elapsed rnd s =
     (if \<not> gameOver s \<and> \<not> gameWon s
      then tickSteps (clampDelta elapsed) rnd (s\<lparr>gameTime := gameTime s + clampDelta elapsed\<rparr>)
      else s\<lparr>gameTime := gameTime s + clampDelta elapsed\<rparr>)"
  by (simp add: update_def tickSteps_def clampDelta_def Let_def)

lemma brickUnderHoles_steps:
  "brickUnderHoles s \<Longrightarrow> brickUnderHoles (updateEnemies dt rnd (updatePlayer dt (handleInput dt s)))"
proof -
  assume "brickUnderHoles s"
  then have "brickUnderHoles (handleInput dt s)" by (rule brickUnderHoles_handleInput)
  then show ?thesis
    by (simp add: brickUnderHoles_cong [of "updateEnemies dt rnd (updatePlayer dt (handleInput dt s))"
          "handleInput dt s"])
qed

lemma level_before_reveal:
  "brickUnderHoles s \<Longrightarrow>
   level (updateDigging dt (updateEnemies dt rnd (updatePlayer dt (handleInput dt s)))) = level s"
proof -
  assume "brickUnderHoles s"
  then have "brickUnderHoles (updateEnemies dt rnd (updatePlayer dt (handleInput dt s)))"
    by (rule brickUnderHoles_steps)
  then have "level (updateDigging dt (updateEnemies dt rnd (updatePlayer dt (handleInput dt s)))) =
      level (updateEnemies dt rnd (updatePlayer dt (handleInput dt s)))"
    by (rule updateDigging_level_same)
  then show ?thesis by simp
qed

lemma tickSteps_brickUnderHoles:
  "brickUnderHoles s \<Longrightarrow> topCentreNotBrick s \<Longrightarrow>
   brickUnderHoles (tickSteps dt rnd s) \<and> topCentreNotBrick (tickSteps dt rnd s)"
proof -
  assume b: "brickUnderHoles s" and t: "topCentreNotBrick s"
  let ?s4 = "updateDigging dt (updateEnemies dt rnd (updatePlayer dt (handleInput dt s)))"
  have b4: "brickUnderHoles ?s4"
    using brickUnderHoles_steps [OF b] by (rule brickUnderHoles_updateDigging)
  have t4: "topCentreNotBrick ?s4"
    using t by (simp add: topCentreNotBrick_def level_before_reveal [OF b])
  show ?thesis
    using brickUnderHoles_checkLevelCompletion [OF b4 t4] topCentre_checkLevelCompletion [OF t4]
    by (simp add: tickSteps_def)
qed

lemma tickSteps_level:
  "brickUnderHoles s \<Longrightarrow> level (tickSteps dt rnd s) cy cx \<noteq> level s cy cx \<Longrightarrow>
   cy = GRID_HEIGHT - 1 \<and> level (tickSteps dt rnd s) cy cx = EXIT_LADDER \<and>
   \<not> levelComplete s \<and> levelComplete (tickSteps dt rnd s) \<and>
   collectiblesCollected (tickSteps dt rnd s) \<ge> totalCollectibles (tickSteps dt rnd s) \<and>
   totalCollectibles s > 0"
proof -
  assume b: "brickUnderHoles s" and c: "level (tickSteps dt rnd s) cy cx \<noteq> level s cy cx"
  let ?s4 = "updateDigging dt (updateEnemies dt rnd (updatePlayer dt (handleInput dt s)))"
  from c have "level (checkLevelCompletion ?s4) cy cx \<noteq> level ?s4 cy cx"
    by (simp add: tickSteps_def level_before_reveal [OF b])
  from checkLevelCompletion_level [OF this] show ?thesis
    by (auto simp add: tickSteps_def)
qed

lemma tickSteps_complete:
  "levelComplete s \<Longrightarrow> levelComplete (tickSteps dt rnd s)"
  "brickUnderHoles s \<Longrightarrow> levelComplete s \<Longrightarrow> level (tickSteps dt rnd s) = level s"
  by (simp_all add: tickSteps_def checkLevelCompletion_complete level_before_reveal)

lemma tickSteps_lives_le: "lives (tickSteps dt rnd s) \<le> lives s"
proof -
  have "lives (updateEnemies dt rnd (updatePlayer dt (handleInput dt s))) \<le>
        lives (updatePlayer dt (handleInput dt s))"
    unfolding updateEnemies_def by (rule fold_updateEnemy_lives_le)
  also have "\<dots> \<le> lives s" by (simp add: updatePlayer_lives)
  finally show ?thesis by (simp add: tickSteps_def)
qed

lemma overIffNoLives_cong:
  "lives t = lives s \<Longrightarrow> gameOver t = gameOver s \<Longrightarrow> overIffNoLives t = overIffNoLives s"
  by (simp add: overIffNoLives_def)

lemma tickSteps_over: "overIffNoLives s \<Longrightarrow> overIffNoLives (tickSteps dt rnd s)"
proof -
  assume o: "overIffNoLives s"
  then have "overIffNoLives (handleInput dt s)" by (simp add: overIffNoLives_def)
  then have "overIffNoLives (updatePlayer dt (handleInput dt s))"
    by (auto simp add: overIffNoLives_def updatePlayer_lives)
  then have "overIffNoLives (updateEnemies dt rnd (updatePlayer dt (handleInput dt s)))"
    unfolding updateEnemies_def by (rule fold_updateEnemy_over)
  then show ?thesis by (simp add: tickSteps_def overIffNoLives_def)
qed

subsection \<open>The states of a session\<close>

lemma upto_0_19: "[0..19::int] = [0,1,2,3,4,5,6,7,8,9,10,11,12,13,14,15,16,17,18,19]"
  by code_simp

lemma upto_0_14: "[0..14::int] = [0,1,2,3,4,5,6,7,8,9,10,11,12,13,14]"
  by code_simp

lemma total_setTile [simp]: "totalCollectibles (setTile gy gx t s) = totalCollectibles s"
  by (simp add: setTile_def)

lemma total_setCollectible [simp]: "totalCollectibles (setCollectible gy gx v s) = totalCollectibles s"
  by (simp add: setCollectible_def)

lemma loadCell_total:
  "0 \<le> gx \<Longrightarrow> totalCollectibles (lgame (loadCell gy gx l)) =
     totalCollectibles (lgame l) + collectibleAt gy gx"
  by (auto simp add: loadCell_def Let_def length_levelLayout inLayout_def collectibleAt_def)

lemma fold_loadCell_total:
  "\<forall>x\<in>set xs. 0 \<le> x \<Longrightarrow>
   totalCollectibles (lgame (fold (loadCell gy) xs l)) =
     totalCollectibles (lgame l) + sum_list (map (collectibleAt gy) xs)"
  by (induction xs arbitrary: l) (simp_all add: loadCell_total)

lemma fold2_loadCell_total:
  "\<forall>x\<in>set xs. 0 \<le> x \<Longrightarrow>
   totalCollectibles (lgame (fold (\<lambda>gy. fold (loadCell gy) xs) ys l)) =
     totalCollectibles (lgame l) + sum_list (map (\<lambda>gy. sum_list (map (collectibleAt gy) xs)) ys)"
  by (induction ys arbitrary: l) (simp_all add: fold_loadCell_total)

lemma fold_clearCell_total [simp]:
  "totalCollectibles (fold (clearCell gy) xs s) = totalCollectibles s"
  by (induction xs arbitrary: s) (simp_all add: clearCell_def)

lemma fold2_clearCell_total [simp]:
  "totalCollectibles (fold (\<lambda>gy. fold (clearCell gy) xs) ys s) = totalCollectibles s"
  by (induction ys arbitrary: s) simp_all

lemma fold_assignEnemyStart_total [simp]:
  "totalCollectibles (fold (assignEnemyStart ps) js s) = totalCollectibles s"
  by (induction js arbitrary: s) (simp_all add: assignEnemyStart_def Let_def)

lemma fold_respawn_total [simp]:
  "totalCollectibles (fold (\<lambda>i g. g\<lparr>enemies := (enemies g)(i := f i g)\<rparr>) js s) = totalCollectibles s"
  by (induction js arbitrary: s) simp_all

lemma layout_count:
  "sum_list (map (\<lambda>gy. sum_list (map (collectibleAt gy) [0..19])) [0..14]) = 18"
  by (simp add: upto_0_19 upto_0_14 collectibleAt_def inLayout_def levelLayout_def)

lemma total_init: "totalCollectibles (init rnd s) = 18"
  by (simp add: init_def initEntities_def initLevel_def Let_def fold2_loadCell_total
      GRID_WIDTH_def GRID_HEIGHT_def layout_count)

lemma sessionInv_tick: "sessionInv s \<Longrightarrow> sessionInv (update elapsed rnd s)"
proof -
  assume i: "sessionInv s"
  let ?s1 = "s\<lparr>gameTime := gameTime s + clampDelta elapsed\<rparr>"
  from i have i1: "brickUnderHoles ?s1" "topCentreNotBrick ?s1" "overIffNoLives ?s1"
    by (simp_all add: sessionInv_def brickUnderHoles_def topCentreNotBrick_def overIffNoLives_def)
  show ?thesis
    using i1 tickSteps_brickUnderHoles [OF i1(1) i1(2)] tickSteps_over [OF i1(3)]
    by (simp add: update_alt sessionInv_def)
qed

lemma level_init:
  "level (init rnd s) y x =
     (if 0 \<le> y \<and> y \<le> 14 \<and> 0 \<le> x \<and> x \<le> 19 then layoutTile y x else level s y x)"
  by (simp add: init_def initEntities_def Let_def level_initLevel inLayout_grid)

lemma layoutTile_top: "layoutTile 14 10 = SOLID_BRICK"
  by (simp add: layoutTile_def levelLayout_def tileOfChar_def)

lemma sessionInv_init: "sessionInv (init rnd s)"
proof -
  have "dugHoles (init rnd s) = []" "lives (init rnd s) = 3" "\<not> gameOver (init rnd s)"
    by (simp_all add: init_def INITIAL_LIVES_def)
  then show ?thesis
    by (simp add: sessionInv_def brickUnderHoles_def holesWf_def topCentreNotBrick_def
        overIffNoLives_def level_init layoutTile_top GRID_WIDTH_def GRID_HEIGHT_def)
qed

lemma reachable_sessionInv: "reachable s \<Longrightarrow> sessionInv s"
proof (induction rule: reachable.induct)
  case (start rnd)
  then show ?case by (simp add: newGame_def sessionInv_init)
next
  case (tick s elapsed rnd)
  then show ?case by (simp add: sessionInv_tick)
next
  case (keys s k sk)
  then show ?case
    by (simp add: sessionInv_def brickUnderHoles_def topCentreNotBrick_def overIffNoLives_def)
next
  case (reset s rnd)
  then show ?case by (simp add: sessionInv_init)
qed

lemma reachable_holesInGrid: "reachable s \<Longrightarrow> holesInGrid (dugHoles s)"
proof -
  assume "reachable s"
  then have "sessionInv s" by (rule reachable_sessionInv)
  then show ?thesis
    by (auto simp add: sessionInv_def brickUnderHoles_def holesWf_def holesInGrid_def
        list_all_iff holeOk_def)
qed

subsection \<open>The exit reveal on the loaded level\<close>

lemma top_rows:
  "layoutTile 13 0 = SOLID_BRICK" "layoutTile 13 1 = EMPTY" "layoutTile 13 2 = EMPTY"
  "layoutTile 13 3 = EMPTY" "layoutTile 13 4 = EMPTY" "layoutTile 13 5 = EMPTY"
  "layoutTile 13 6 = EMPTY" "layoutTile 13 7 = EMPTY" "layoutTile 13 8 = EMPTY"
  "layoutTile 13 9 = EMPTY" "layoutTile 13 10 = EMPTY" "layoutTile 13 11 = EMPTY"
  "layoutTile 13 12 = EMPTY" "layoutTile 13 13 = EMPTY" "layoutTile 13 14 = EMPTY"
  "layoutTile 13 15 = EMPTY" "layoutTile 13 16 = EMPTY" "layoutTile 13 17 = EMPTY"
  "layoutTile 13 18 = EMPTY" "layoutTile 13 19 = SOLID_BRICK"
  "layoutTile 14 0 = SOLID_BRICK" "layoutTile 14 1 = SOLID_BRICK" "layoutTile 14 2 = SOLID_BRICK"
  "layoutTile 14 3 = SOLID_BRICK" "layoutTile 14 4 = SOLID_BRICK" "layoutTile 14 5 = SOLID_BRICK"
  "layoutTile 14 6 = SOLID_BRICK" "layoutTile 14 7 = SOLID_BRICK" "layoutTile 14 8 = SOLID_BRICK"
  "layoutTile 14 9 = SOLID_BRICK" "layoutTile 14 10 = SOLID_BRICK" "layoutTile 14 11 = SOLID_BRICK"
  "layoutTile 14 12 = SOLID_BRICK" "layoutTile 14 13 = SOLID_BRICK" "layoutTile 14 14 = SOLID_BRICK"
  "layoutTile 14 15 = SOLID_BRICK" "layoutTile 14 16 = SOLID_BRICK" "layoutTile 14 17 = SOLID_BRICK"
  "layoutTile 14 18 = SOLID_BRICK" "layoutTile 14 19 = SOLID_BRICK"
  by (simp_all add: layoutTile_def levelLayout_def tileOfChar_def)

lemma reveal_on_loaded_level:
  "level s = level (newGame rnd) \<Longrightarrow> level (revealExitLadder s) 14 10 = EXIT_LADDER"
  by (simp add: revealExitLadder_def Let_def GRID_WIDTH_def GRID_HEIGHT_def upto_0_19
      revealColumn_def level_newGame top_rows)

lemma collectedGame_fields:
  "dugHoles collectedGame = []" "level collectedGame = level (newGame heads)"
  "totalCollectibles collectedGame = 18" "collectiblesCollected collectedGame = 18"
  "\<not> levelComplete collectedGame" "\<not> gameOver collectedGame" "\<not> gameWon collectedGame"
  by (simp_all add: collectedGame_def newGame_def total_init) (simp_all add: init_def)

lemma le_collectAt:
  "n \<le> collectiblesCollected s \<Longrightarrow> n \<le> collectiblesCollected (collectAt cx cy s)"
  by (simp add: collectAt_def Let_def)

lemma le_checkWin:
  "n \<le> collectiblesCollected s \<Longrightarrow> n \<le> collectiblesCollected (checkWin s)"
  by simp

lemma updatePlayer_collected:
  "collectiblesCollected s \<le> collectiblesCollected (updatePlayer dt s)"
  by (simp add: updatePlayer_def Let_def le_collectAt)

lemma collectedGame_tick:
  "level (update (1 / 50) heads collectedGame) 14 10 = EXIT_LADDER"
proof -
  let ?s1 = "collectedGame\<lparr>gameTime := gameTime collectedGame + clampDelta (1 / 50)\<rparr>"
  let ?s4 = "updateDigging (clampDelta (1 / 50)) (updateEnemies (clampDelta (1 / 50)) heads
               (updatePlayer (clampDelta (1 / 50)) (handleInput (clampDelta (1 / 50)) ?s1)))"
  have b: "brickUnderHoles ?s1"
    by (simp add: brickUnderHoles_def holesWf_def collectedGame_fields)
  have l4: "level ?s4 = level (newGame heads)"
    by (simp add: level_before_reveal [OF b] collectedGame_fields)
  have c: "collectiblesCollected ?s1 \<le> collectiblesCollected ?s4"
    using updatePlayer_collected [of "handleInput (clampDelta (1 / 50)) ?s1" "clampDelta (1 / 50)"]
    by simp
  then have c4: "18 \<le> collectiblesCollected ?s4" by (simp add: collectedGame_fields)
  have t4: "totalCollectibles ?s4 = 18" "\<not> levelComplete ?s4"
    by (simp_all add: collectedGame_fields)
  have "level (checkLevelCompletion ?s4) 14 10 = EXIT_LADDER"
    using c4 t4 l4 by (simp add: checkLevelCompletion_def reveal_on_loaded_level)
  then show ?thesis
    by (simp add: update_alt tickSteps_def collectedGame_fields)
qed

text \<open>What a tick changes in the grid, in a state in which every entry of the registry
  lies on a cell stored as \<open>BRICK\<close>: only cells of the top row, to \<open>EXIT_LADDER\<close>, in
  the tick that sets the level complete. The refill step leaves the grid as it is.\<close>

lemma tick_grid_changes:
  assumes "brickUnderHoles s"
  shows "(level (update elapsed rnd s) cy cx \<noteq> level s cy cx \<longrightarrow>
            cy = GRID_HEIGHT - 1 \<and> level (update elapsed rnd s) cy cx = EXIT_LADDER \<and>
            \<not> levelComplete s \<and> levelComplete (update elapsed rnd s) \<and>
            totalCollectibles (update elapsed rnd s) \<le> collectiblesCollected (update elapsed rnd s) \<and>
            0 < totalCollectibles s)
       \<and> (levelComplete s \<longrightarrow>
            levelComplete (update elapsed rnd s) \<and> level (update elapsed rnd s) = level s)
       \<and> level (updateDigging dt s) = level s
       \<and> (\<forall>kh \<in> set (dugHoles s).
            level (updateDigging dt s) (snd (fst kh)) (fst (fst kh)) = BRICK)"
proof (intro conjI impI ballI)
  let ?s1 = "s\<lparr>gameTime := gameTime s + clampDelta elapsed\<rparr>"
  have b1: "brickUnderHoles ?s1" using assms by (simp add: brickUnderHoles_def)
  {
    assume c: "level (update elapsed rnd s) cy cx \<noteq> level s cy cx"
    then have run: "\<not> gameOver s \<and> \<not> gameWon s"
      by (auto simp add: update_alt split: if_splits)
    with c have "level (tickSteps (clampDelta elapsed) rnd ?s1) cy cx \<noteq> level ?s1 cy cx"
      by (simp add: update_alt)
    from tickSteps_level [OF b1 this] run
    show "cy = GRID_HEIGHT - 1" "level (update elapsed rnd s) cy cx = EXIT_LADDER"
      "\<not> levelComplete s" "levelComplete (update elapsed rnd s)"
      "totalCollectibles (update elapsed rnd s) \<le> collectiblesCollected (update elapsed rnd s)"
      "0 < totalCollectibles s"
      by (auto simp add: update_alt)
  }
  {
    assume lc: "levelComplete s"
    then have lc1: "levelComplete ?s1" by simp
    show "levelComplete (update elapsed rnd s)"
      using tickSteps_complete(1) [OF lc1] lc by (simp add: update_alt)
    show "level (update elapsed rnd s) = level s"
      using tickSteps_complete(2) [OF b1 lc1] by (simp add: update_alt)
  }
  show "level (updateDigging dt s) = level s"
    using assms by (rule updateDigging_level_same)
  fix kh assume "kh \<in> set (dugHoles s)"
  then show "level (updateDigging dt s) (snd (fst kh)) (fst (fst kh)) = BRICK"
    using assms by (simp add: updateDigging_level_same brickUnderHoles_def list_all_iff)
qed

lemma tick_grid_changes_example:
  "brickUnderHoles collectedGame
   \<and> level (update (1 / 50) heads collectedGame) 14 10 \<noteq> level collectedGame 14 10
   \<and> level (update (1 / 50) heads collectedGame) 14 10 = EXIT_LADDER
   \<and> \<not> levelComplete collectedGame \<and> levelComplete (update (1 / 50) heads collectedGame)
   \<and> brickUnderHoles refillGame \<and> level (updateDigging (1 / 50) refillGame) = level refillGame
   \<and> level (updateDigging (1 / 50) refillGame) 3 3 = BRICK"
proof -
  have b: "brickUnderHoles collectedGame"
    by (simp add: brickUnderHoles_def holesWf_def collectedGame_fields)
  have r: "brickUnderHoles refillGame"
    by (simp add: brickUnderHoles_def holesWf_def holeOk_def refillGame_fields brickHole_def
        inGrid_def GRID_WIDTH_def GRID_HEIGHT_def level_newGame layoutTile_3_3 layoutTile_3_5)
  have c: "level (update (1 / 50) heads collectedGame) 14 10 \<noteq> level collectedGame 14 10"
    by (simp add: collectedGame_tick collectedGame_fields level_newGame top_rows)
  show ?thesis
    using tick_grid_changes [OF b, of "1 / 50" heads 14 10 "1 / 50"]
      tick_grid_changes [OF r, of "1 / 50" heads 14 10 "1 / 50"] c
    by (simp add: b r collectedGame_tick refillGame_fields brickHole_def level_newGame
        layoutTile_3_3)
qed

subsection \<open>An enemy on the rope below a ladder\<close>

lemma climb_cells:
  "layoutTile 8 4 = ROPE" "layoutTile 9 4 = LADDER" "layoutTile 7 4 = EMPTY"
  "layoutTile 10 2 = EMPTY" "layoutTile 9 2 = BRICK"
  "layoutTile 1 2 = EMPTY" "layoutTile 1 3 = EMPTY" "layoutTile 0 2 = SOLID_BRICK"
  "layoutTile 0 3 = SOLID_BRICK"
  by (simp_all add: layoutTile_def levelLayout_def tileOfChar_def)

lemma climb_ladderAbove:
  assumes "dugHoles s = []" "level s = level (newGame rnd0)"
  shows "ladderAboveFrom s 180 8"
proof -
  have "ladderAboveFrom s 180 9"
    by (subst ladderAboveFrom.simps)
      (simp add: getTileAt_plain [OF assms] cell_eval climb_cells)
  then show ?thesis
    by (subst ladderAboveFrom.simps)
      (simp add: getTileAt_plain [OF assms] cell_eval climb_cells)
qed

lemma climb_AI:
  assumes d: "dugHoles s = []" and l: "level s = level (newGame rnd0)"
    and p: "player s = standing 84 400"
    and e: "enemies s 0 = (standing 164 320)\<lparr>isOnRope := True\<rparr>"
  shows "enemyAI 0 s = (standing 164 320)\<lparr>isOnRope := True, vy := 150, isClimbing := True\<rparr>"
proof -
  let ?e = "(standing 164 320)\<lparr>isOnRope := True\<rparr>"
  have f: "ex ?e = 164" "ey ?e = 320" "ex (standing 84 400) = 84" "ey (standing 84 400) = 400"
    by (simp_all add: standing_def)
  have r: "checkOnRope s ?e"
    by (simp add: checkOnRope_def Let_def f getTileAt_plain [OF d l] cell_eval climb_cells)
  have a: "ladderAboveFrom s 180 8" by (rule climb_ladderAbove [OF d l])
  have g: "getGridY (358::real) = 8" by (simp add: cell_eval)
  show ?thesis
    by (simp add: enemyAI_def Let_def e p f r a g TILE_SIZE_def CLIMB_SPEED_def)
      (simp add: standing_def)
qed


lemma climb_physics:
  assumes d: "dugHoles s = []" and l: "level s = level (newGame rnd0)"
    and e: "enemies s 0 = (standing 164 320)\<lparr>isOnRope := True, vy := 150, isClimbing := True\<rparr>"
  shows "updatePhysics (EnemyRef 0) (1 / 50) s =
           s\<lparr>enemies := (enemies s)(0 := (standing 164 323)\<lparr>isOnRope := True, vy := 150,
                                                             isClimbing := True\<rparr>)\<rparr>"
proof -
  let ?e = "(standing 164 320)\<lparr>isOnRope := True, vy := 150, isClimbing := True\<rparr>"
  let ?e' = "(standing 164 323)\<lparr>isOnRope := True, vy := 150, isClimbing := True\<rparr>"
  have f: "ex ?e = 164" "ey ?e = 320" "vx ?e = 0" "vy ?e = 150" "\<not> isTrapped ?e"
    "\<not> isFalling ?e" "isClimbing ?e" "isOnRope ?e"
    by (simp_all add: standing_def)
  have g: "applyGravity (1 / 50) ?e = ?e"
    by (simp add: applyGravity_def f)
  have v: "verticalCollision (EnemyRef 0) s 320 164 323 ?e = (323, ?e)"
    by (simp add: verticalCollision_def Let_def f TILE_SIZE_def getTileAt_plain [OF d l]
        cell_eval climb_cells solid_def)
  have h: "horizontalCollision s 164 323 ?e = (164, ?e)"
    by (rule still_horizontal) (simp add: f)
  have q: "?e\<lparr>ex := 164, ey := 323\<rparr> = ?e'" by (simp add: standing_def)
  have b: "boundaryChecks (EnemyRef 0) ?e' s = (?e', s)"
    by (rule inside_boundary) (simp_all add: standing_def)
  have m: "movePhysics (EnemyRef 0) (1 / 50) s = (?e', s)"
    by (simp add: movePhysics_def Let_def e g f v h q b)
  have r: "landingReset (EnemyRef 0) s ?e' = ?e'"
    by (simp add: landingReset_def standing_def)
  have c: "holeCapture s ?e' = ?e'"
    by (simp add: holeCapture_def Let_def d split: if_splits)
  show ?thesis
    by (simp add: updatePhysics_def e f m r c)
qed

lemma climb_enemy_step:
  assumes d: "dugHoles s = []" and l: "level s = level (newGame rnd0)"
    and p: "player s = standing 84 400"
    and e: "enemies s 0 = (standing 164 320)\<lparr>isOnRope := True\<rparr>"
  shows "enemies (updateEnemy (1 / 50) rnd 0 s) 0 =
           (standing 164 323)\<lparr>isOnRope := True, vy := 150, isClimbing := True\<rparr>"
proof -
  let ?s1 = "s\<lparr>enemies := (enemies s)(0 := enemyAI 0 s)\<rparr>"
  have a: "enemies ?s1 0 = (standing 164 320)\<lparr>isOnRope := True, vy := 150, isClimbing := True\<rparr>"
    by (simp add: climb_AI [OF d l p e])
  have d1: "dugHoles ?s1 = []" and l1: "level ?s1 = level (newGame rnd0)"
    by (simp_all add: d l)
  have u: "updatePhysics (EnemyRef 0) (1 / 50) ?s1 =
      ?s1\<lparr>enemies := (enemies ?s1)(0 := (standing 164 323)\<lparr>isOnRope := True, vy := 150,
                                                             isClimbing := True\<rparr>)\<rparr>"
    by (rule climb_physics [OF d1 l1 a])
  have f: "\<not> isTrapped ((standing 164 320)\<lparr>isOnRope := True\<rparr>)"
    "isAlive ((standing 164 320)\<lparr>isOnRope := True\<rparr>)"
    by (simp_all add: standing_def)
  let ?s2 = "updatePhysics (EnemyRef 0) (1 / 50) ?s1"
  have e2: "enemies ?s2 0 = (standing 164 323)\<lparr>isOnRope := True, vy := 150, isClimbing := True\<rparr>"
    and p2: "player ?s2 = standing 84 400"
    by (simp_all only: u) (simp_all add: p)
  have c: "catchPlayer (rnd 0) 0 ?s2 = ?s2"
    by (simp only: catchPlayer_def Let_def p2 e2)
      (simp add: isColliding_def standing_def TILE_SIZE_def)
  have "updateEnemy (1 / 50) rnd 0 s = ?s2"
    using f by (simp only: updateEnemy_def e c if_False if_True simp_thms)
  then show ?thesis by (simp only: e2)
qed

lemma updateEnemy_others:
  "i \<noteq> j \<Longrightarrow> enemies (updateEnemy dt rnd j s) i = enemies s i"
proof -
  assume n: "i \<noteq> j"
  have u: "enemies (updatePhysics (EnemyRef j) dt s') i = enemies s' i" for s'
    using updatePhysics_frame [of "EnemyRef j" dt s'] n by auto
  have c: "enemies (catchPlayer b j s') i = enemies s' i" for b s'
    using n by (simp add: catchPlayer_def Let_def)
  show ?thesis using n by (simp add: updateEnemy_def Let_def u c)
qed



lemma climb_player_input:
  assumes d: "dugHoles s = []" and l: "level s = level (newGame rnd0)"
    and p: "player s = standing 84 400"
    and k: "keyStates s = (\<lambda>c. False)" "specialKeyStates s = (\<lambda>k. False)"
    and o: "\<not> gameOver s" "\<not> gameWon s"
  shows "handleInput dt s = s"
proof -
  have f: "ex (standing 84 400) = 84" "ey (standing 84 400) = 400"
    by (simp_all add: standing_def)
  have r: "\<not> checkOnRope s ((standing 84 400)\<lparr>vx := 0\<rparr>)"
    by (simp add: checkOnRope_def Let_def f getTileAt_plain [OF d l] cell_eval climb_cells)
  have a: "\<not> isOnLadder s ((standing 84 400)\<lparr>vx := 0\<rparr>)"
    by (simp add: isOnLadder_def Let_def f getTileAt_plain [OF d l] cell_eval climb_cells
        ladderTile_def)
  have z: "s\<lparr>player := standing 84 400\<rparr> = s" by (simp add: p [symmetric])
  have m: "moveInput s = s"
    by (simp add: moveInput_def Let_def p k r a horizontalInput_def ladderInput_def ropeInput_def)
      (simp add: z [unfolded standing_def] standing_def)
  have g: "digInput s = s"
    by (simp add: digInput_def Let_def k)
  show ?thesis using o by (simp add: handleInput_def m g p standing_def)
qed

lemma climb_player_physics:
  assumes d: "dugHoles s = []" and l: "level s = level (newGame rnd0)"
    and p: "player s = standing 84 400"
  shows "updatePhysics PlayerRef (1 / 50) s = s"
proof -
  let ?p = "standing 84 400"
  let ?q = "(standing 84 400)\<lparr>vy := - 10\<rparr>"
  have f: "ex ?q = 84" "ey ?q = 400" "vx ?q = 0" "vy ?q = - 10" "\<not> isTrapped ?p"
    by (simp_all add: standing_def)
  have g: "applyGravity (1 / 50) ?p = ?q"
    by (simp add: applyGravity_def standing_def GRAVITY_def)
  have v: "verticalCollision PlayerRef s 400 84 (1999 / 5) ?q = (400, ?p)"
    by (simp add: verticalCollision_def Let_def f TILE_SIZE_def getTileAt_plain [OF d l]
        cell_eval climb_cells solid_def)
      (simp add: standing_def)
  have h: "horizontalCollision s 84 400 ?p = (84, ?p)"
    by (rule still_horizontal) (simp add: standing_def)
  have q: "?p\<lparr>ex := 84, ey := 400\<rparr> = ?p" by (simp add: standing_def)
  have b: "boundaryChecks PlayerRef ?p s = (?p, s)"
    by (rule inside_boundary) (simp_all add: standing_def)
  have m: "movePhysics PlayerRef (1 / 50) s = (?p, s)"
    by (simp add: movePhysics_def Let_def p g f v h q b)
  have r: "landingReset PlayerRef s ?p = ?p"
    by (simp add: landingReset_def standing_def)
  have c: "holeCapture s ?p = ?p"
    by (simp add: holeCapture_def Let_def d split: if_splits)
  show ?thesis
    by (simp add: updatePhysics_def p f m r c)
qed

lemma updatePlayer_player:
  "isAlive (player s) \<Longrightarrow> player (updatePlayer dt s) = player (updatePhysics PlayerRef dt s)"
  by (simp add: updatePlayer_def Let_def)


lemma climbGame_fields:
  "dugHoles climbGame = []" "level climbGame = level (newGame heads)"
  "player climbGame = standing 84 400"
  "enemies climbGame i = (standing 164 320)\<lparr>isOnRope := True\<rparr>"
  "keyStates climbGame = (\<lambda>c. False)" "specialKeyStates climbGame = (\<lambda>k. False)"
  "\<not> gameOver climbGame" "\<not> gameWon climbGame"
  by (simp_all add: climbGame_def newGame_def init_def)

lemma climbGame_tick:
  "enemies (update (1 / 50) heads climbGame) 0 =
     (standing 164 323)\<lparr>isOnRope := True, vy := 150, isClimbing := True\<rparr>"
proof -
  let ?s0 = "climbGame\<lparr>gameTime := gameTime climbGame + 1 / 50\<rparr>"
  have d: "dugHoles ?s0 = []" and l: "level ?s0 = level (newGame heads)"
    and p: "player ?s0 = standing 84 400"
    and e: "enemies ?s0 0 = (standing 164 320)\<lparr>isOnRope := True\<rparr>"
    and k: "keyStates ?s0 = (\<lambda>c. False)" "specialKeyStates ?s0 = (\<lambda>k. False)"
    and o: "\<not> gameOver ?s0" "\<not> gameWon ?s0"
    by (simp_all add: climbGame_fields)
  have c: "clampDelta (1 / 50) = 1 / 50" by (simp add: clampDelta_def)
  have h: "handleInput (1 / 50) ?s0 = ?s0" by (rule climb_player_input [OF d l p k o])
  let ?s1 = "updatePlayer (1 / 50) ?s0"
  have a: "isAlive (player ?s0)" by (simp add: climbGame_fields standing_def)
  have p1: "player ?s1 = standing 84 400"
    using updatePlayer_player [OF a, of "1 / 50"] climb_player_physics [OF d l p] p by simp
  have d1: "dugHoles ?s1 = []" and l1: "level ?s1 = level (newGame heads)"
    and e1: "enemies ?s1 0 = (standing 164 320)\<lparr>isOnRope := True\<rparr>"
    by (simp_all add: climbGame_fields)
  let ?s2 = "updateEnemy (1 / 50) heads 0 ?s1"
  have e2: "enemies ?s2 0 = (standing 164 323)\<lparr>isOnRope := True, vy := 150, isClimbing := True\<rparr>"
    by (rule climb_enemy_step [OF d1 l1 p1 e1])
  let ?s3 = "updateEnemies (1 / 50) heads ?s1"
  have e3: "enemies ?s3 0 = enemies ?s2 0"
    by (simp add: updateEnemies_def upt_numEnemies updateEnemy_others)
  have d3: "dugHoles ?s3 = []" by (simp add: climbGame_fields)
  have e4: "enemies (updateDigging (1 / 50) ?s3) 0 = enemies ?s3 0"
    by (simp only: updateDigging_enemies d3) (simp add: refilledUnder_def)
  have "update (1 / 50) heads climbGame =
      checkLevelCompletion (updateDigging (1 / 50) ?s3)"
    by (simp add: update_alt tickSteps_def c h climbGame_fields)
  then show ?thesis by (simp only: checkLevelCompletion_fields e4 e3 e2)
qed

subsection \<open>A fall below the window and a contact with an enemy\<close>

lemma fallGame_fields:
  "dugHoles fallGame = []" "level fallGame = level (newGame heads)"
  "player fallGame = (standing 124 40)\<lparr>vy := - 8000, isFalling := True\<rparr>"
  "keyStates fallGame = (\<lambda>c. False)" "specialKeyStates fallGame = (\<lambda>k. False)"
  "\<not> gameOver fallGame" "\<not> gameWon fallGame" "lives fallGame = 3"
  by (simp_all add: fallGame_def newGame_def init_def INITIAL_LIVES_def)

lemma pit_cells:
  "layoutTile 1 3 = EMPTY" "layoutTile 1 2 = EMPTY" "layoutTile 0 2 = SOLID_BRICK"
  "layoutTile 0 3 = SOLID_BRICK"
  by (simp_all add: layoutTile_def levelLayout_def tileOfChar_def)

lemma fall_input:
  assumes d: "dugHoles s = []" and l: "level s = level (newGame rnd0)"
    and p: "player s = (standing 124 40)\<lparr>vy := - 8000, isFalling := True\<rparr>"
    and k: "keyStates s = (\<lambda>c. False)" "specialKeyStates s = (\<lambda>k. False)"
    and o: "\<not> gameOver s" "\<not> gameWon s"
  shows "handleInput dt s = s"
proof -
  let ?p = "(standing 124 40)\<lparr>vy := - 8000, isFalling := True\<rparr>"
  have f: "ex (?p\<lparr>vx := 0\<rparr>) = 124" "ey (?p\<lparr>vx := 0\<rparr>) = 40"
    by (simp_all add: standing_def)
  have r: "\<not> checkOnRope s (?p\<lparr>vx := 0\<rparr>)"
    by (simp add: checkOnRope_def Let_def f getTileAt_plain [OF d l] cell_eval pit_cells)
  have a: "\<not> isOnLadder s (?p\<lparr>vx := 0\<rparr>)"
    by (simp add: isOnLadder_def Let_def f getTileAt_plain [OF d l] cell_eval pit_cells
        ladderTile_def)
  have z: "s\<lparr>player := ?p\<rparr> = s" by (simp add: p [symmetric])
  have m: "moveInput s = s"
    by (simp add: moveInput_def Let_def p k r a horizontalInput_def ladderInput_def ropeInput_def)
      (simp add: z [unfolded standing_def, simplified] standing_def)
  have g: "digInput s = s"
    by (simp add: digInput_def Let_def k)
  show ?thesis using o by (simp add: handleInput_def m g p standing_def)
qed

lemma fall_off:
  assumes d: "dugHoles s = []" and l: "level s = level (newGame rnd0)"
    and p: "player s = (standing 124 40)\<lparr>vy := - 8000, isFalling := True\<rparr>"
  shows "fellOff PlayerRef (1 / 50) s"
proof -
  let ?p = "(standing 124 40)\<lparr>vy := - 8000, isFalling := True\<rparr>"
  let ?q = "(standing 124 40)\<lparr>vy := - 8010, isFalling := True\<rparr>"
  have f: "ex ?q = 124" "ey ?q = 40" "vx ?q = 0" "vy ?q = - 8010" "\<not> isTrapped ?p"
    by (simp_all add: standing_def)
  have g: "applyGravity (1 / 50) ?p = ?q"
    by (simp add: applyGravity_def standing_def GRAVITY_def)
  let ?r = "(standing 124 40)\<lparr>vy := 0\<rparr>"
  have vc: "verticalCollision PlayerRef s 40 124 (- (601 / 5)) ?q = (- 120, ?r)"
    by (simp add: verticalCollision_def Let_def f TILE_SIZE_def getTileAt_plain [OF d l]
        cell_eval solid_def)
      (simp add: standing_def)
  have hc: "horizontalCollision s 124 (- 120) ?r = (124, ?r)"
    by (rule still_horizontal) (simp add: standing_def)
  have "ey (preBoundary PlayerRef (1 / 50) s) = - 120"
    by (simp add: preBoundary_def Let_def p g f vc hc)
  then show ?thesis using f by (simp add: fellOff_def p TILE_SIZE_def)
qed


lemma contactGame_fields:
  "dugHoles contactGame = []" "level contactGame = level (newGame heads)"
  "player contactGame = standing 84 40"
  "enemies contactGame i = standing 100 40"
  "\<not> gameOver contactGame" "\<not> gameWon contactGame" "lives contactGame = 3"
  by (simp_all add: contactGame_def newGame_def init_def INITIAL_LIVES_def)

lemma contact_AI:
  assumes d: "dugHoles s = []" and l: "level s = level (newGame rnd0)"
    and p: "player s = standing 84 40"
    and e: "enemies s i = standing 100 40"
  shows "enemyAI i s = (standing 100 40)\<lparr>vx := - 120, faceRight := False\<rparr>"
proof -
  let ?e = "standing 100 40"
  have f: "ex ?e = 100" "ey ?e = 40" "ex (standing 84 40) = 84" "ey (standing 84 40) = 40"
    "\<not> isFalling ?e"
    by (simp_all add: standing_def)
  have r: "\<not> checkOnRope s ?e"
    by (simp add: checkOnRope_def Let_def f getTileAt_plain [OF d l] cell_eval pit_cells)
  have t: "getTileAt s 116 40 = EMPTY" "getTileAt s 92 39 = SOLID_BRICK"
    "getTileAt s 92 40 = EMPTY"
    by (simp_all add: getTileAt_plain [OF d l] cell_eval pit_cells)
  have c: "canMoveTo s 99 40 32 38 a b" for a b
    by (simp add: canMoveTo_def getTileAt_plain [OF d l] cell_eval pit_cells solid_def)
  show ?thesis
    by (simp add: enemyAI_def Let_def e p f r t c d chase_def TILE_SIZE_def ENEMY_SPEED_def)
      (simp add: standing_def)
qed

lemma contact_physics:
  assumes d: "dugHoles s = []" and l: "level s = level (newGame rnd0)"
    and e: "enemies s i = (standing 100 40)\<lparr>vx := - 120, faceRight := False\<rparr>"
  shows "updatePhysics (EnemyRef i) (1 / 50) s =
           s\<lparr>enemies := (enemies s)(i := (standing (488 / 5) 40)\<lparr>vx := - 120,
                                                                  faceRight := False\<rparr>)\<rparr>"
proof -
  let ?e = "(standing 100 40)\<lparr>vx := - 120, faceRight := False\<rparr>"
  let ?q = "(standing 100 40)\<lparr>vx := - 120, faceRight := False, vy := - 10\<rparr>"
  let ?e' = "(standing (488 / 5) 40)\<lparr>vx := - 120, faceRight := False\<rparr>"
  have f: "ex ?q = 100" "ey ?q = 40" "vx ?q = - 120" "vy ?q = - 10" "\<not> isTrapped ?e"
    "vx ?e = - 120"
    by (simp_all add: standing_def)
  have g: "applyGravity (1 / 50) ?e = ?q"
    by (simp add: applyGravity_def standing_def GRAVITY_def)
  have v: "verticalCollision (EnemyRef i) s 40 (488 / 5) (199 / 5) ?q = (40, ?e)"
    by (simp add: verticalCollision_def Let_def f TILE_SIZE_def getTileAt_plain [OF d l]
        cell_eval pit_cells solid_def)
      (simp add: standing_def)
  have h: "horizontalCollision s (488 / 5) 40 ?e = (488 / 5, ?e)"
    by (simp add: horizontalCollision_def hSamples_def Let_def f TILE_SIZE_def
        getTileAt_plain [OF d l] cell_eval pit_cells solid_def)
  have q: "?e\<lparr>ex := 488 / 5, ey := 40\<rparr> = ?e'" by (simp add: standing_def)
  have b: "boundaryChecks (EnemyRef i) ?e' s = (?e', s)"
    by (rule inside_boundary) (simp_all add: standing_def)
  have m: "movePhysics (EnemyRef i) (1 / 50) s = (?e', s)"
    by (simp add: movePhysics_def Let_def e g f v h q b)
  have r: "landingReset (EnemyRef i) s ?e' = ?e'"
    by (simp add: landingReset_def standing_def)
  have c: "holeCapture s ?e' = ?e'"
    by (simp add: holeCapture_def Let_def d split: if_splits)
  show ?thesis
    by (simp add: updatePhysics_def e f m r c)
qed

lemma contact_caught:
  assumes d: "dugHoles s = []" and l: "level s = level (newGame rnd0)"
    and p: "player s = standing 84 40"
    and e: "enemies s i = standing 100 40"
    and o: "\<not> gameOver s" "\<not> gameWon s"
  shows "caught (1 / 50) i s"
proof -
  let ?s1 = "s\<lparr>enemies := (enemies s)(i := enemyAI i s)\<rparr>"
  have a: "enemies ?s1 i = (standing 100 40)\<lparr>vx := - 120, faceRight := False\<rparr>"
    by (simp add: contact_AI [OF d l p e])
  have d1: "dugHoles ?s1 = []" and l1: "level ?s1 = level (newGame rnd0)"
    by (simp_all add: d l)
  let ?s2 = "afterEnemyStep (1 / 50) i s"
  have u: "?s2 = ?s1\<lparr>enemies := (enemies ?s1)(i := (standing (488 / 5) 40)\<lparr>vx := - 120,
                                                                  faceRight := False\<rparr>)\<rparr>"
    unfolding afterEnemyStep_def by (rule contact_physics [OF d1 l1 a])
  have e2: "enemies ?s2 i = (standing (488 / 5) 40)\<lparr>vx := - 120, faceRight := False\<rparr>"
    and p2: "player ?s2 = standing 84 40"
    by (simp_all only: u) (simp_all add: p)
  have c: "contact i ?s2"
    by (simp only: contact_def p2 e2) (simp add: isColliding_def standing_def TILE_SIZE_def)
  show ?thesis using o c by (simp add: caught_def e standing_def)
qed


lemma overGame_fields:
  "gameOver overGame" "lives overGame = 0"
  by (simp_all add: overGame_def)

lemma fallGame_tick:
  "lives (update (1 / 50) heads fallGame) \<le> 2"
proof -
  let ?s0 = "fallGame\<lparr>gameTime := gameTime fallGame + 1 / 50\<rparr>"
  have d: "dugHoles ?s0 = []" and l: "level ?s0 = level (newGame heads)"
    and p: "player ?s0 = (standing 124 40)\<lparr>vy := - 8000, isFalling := True\<rparr>"
    and k: "keyStates ?s0 = (\<lambda>c. False)" "specialKeyStates ?s0 = (\<lambda>k. False)"
    and o: "\<not> gameOver ?s0" "\<not> gameWon ?s0"
    by (simp_all add: fallGame_fields)
  have c: "clampDelta (1 / 50) = 1 / 50" by (simp add: clampDelta_def)
  have h: "handleInput (1 / 50) ?s0 = ?s0" by (rule fall_input [OF d l p k o])
  have a: "isAlive (player ?s0)" by (simp add: fallGame_fields standing_def)
  have "lives (updatePlayer (1 / 50) ?s0) = 2"
    using a fall_off [OF d l p] by (simp add: updatePlayer_lives fallGame_fields)
  moreover have "lives (updateEnemies (1 / 50) heads (updatePlayer (1 / 50) ?s0)) \<le>
      lives (updatePlayer (1 / 50) ?s0)"
    unfolding updateEnemies_def by (rule fold_updateEnemy_lives_le)
  ultimately have "lives (tickSteps (1 / 50) heads ?s0) \<le> 2"
    by (simp add: tickSteps_def h)
  then show ?thesis by (simp add: update_alt c fallGame_fields)
qed

text \<open>The tick that takes the last life.\<close>

lemma lastLifeGame_fields:
  "dugHoles lastLifeGame = []" "level lastLifeGame = level (newGame heads)"
  "player lastLifeGame = standing 84 40"
  "enemies lastLifeGame i = standing 100 40"
  "keyStates lastLifeGame = (\<lambda>c. False)" "specialKeyStates lastLifeGame = (\<lambda>k. False)"
  "\<not> gameOver lastLifeGame" "\<not> gameWon lastLifeGame" "lives lastLifeGame = 1"
  "\<not> levelComplete lastLifeGame"
  by (simp_all add: lastLifeGame_def contactGame_def newGame_def init_def)

lemma pit_player_input:
  assumes d: "dugHoles s = []" and l: "level s = level (newGame rnd0)"
    and p: "player s = standing 84 40"
    and k: "keyStates s = (\<lambda>c. False)" "specialKeyStates s = (\<lambda>k. False)"
    and o: "\<not> gameOver s" "\<not> gameWon s"
  shows "handleInput dt s = s"
proof -
  have f: "ex (standing 84 40) = 84" "ey (standing 84 40) = 40"
    by (simp_all add: standing_def)
  have r: "\<not> checkOnRope s ((standing 84 40)\<lparr>vx := 0\<rparr>)"
    by (simp add: checkOnRope_def Let_def f getTileAt_plain [OF d l] cell_eval pit_cells)
  have a: "\<not> isOnLadder s ((standing 84 40)\<lparr>vx := 0\<rparr>)"
    by (simp add: isOnLadder_def Let_def f getTileAt_plain [OF d l] cell_eval pit_cells
        ladderTile_def)
  have z: "s\<lparr>player := standing 84 40\<rparr> = s" by (simp add: p [symmetric])
  have m: "moveInput s = s"
    by (simp add: moveInput_def Let_def p k r a horizontalInput_def ladderInput_def ropeInput_def)
      (simp add: z [unfolded standing_def] standing_def)
  have g: "digInput s = s"
    by (simp add: digInput_def Let_def k)
  show ?thesis using o by (simp add: handleInput_def m g p standing_def)
qed

lemma pit_player_physics:
  assumes d: "dugHoles s = []" and l: "level s = level (newGame rnd0)"
    and p: "player s = standing 84 40"
  shows "updatePhysics PlayerRef (1 / 50) s = s"
proof -
  let ?p = "standing 84 40"
  let ?q = "(standing 84 40)\<lparr>vy := - 10\<rparr>"
  have f: "ex ?q = 84" "ey ?q = 40" "vx ?q = 0" "vy ?q = - 10" "\<not> isTrapped ?p"
    by (simp_all add: standing_def)
  have g: "applyGravity (1 / 50) ?p = ?q"
    by (simp add: applyGravity_def standing_def GRAVITY_def)
  have v: "verticalCollision PlayerRef s 40 84 (199 / 5) ?q = (40, ?p)"
    by (simp add: verticalCollision_def Let_def f TILE_SIZE_def getTileAt_plain [OF d l]
        cell_eval pit_cells solid_def)
      (simp add: standing_def)
  have h: "horizontalCollision s 84 40 ?p = (84, ?p)"
    by (rule still_horizontal) (simp add: standing_def)
  have q: "?p\<lparr>ex := 84, ey := 40\<rparr> = ?p" by (simp add: standing_def)
  have b: "boundaryChecks PlayerRef ?p s = (?p, s)"
    by (rule inside_boundary) (simp_all add: standing_def)
  have m: "movePhysics PlayerRef (1 / 50) s = (?p, s)"
    by (simp add: movePhysics_def Let_def p g f v h q b)
  have r: "landingReset PlayerRef s ?p = ?p"
    by (simp add: landingReset_def standing_def)
  have c: "holeCapture s ?p = ?p"
    by (simp add: holeCapture_def Let_def d split: if_splits)
  show ?thesis
    by (simp add: updatePhysics_def p f m r c)
qed

lemma updatePlayer_session:
  "isAlive (player s) \<Longrightarrow> lives (updatePlayer dt s) = lives (updatePhysics PlayerRef dt s)"
  "isAlive (player s) \<Longrightarrow> gameOver (updatePlayer dt s) = gameOver (updatePhysics PlayerRef dt s)"
  "\<not> levelComplete s \<Longrightarrow> gameWon (updatePlayer dt s) = gameWon s"
  by (simp_all add: updatePlayer_def Let_def checkWin_def)

lemma updateEnemy_last_life:
  "lives s \<le> 1 \<Longrightarrow> player (updateEnemy dt rnd i s) = player s"
  by (simp add: updateEnemy_def catchPlayer_def Let_def updatePhysics_lives)

lemma contact_enemy_over:
  assumes d: "dugHoles s = []" and l: "level s = level (newGame rnd0)"
    and p: "player s = standing 84 40"
    and e: "enemies s i = standing 100 40"
    and o: "gameOver s"
  shows "enemies (updateEnemy (1 / 50) rnd i s) i =
           (standing (488 / 5) 40)\<lparr>vx := - 120, faceRight := False\<rparr>"
proof -
  let ?s1 = "s\<lparr>enemies := (enemies s)(i := enemyAI i s)\<rparr>"
  have a: "enemies ?s1 i = (standing 100 40)\<lparr>vx := - 120, faceRight := False\<rparr>"
    by (simp add: contact_AI [OF d l p e])
  have d1: "dugHoles ?s1 = []" and l1: "level ?s1 = level (newGame rnd0)"
    by (simp_all add: d l)
  let ?s2 = "updatePhysics (EnemyRef i) (1 / 50) ?s1"
  have u: "?s2 = ?s1\<lparr>enemies := (enemies ?s1)(i := (standing (488 / 5) 40)\<lparr>vx := - 120,
                                                                  faceRight := False\<rparr>)\<rparr>"
    by (rule contact_physics [OF d1 l1 a])
  have e2: "enemies ?s2 i = (standing (488 / 5) 40)\<lparr>vx := - 120, faceRight := False\<rparr>"
    by (simp only: u) simp
  have g: "gameOver ?s2" using o by (simp add: updatePhysics_lives)
  have c: "catchPlayer (rnd i) i ?s2 = ?s2"
    using g by (simp add: catchPlayer_def Let_def)
  have f: "\<not> isTrapped (standing 100 40)" "isAlive (standing 100 40)"
    by (simp_all add: standing_def)
  have "updateEnemy (1 / 50) rnd i s = ?s2"
    using f by (simp only: updateEnemy_def e c if_False if_True simp_thms)
  then show ?thesis by (simp only: e2)
qed

lemma lastLifeGame_first:
  "gameOver (afterFirstEnemy (1 / 50) heads lastLifeGame)"
  "lives (afterFirstEnemy (1 / 50) heads lastLifeGame) = 0"
  "player (afterFirstEnemy (1 / 50) heads lastLifeGame) = standing 84 40"
  "enemies (afterFirstEnemy (1 / 50) heads lastLifeGame) 2 = standing 100 40"
  "dugHoles (afterFirstEnemy (1 / 50) heads lastLifeGame) = []"
  "level (afterFirstEnemy (1 / 50) heads lastLifeGame) = level (newGame heads)"
proof -
  let ?s0 = "lastLifeGame\<lparr>gameTime := gameTime lastLifeGame + 1 / 50\<rparr>"
  have d: "dugHoles ?s0 = []" and l: "level ?s0 = level (newGame heads)"
    and p: "player ?s0 = standing 84 40"
    and k: "keyStates ?s0 = (\<lambda>c. False)" "specialKeyStates ?s0 = (\<lambda>k. False)"
    and o: "\<not> gameOver ?s0" "\<not> gameWon ?s0"
    by (simp_all add: lastLifeGame_fields)
  have c: "clampDelta (1 / 50) = 1 / 50" by (simp add: clampDelta_def)
  have h: "handleInput (1 / 50) ?s0 = ?s0" by (rule pit_player_input [OF d l p k o])
  let ?s1 = "updatePlayer (1 / 50) ?s0"
  have a: "isAlive (player ?s0)" by (simp add: lastLifeGame_fields standing_def)
  have n: "\<not> levelComplete ?s0" by (simp add: lastLifeGame_fields)
  have ph: "updatePhysics PlayerRef (1 / 50) ?s0 = ?s0" by (rule pit_player_physics [OF d l p])
  have p1: "player ?s1 = standing 84 40"
    using updatePlayer_player [OF a, of "1 / 50"] ph p by simp
  have v1: "lives ?s1 = 1" "\<not> gameOver ?s1" "\<not> gameWon ?s1"
    using updatePlayer_session(1,2) [OF a, of "1 / 50"] updatePlayer_session(3) [OF n, of "1 / 50"] ph
    by (simp_all add: lastLifeGame_fields)
  have d1: "dugHoles ?s1 = []" and l1: "level ?s1 = level (newGame heads)"
    and e1: "enemies ?s1 i = standing 100 40" for i
    by (simp_all add: lastLifeGame_fields)
  have k1: "caught (1 / 50) 0 ?s1" by (rule contact_caught [OF d1 l1 p1 e1 v1(2,3)])
  have s2: "afterFirstEnemy (1 / 50) heads lastLifeGame = updateEnemy (1 / 50) heads 0 ?s1"
    by (simp add: afterFirstEnemy_def Let_def c h)
  show "gameOver (afterFirstEnemy (1 / 50) heads lastLifeGame)"
    "lives (afterFirstEnemy (1 / 50) heads lastLifeGame) = 0"
    using k1 v1 by (simp_all add: s2 updateEnemy_lives)
  show "player (afterFirstEnemy (1 / 50) heads lastLifeGame) = standing 84 40"
    using v1 by (simp add: s2 updateEnemy_last_life p1)
  show "enemies (afterFirstEnemy (1 / 50) heads lastLifeGame) 2 = standing 100 40"
    by (simp add: s2 updateEnemy_others lastLifeGame_fields)
  show "dugHoles (afterFirstEnemy (1 / 50) heads lastLifeGame) = []"
    "level (afterFirstEnemy (1 / 50) heads lastLifeGame) = level (newGame heads)"
    by (simp_all add: s2 lastLifeGame_fields)
qed

lemma lastLifeGame_rest:
  "update (1 / 50) heads lastLifeGame =
     checkLevelCompletion (updateDigging (1 / 50)
       (updateEnemy (1 / 50) heads 2 (updateEnemy (1 / 50) heads 1
         (afterFirstEnemy (1 / 50) heads lastLifeGame))))"
  by (simp add: update_alt tickSteps_def updateEnemies_def upt_numEnemies afterFirstEnemy_def
      Let_def clampDelta_def lastLifeGame_fields)

lemma lastLifeGame_tick:
  "enemies (update (1 / 50) heads lastLifeGame) 2 =
     (standing (488 / 5) 40)\<lparr>vx := - 120, faceRight := False\<rparr>"
proof -
  let ?s2 = "afterFirstEnemy (1 / 50) heads lastLifeGame"
  let ?s3 = "updateEnemy (1 / 50) heads 1 ?s2"
  let ?s4 = "updateEnemy (1 / 50) heads 2 ?s3"
  have g3: "gameOver ?s3" using updateEnemy_terminal [OF lastLifeGame_first(1)] by blast
  have p3: "player ?s3 = standing 84 40"
    by (simp add: updateEnemy_last_life lastLifeGame_first)
  have e3: "enemies ?s3 2 = standing 100 40"
    by (simp add: updateEnemy_others lastLifeGame_first)
  have d3: "dugHoles ?s3 = []" and l3: "level ?s3 = level (newGame heads)"
    by (simp_all add: lastLifeGame_first)
  have e4: "enemies ?s4 2 = (standing (488 / 5) 40)\<lparr>vx := - 120, faceRight := False\<rparr>"
    by (rule contact_enemy_over [OF d3 l3 p3 e3 g3])
  have d4: "dugHoles ?s4 = []" by (simp add: lastLifeGame_first)
  have e5: "enemies (updateDigging (1 / 50) ?s4) 2 = enemies ?s4 2"
    by (simp only: updateDigging_enemies d4) (simp add: refilledUnder_def)
  show ?thesis
    by (simp only: lastLifeGame_rest checkLevelCompletion_fields e5 e4)
qed

subsection \<open>The claims\<close>

text \<open>
  Claim C1. In a state whose registry holds cells of the grid only, \<open>getTileAt\<close>
  answers \<open>EMPTY\<close> at every world coordinate whose cell has an entry in the registry,
  whatever tile the grid stores there; it answers \<open>SOLID_BRICK\<close> at every coordinate
  whose cell index, after the floor division by the tile size, is outside the grid of
  20 by 15 cells; at every other coordinate it answers the tile stored in the grid.
\<close>

theorem getTileAt_override_and_bounds:
  assumes "holesInGrid (dugHoles s)"
  shows "(findHole (dugHoles s) (getGridX px, getGridY py) \<noteq> None \<longrightarrow> getTileAt s px py = EMPTY)
       \<and> (\<not> inGrid (getGridX px) (getGridY py) \<longrightarrow> getTileAt s px py = SOLID_BRICK)
       \<and> (inGrid (getGridX px) (getGridY py) \<and> findHole (dugHoles s) (getGridX px, getGridY py) = None
            \<longrightarrow> getTileAt s px py = level s (getGridY py) (getGridX px))"
proof (intro conjI impI)
  assume h: "findHole (dugHoles s) (getGridX px, getGridY py) \<noteq> None"
  with assms have "inGrid (getGridX px) (getGridY py)"
    by (rule holesInGrid_find)
  with h show "getTileAt s px py = EMPTY"
    by (simp add: getTileAt_def getGridX_def getGridY_def inGrid_def Let_def not_le)
next
  assume "\<not> inGrid (getGridX px) (getGridY py)"
  then show "getTileAt s px py = SOLID_BRICK"
    by (auto simp add: getTileAt_def getGridX_def getGridY_def inGrid_def Let_def)
next
  assume "inGrid (getGridX px) (getGridY py) \<and> findHole (dugHoles s) (getGridX px, getGridY py) = None"
  then show "getTileAt s px py = level s (getGridY py) (getGridX px)"
    by (auto simp add: getTileAt_def getGridX_def getGridY_def inGrid_def Let_def)
qed

theorem getTileAt_override_and_bounds_witness:
  "holesInGrid (dugHoles dugGame)
   \<and> findHole (dugHoles dugGame) (getGridX 130, getGridY 130) \<noteq> None
   \<and> level dugGame 3 3 = BRICK \<and> getTileAt dugGame 130 130 = EMPTY
   \<and> \<not> inGrid (getGridX (- 1)) (getGridY 130) \<and> getTileAt dugGame (- 1) 130 = SOLID_BRICK
   \<and> inGrid (getGridX 50) (getGridY 130)
   \<and> findHole (dugHoles dugGame) (getGridX 50, getGridY 130) = None
   \<and> getTileAt dugGame 50 130 = BRICK"
proof -
  have wf: "holesInGrid (dugHoles dugGame)"
    by (simp add: dugGame_holes holesInGrid_def brickHole_def inGrid_def GRID_WIDTH_def
        GRID_HEIGHT_def)
  have cells: "getGridX 130 = 3" "getGridY 130 = 3" "getGridX (- 1) = - 1" "getGridX 50 = 1"
    by (simp_all add: getGridX_def getGridY_def TILE_SIZE_def)
  have stored: "level dugGame 3 3 = BRICK" "level dugGame 3 1 = BRICK"
    by (simp_all add: dugGame_level level_newGame layoutTile_3_3 layoutTile_3_1)
  have found: "findHole (dugHoles dugGame) (3, 3) \<noteq> None"
    "findHole (dugHoles dugGame) (1, 3) = None"
    by (simp_all add: dugGame_holes findHole_def brickHole_def)
  have grid: "\<not> inGrid (- 1) 3" "inGrid 1 3"
    by (simp_all add: inGrid_def GRID_WIDTH_def GRID_HEIGHT_def)
  show ?thesis
    using getTileAt_override_and_bounds [OF wf, of 130 130]
      getTileAt_override_and_bounds [OF wf, of "- 1" 130]
      getTileAt_override_and_bounds [OF wf, of 50 130]
    by (simp add: wf cells stored found grid)
qed

text \<open>
  Claim C2. In a state whose registry is well formed, \<open>updateDigging\<close> takes
  \<open>deltaTime\<close> from the time of every entry and keeps exactly the entries whose time
  is still positive. An entry whose time is up is removed in the same tick and its cell
  holds its recorded kind, \<open>BRICK\<close>, afterwards. A player trapped in the cell of such an
  entry is freed, lifted by 5 and falling; a live enemy trapped there is killed: it is
  no longer alive nor trapped, it stands still and its respawn timer is the respawn
  delay. The player and the enemies are the same otherwise.
\<close>

theorem updateDigging_tick:
  assumes wf: "holesWf (dugHoles s)"
  shows "dugHoles (updateDigging dt s) =
           map (decay dt) (filter (\<lambda>kh. 0 < timer (snd kh) - dt) (dugHoles s))
       \<and> (\<forall>kh \<in> set (dugHoles s). timer (snd kh) - dt \<le> 0 \<longrightarrow>
             findHole (dugHoles (updateDigging dt s)) (fst kh) = None
           \<and> level (updateDigging dt s) (snd (fst kh)) (fst (fst kh)) = originalType (snd kh)
           \<and> originalType (snd kh) = BRICK)
       \<and> player (updateDigging dt s) =
           (if refilledUnder dt (dugHoles s) (player s)
            then (player s)\<lparr>isTrapped := False, ey := ey (player s) + 5, isFalling := True\<rparr>
            else player s)
       \<and> (\<forall>i < numEnemies.
            enemies (updateDigging dt s) i =
              (if isAlive (enemies s i) \<and> refilledUnder dt (dugHoles s) (enemies s i)
               then (enemies s i)\<lparr>isAlive := False, isTrapped := False,
                                   respawnTimer := ENEMY_RESPAWN_DELAY, vx := 0, vy := 0\<rparr>
               else enemies s i))"
proof (intro conjI ballI allI impI)
  have "(\<lambda>kh. \<not> expired dt (snd kh)) = (\<lambda>kh::(int \<times> int) \<times> DugHole. 0 < timer (snd kh) - dt)"
    by (auto simp add: expired_def fun_eq_iff)
  then show "dugHoles (updateDigging dt s) =
           map (decay dt) (filter (\<lambda>kh. 0 < timer (snd kh) - dt) (dugHoles s))"
    by (simp add: updateDigging_holes)
next
  fix kh assume m: "kh \<in> set (dugHoles s)" and e: "timer (snd kh) - dt \<le> 0"
  obtain k h where kh: "kh = (k, h)" by (cases kh)
  from wf have d: "distinct (map fst (dugHoles s))" by (simp add: holesWf_def)
  from e have e': "expired dt h" by (simp add: kh expired_def)
  from m have m': "(k, h) \<in> set (dugHoles s)" by (simp add: kh)
  show "findHole (dugHoles (updateDigging dt s)) (fst kh) = None"
    using findHole_decay_filter [OF d m' e'] by (simp add: kh updateDigging_holes)
  from wf m have ok: "holeOk kh" by (simp add: holesWf_def list_all_iff)
  then show "originalType (snd kh) = BRICK" by (simp add: holeOk_def)
  from ok m e have "refilledCell dt (dugHoles s) (snd (fst kh)) (fst (fst kh))"
    by (auto simp add: refilledCell_def list_ex_iff holeOk_def expired_def)
  with ok show "level (updateDigging dt s) (snd (fst kh)) (fst (fst kh)) = originalType (snd kh)"
    by (simp add: updateDigging_level [OF holesWf_brick [OF wf]] holeOk_def)
next
  show "player (updateDigging dt s) =
           (if refilledUnder dt (dugHoles s) (player s)
            then (player s)\<lparr>isTrapped := False, ey := ey (player s) + 5, isFalling := True\<rparr>
            else player s)"
    by (simp add: updateDigging_player freed_def)
next
  fix i assume "i < numEnemies"
  then show "enemies (updateDigging dt s) i =
              (if isAlive (enemies s i) \<and> refilledUnder dt (dugHoles s) (enemies s i)
               then (enemies s i)\<lparr>isAlive := False, isTrapped := False,
                                   respawnTimer := ENEMY_RESPAWN_DELAY, vx := 0, vy := 0\<rparr>
               else enemies s i)"
    by (simp add: updateDigging_enemies killEnemy_def)
qed

theorem updateDigging_tick_witness:
  "holesWf (dugHoles refillGame)
   \<and> dugHoles (updateDigging 0.016 refillGame) = [brickHole 5 3 4.984]
   \<and> findHole (dugHoles (updateDigging 0.016 refillGame)) (3, 3) = None
   \<and> level (updateDigging 0.016 refillGame) 3 3 = BRICK
   \<and> refilledUnder 0.016 (dugHoles refillGame) (player refillGame)
   \<and> player (updateDigging 0.016 refillGame) =
       (standing 124 125)\<lparr>isFalling := True, trappedTimer := 0.01\<rparr>
   \<and> isAlive (enemies refillGame 0)
   \<and> enemies (updateDigging 0.016 refillGame) 0 =
       (standing 124 120)\<lparr>isAlive := False, respawnTimer := 3, trappedTimer := 0.01\<rparr>"
proof -
  have wf: "holesWf (dugHoles refillGame)"
    by (simp add: refillGame_fields holesWf_def holeOk_def brickHole_def inGrid_def
        GRID_WIDTH_def GRID_HEIGHT_def)
  note t = updateDigging_tick [OF wf, of "0.016"]
  have under: "refilledUnder 0.016 (dugHoles refillGame) ((standing 124 120)\<lparr>isTrapped := True, trappedTimer := 0.01\<rparr>)"
    by (simp add: refillGame_fields refilledUnder_def expired_def brickHole_def inGrid_def
        GRID_WIDTH_def GRID_HEIGHT_def trappedIn_def standing_def getGridX_def getGridY_def
        TILE_SIZE_def)
  from t have holes: "dugHoles (updateDigging 0.016 refillGame) = [brickHole 5 3 4.984]"
    by (simp add: refillGame_fields brickHole_def decay_def)
  from t have "findHole (dugHoles (updateDigging 0.016 refillGame)) (fst (brickHole 3 3 0.01)) = None
     \<and> level (updateDigging 0.016 refillGame) (snd (fst (brickHole 3 3 0.01))) (fst (fst (brickHole 3 3 0.01)))
         = originalType (snd (brickHole 3 3 0.01))"
    by (simp add: refillGame_fields brickHole_def decay_def findHole_def)
  then have cell: "findHole (dugHoles (updateDigging 0.016 refillGame)) (3, 3) = None"
    "level (updateDigging 0.016 refillGame) 3 3 = BRICK"
    by (simp_all add: brickHole_def)
  from t under have pl: "player (updateDigging 0.016 refillGame) =
       (standing 124 125)\<lparr>isFalling := True, trappedTimer := 0.01\<rparr>"
    by (simp add: refillGame_fields standing_def)
  from t have "\<forall>i<numEnemies. enemies (updateDigging 0.016 refillGame) i =
              (if isAlive (enemies refillGame i) \<and> refilledUnder 0.016 (dugHoles refillGame) (enemies refillGame i)
               then (enemies refillGame i)\<lparr>isAlive := False, isTrapped := False,
                                   respawnTimer := ENEMY_RESPAWN_DELAY, vx := 0, vy := 0\<rparr>
               else enemies refillGame i)"
    by blast
  then have "enemies (updateDigging 0.016 refillGame) 0 =
              (if isAlive (enemies refillGame 0) \<and> refilledUnder 0.016 (dugHoles refillGame) (enemies refillGame 0)
               then (enemies refillGame 0)\<lparr>isAlive := False, isTrapped := False,
                                   respawnTimer := ENEMY_RESPAWN_DELAY, vx := 0, vy := 0\<rparr>
               else enemies refillGame 0)"
    by (simp add: numEnemies_def)
  with under have en: "enemies (updateDigging 0.016 refillGame) 0 =
       (standing 124 120)\<lparr>isAlive := False, respawnTimer := 3, trappedTimer := 0.01\<rparr>"
    by (simp add: refillGame_fields standing_def ENEMY_RESPAWN_DELAY_def)
  show ?thesis
    using wf holes cell pl en under by (simp add: refillGame_fields standing_def)
qed

text \<open>
  Claim C3. \<open>digHole\<close> returns the state it was given when the target is outside the
  grid, when the stored tile of the target is not \<open>BRICK\<close>, or when the registry has
  an entry for the target. Otherwise the registry gets one more entry, the one of the
  target, with the refill time 7 and the original kind \<open>BRICK\<close>; the entries of the
  other cells are the same and nothing but the registry changes.
\<close>

theorem digHole_noop_or_single_insert:
  "(\<not> inGrid gx gy \<or> level s gy gx \<noteq> BRICK \<or> findHole (dugHoles s) (gx, gy) \<noteq> None
      \<longrightarrow> digHole gx gy s = s)
   \<and> (inGrid gx gy \<and> level s gy gx = BRICK \<and> findHole (dugHoles s) (gx, gy) = None \<longrightarrow>
        findHole (dugHoles (digHole gx gy s)) (gx, gy) =
          Some \<lparr>hgridX = gx, hgridY = gy, timer = 7, originalType = BRICK\<rparr>
        \<and> (\<forall>k. k \<noteq> (gx, gy) \<longrightarrow> findHole (dugHoles (digHole gx gy s)) k = findHole (dugHoles s) k)
        \<and> length (dugHoles (digHole gx gy s)) = length (dugHoles s) + 1
        \<and> digHole gx gy s = s\<lparr>dugHoles := dugHoles (digHole gx gy s)\<rparr>)"
  by (auto simp add: digHole_def inGrid_def findHole_assignHole length_assignHole DIG_REFILL_TIME_def)

theorem digHole_noop_or_single_insert_witness:
  "inGrid 3 3 \<and> level (newGame heads) 3 3 = BRICK \<and> findHole (dugHoles (newGame heads)) (3, 3) = None
   \<and> findHole (dugHoles (digHole 3 3 (newGame heads))) (3, 3) =
       Some \<lparr>hgridX = 3, hgridY = 3, timer = 7, originalType = BRICK\<rparr>
   \<and> length (dugHoles (digHole 3 3 (newGame heads))) = 1
   \<and> findHole (dugHoles dugGame) (3, 3) \<noteq> None \<and> digHole 3 3 dugGame = dugGame
   \<and> \<not> inGrid 20 3 \<and> digHole 20 3 dugGame = dugGame
   \<and> level dugGame 2 3 \<noteq> BRICK \<and> digHole 3 2 dugGame = dugGame"
proof -
  have grid: "inGrid 3 3" "\<not> inGrid 20 3"
    by (simp_all add: inGrid_def GRID_WIDTH_def GRID_HEIGHT_def)
  have stored: "level (newGame heads) 3 3 = BRICK" "level dugGame 3 3 = BRICK"
    "level dugGame 2 3 \<noteq> BRICK"
    by (simp_all add: dugGame_level level_newGame layoutTile_3_3)
      (simp add: layoutTile_def levelLayout_def tileOfChar_def)
  have found: "findHole (dugHoles (newGame heads)) (3, 3) = None"
    "findHole (dugHoles dugGame) (3, 3) \<noteq> None"
    by (simp_all add: dugGame_holes findHole_def brickHole_def)
  show ?thesis
    using digHole_noop_or_single_insert [of 3 3 "newGame heads"]
      digHole_noop_or_single_insert [of 3 3 dugGame]
      digHole_noop_or_single_insert [of 20 3 dugGame]
      digHole_noop_or_single_insert [of 3 2 dugGame]
    by (simp add: grid stored found)
qed

text \<open>
  Claim C4. When an entity is trapped at the start of \<open>updatePhysics\<close> and is still
  trapped after it, its velocity is (0, 0) and its position is the one it had, whatever
  velocity it came with; input does not reach a trapped player (\<open>handleInput\<close> returns
  the state) and the decision of the enemies does not run for a live trapped enemy
  (its iteration of \<open>updateEnemies\<close> is the physics step alone). When an entity that
  is not trapped is falling at the end of its move and the cell of its feet is a cell of
  the grid with an entry in the registry, it is trapped after \<open>updatePhysics\<close>: its
  velocity is (0, 0), it is centred horizontally in the cell, its feet are at the bottom
  of the cell, and it is neither falling nor climbing.
\<close>

theorem trapped_frozen_and_hole_capture:
  "(isTrapped (getE r s) \<and> isTrapped (getE r (updatePhysics r dt s)) \<longrightarrow>
      vx (getE r (updatePhysics r dt s)) = 0 \<and> vy (getE r (updatePhysics r dt s)) = 0 \<and>
      ex (getE r (updatePhysics r dt s)) = ex (getE r s) \<and>
      ey (getE r (updatePhysics r dt s)) = ey (getE r s))
   \<and> (isTrapped (player s) \<longrightarrow> handleInput dt s = s)
   \<and> (isAlive (enemies s i) \<and> isTrapped (enemies s i) \<longrightarrow>
        updateEnemy dt rnd i s = updatePhysics (EnemyRef i) dt s)
   \<and> (\<not> isTrapped (getE r s) \<and> movePhysics r dt s = (e, s') \<and>
       isFalling (landingReset r s' e) \<and> inGrid (fst (footCell e)) (snd (footCell e)) \<and>
       findHole (dugHoles s') (footCell e) \<noteq> None \<longrightarrow>
        isTrapped (getE r (updatePhysics r dt s)) \<and>
        vx (getE r (updatePhysics r dt s)) = 0 \<and> vy (getE r (updatePhysics r dt s)) = 0 \<and>
        ex (getE r (updatePhysics r dt s)) + TILE_SIZE * 0.8 / 2 =
          of_int (fst (footCell e)) * TILE_SIZE + TILE_SIZE / 2 \<and>
        ey (getE r (updatePhysics r dt s)) = of_int (snd (footCell e)) * TILE_SIZE \<and>
        \<not> isFalling (getE r (updatePhysics r dt s)) \<and>
        \<not> isClimbing (getE r (updatePhysics r dt s)))"
proof (intro conjI impI)
  assume "isTrapped (getE r s) \<and> isTrapped (getE r (updatePhysics r dt s))"
  then have a: "isTrapped (getE r s)" and b: "isTrapped (getE r (updatePhysics r dt s))"
    by blast+
  from a have u: "updatePhysics r dt s = putE r (trappedPhysics r dt s (getE r s)) s"
    by (simp add: updatePhysics_def)
  from b have "isTrapped (trappedPhysics r dt s (getE r s))"
    by (simp add: u)
  from trappedPhysics_still [OF this] a
  show "vx (getE r (updatePhysics r dt s)) = 0" "vy (getE r (updatePhysics r dt s)) = 0"
    "ex (getE r (updatePhysics r dt s)) = ex (getE r s)"
    "ey (getE r (updatePhysics r dt s)) = ey (getE r s)"
    by (simp_all add: updatePhysics_def)
next
  assume "isTrapped (player s)"
  then show "handleInput dt s = s" by (simp add: handleInput_def)
next
  assume "isAlive (enemies s i) \<and> isTrapped (enemies s i)"
  then show "updateEnemy dt rnd i s = updatePhysics (EnemyRef i) dt s"
    by (simp add: updateEnemy_def)
next
  assume a: "\<not> isTrapped (getE r s) \<and> movePhysics r dt s = (e, s') \<and>
       isFalling (landingReset r s' e) \<and> inGrid (fst (footCell e)) (snd (footCell e)) \<and>
       findHole (dugHoles s') (footCell e) \<noteq> None"
  then obtain h where h: "findHole (dugHoles s') (footCell (landingReset r s' e)) = Some h"
    by auto
  from a have "\<not> isTrapped (getE r s)" and "movePhysics r dt s = (e, s')"
    by blast+
  then have "\<not> isTrapped e" by (rule movePhysics_untrapped)
  then have nt: "\<not> isTrapped (landingReset r s' e)"
    by simp
  from a have g: "inGrid (fst (footCell (landingReset r s' e))) (snd (footCell (landingReset r s' e)))"
    by simp
  from a have f: "isFalling (landingReset r s' e)" by simp
  have u: "getE r (updatePhysics r dt s) = holeCapture s' (landingReset r s' e)"
    using a by (auto simp add: updatePhysics_def)
  show "isTrapped (getE r (updatePhysics r dt s))" "vx (getE r (updatePhysics r dt s)) = 0"
    "vy (getE r (updatePhysics r dt s)) = 0"
    "ex (getE r (updatePhysics r dt s)) + TILE_SIZE * 0.8 / 2 =
          of_int (fst (footCell e)) * TILE_SIZE + TILE_SIZE / 2"
    "ey (getE r (updatePhysics r dt s)) = of_int (snd (footCell e)) * TILE_SIZE"
    "\<not> isFalling (getE r (updatePhysics r dt s))" "\<not> isClimbing (getE r (updatePhysics r dt s))"
    by (simp_all add: u holeCapture_traps [OF g h f nt] TILE_SIZE_def)
qed

theorem trapped_frozen_and_hole_capture_witness:
  "isTrapped (getE (EnemyRef 0) trapGame) \<and> vx (getE (EnemyRef 0) trapGame) = 120
   \<and> isAlive (enemies trapGame 0)
   \<and> updateEnemy (1 / 50) heads 0 trapGame = updatePhysics (EnemyRef 0) (1 / 50) trapGame
   \<and> getE (EnemyRef 0) (updatePhysics (EnemyRef 0) (1 / 50) trapGame) =
       (standing 124 120)\<lparr>isTrapped := True, trappedTimer := 122 / 25\<rparr>
   \<and> isTrapped (player refillGame) \<and> handleInput (1 / 50) refillGame = refillGame
   \<and> \<not> isTrapped (getE (EnemyRef 2) trapGame)
   \<and> movePhysics (EnemyRef 2) (1 / 50) trapGame =
       ((standing 444 (619 / 5))\<lparr>vy := - 60, isFalling := True\<rparr>, trapGame)
   \<and> footCell ((standing 444 (619 / 5))\<lparr>vy := - 60, isFalling := True\<rparr>) = (11, 3)
   \<and> findHole (dugHoles trapGame) (11, 3) \<noteq> None
   \<and> isTrapped (getE (EnemyRef 2) (updatePhysics (EnemyRef 2) (1 / 50) trapGame))
   \<and> vx (getE (EnemyRef 2) (updatePhysics (EnemyRef 2) (1 / 50) trapGame)) = 0
   \<and> vy (getE (EnemyRef 2) (updatePhysics (EnemyRef 2) (1 / 50) trapGame)) = 0
   \<and> ex (getE (EnemyRef 2) (updatePhysics (EnemyRef 2) (1 / 50) trapGame)) = 444
   \<and> ey (getE (EnemyRef 2) (updatePhysics (EnemyRef 2) (1 / 50) trapGame)) = 120
   \<and> \<not> isFalling (getE (EnemyRef 2) (updatePhysics (EnemyRef 2) (1 / 50) trapGame))
   \<and> \<not> isClimbing (getE (EnemyRef 2) (updatePhysics (EnemyRef 2) (1 / 50) trapGame))"
proof -
  let ?e = "(standing 444 (619 / 5))\<lparr>vy := - 60, isFalling := True\<rparr>"
  have t0: "isTrapped (enemies trapGame 0)" "vx (enemies trapGame 0) = 120"
    "isAlive (enemies trapGame 0)"
    by (simp_all add: trapGame_fields standing_def)
  have u0: "enemies (updatePhysics (EnemyRef 0) (1 / 50) trapGame) 0 =
       (standing 124 120)\<lparr>isTrapped := True, trappedTimer := 122 / 25\<rparr>"
    by (simp add: trapGame_enemy0)
  have p: "isTrapped (player refillGame)"
    by (simp add: refillGame_fields)
  have t2: "\<not> isTrapped (enemies trapGame 2)"
    by (simp add: trapGame_fields standing_def)
  have f: "isFalling (landingReset (EnemyRef 2) trapGame ?e)"
    by (simp add: trapGame_reset)
  have g: "inGrid 11 3" by (simp add: inGrid_def GRID_WIDTH_def GRID_HEIGHT_def)
  show ?thesis
    using trapped_frozen_and_hole_capture
      [where r = "EnemyRef 0" and s = trapGame and dt = "1 / 50" and i = 0 and rnd = heads
         and e = ?e and s' = trapGame]
      trapped_frozen_and_hole_capture
      [where r = "EnemyRef 2" and s = refillGame and dt = "1 / 50" and i = 0 and rnd = heads
         and e = ?e and s' = trapGame]
      trapped_frozen_and_hole_capture
      [where r = "EnemyRef 2" and s = trapGame and dt = "1 / 50" and i = 0 and rnd = heads
         and e = ?e and s' = trapGame]
    by (simp add: t0 u0 p t2 f g trapGame_move trapGame_cells trapGame_found TILE_SIZE_def)
qed

text \<open>
  Claim C5 fails on the code for the fallback of \<^verbatim>\<open>revealExitLadder\<close>. The function is
  to ``change EMPTY to EXIT_LADDER'', and its loop over the columns writes a cell of the
  top row only when that cell is \<open>EMPTY\<close> or \<open>LADDER\<close>; the fallback tests the cell
  below the top centre and writes the top centre cell without testing its kind. In
  \<open>collectedGame\<close>, the loaded level with every collectible collected, the loop finds no
  ladder below the top row, and the fallback turns the top centre cell, which stores
  \<open>SOLID_BRICK\<close>, into \<open>EXIT_LADDER\<close>: by \<open>checkLevelCompletion\<close>, and so by a tick.
\<close>

theorem reveal_fallback_overwrites_solid_brick:
  "level collectedGame 14 10 = SOLID_BRICK \<and> level collectedGame 13 10 = EMPTY
   \<and> \<not> levelComplete collectedGame
   \<and> totalCollectibles collectedGame \<le> collectiblesCollected collectedGame
   \<and> 0 < totalCollectibles collectedGame
   \<and> level (checkLevelCompletion collectedGame) 14 10 = EXIT_LADDER
   \<and> level (update (1 / 50) heads collectedGame) 14 10 = EXIT_LADDER"
  by (simp add: collectedGame_fields level_newGame top_rows collectedGame_tick
      checkLevelCompletion_def reveal_on_loaded_level)

text \<open>
  Claim C6, as amended. The horizontal collision samples the tile at the leading edge
  (the left edge when moving left, the right edge otherwise) at three heights of the
  box: near the bottom, in the middle and near the top. When one of the samples is a
  \<open>BRICK\<close> or a \<open>SOLID_BRICK\<close> the motion is blocked, the entity is snapped to the
  boundary of the tile and its horizontal velocity is zero, unless the entity is
  climbing or on a rope and one of the three samples is a \<open>LADDER\<close> or a \<open>ROPE\<close>;
  otherwise the tentative position and the velocity stay.
\<close>

theorem horizontalCollision_blocking:
  "hSamples s newX newY e =
     (getTileAt s (if vx e < 0 then newX else newX + TILE_SIZE * 0.8) (newY + TILE_SIZE * 0.1),
      getTileAt s (if vx e < 0 then newX else newX + TILE_SIZE * 0.8)
        (newY + TILE_SIZE * 0.95 * 0.5),
      getTileAt s (if vx e < 0 then newX else newX + TILE_SIZE * 0.8)
        (newY + TILE_SIZE * 0.95 * 0.9))
   \<and> (vx e \<noteq> 0 \<longrightarrow>
        horizontalCollision s newX newY e =
          (if blocksInCode (isClimbing e \<or> isOnRope e) (hSamples s newX newY e)
           then (snapX newX e, e\<lparr>vx := 0\<rparr>) else (newX, e)))
   \<and> (vx e = 0 \<longrightarrow> horizontalCollision s newX newY e = (newX, e))"
proof (intro conjI impI)
  show "hSamples s newX newY e =
     (getTileAt s (if vx e < 0 then newX else newX + TILE_SIZE * 0.8) (newY + TILE_SIZE * 0.1),
      getTileAt s (if vx e < 0 then newX else newX + TILE_SIZE * 0.8)
        (newY + TILE_SIZE * 0.95 * 0.5),
      getTileAt s (if vx e < 0 then newX else newX + TILE_SIZE * 0.8)
        (newY + TILE_SIZE * 0.95 * 0.9))"
    by (simp add: hSamples_def Let_def)
next
  assume nz: "vx e \<noteq> 0"
  obtain tb tm tt where sm: "hSamples s newX newY e = (tb, tm, tt)"
    by (cases "hSamples s newX newY e") auto
  have x: "snapX newX e =
      (if vx e < 0 then of_int (getGridX newX + 1) * TILE_SIZE
       else of_int (getGridX (newX + TILE_SIZE * 0.8)) * TILE_SIZE - TILE_SIZE * 0.8)"
    by (simp add: snapX_def)
  show "horizontalCollision s newX newY e =
          (if blocksInCode (isClimbing e \<or> isOnRope e) (hSamples s newX newY e)
           then (snapX newX e, e\<lparr>vx := 0\<rparr>) else (newX, e))"
    unfolding horizontalCollision_def sm blocksInCode_def ladderOrRope_def x
    using nz by (simp add: Let_def)
next
  assume "vx e = 0"
  then show "horizontalCollision s newX newY e = (newX, e)"
    by (simp add: horizontalCollision_def)
qed

theorem horizontalCollision_blocking_witness:
  "vx (player walkGame) \<noteq> 0
   \<and> hSamples walkGame 369 80 (player walkGame) = (BRICK, BRICK, BRICK)
   \<and> horizontalCollision walkGame 369 80 (player walkGame) = (368, (player walkGame)\<lparr>vx := 0\<rparr>)
   \<and> vx (player ropeGame) \<noteq> 0 \<and> isOnRope (player ropeGame)
   \<and> hSamples ropeGame 90 430 (player ropeGame) = (BRICK, ROPE, ROPE)
   \<and> horizontalCollision ropeGame 90 430 (player ropeGame) = (90, player ropeGame)
   \<and> vx ((player ropeGame)\<lparr>vx := 0\<rparr>) = 0
   \<and> horizontalCollision ropeGame 90 430 ((player ropeGame)\<lparr>vx := 0\<rparr>) =
       (90, (player ropeGame)\<lparr>vx := 0\<rparr>)"
proof -
  have v: "vx (player walkGame) = 150" "vx (player ropeGame) = 150" "isOnRope (player ropeGame)"
    "\<not> isClimbing (player walkGame)" "\<not> isOnRope (player walkGame)"
    by (simp_all add: walkGame_fields ropeGame_fields standing_def)
  have x: "snapX 369 (player walkGame) = 368"
    by (simp add: snapX_def v getGridX_def TILE_SIZE_def)
  show ?thesis
    using horizontalCollision_blocking [of walkGame 369 80 "player walkGame"]
      horizontalCollision_blocking [of ropeGame 90 430 "player ropeGame"]
      horizontalCollision_blocking [of ropeGame 90 430 "(player ropeGame)\<lparr>vx := 0\<rparr>"]
    by (simp add: v x walkGame_samples ropeGame_samples blocksInCode_def solid_def
        ladderOrRope_def)
qed

text \<open>
  The claim as stated lets a brick sample pass only when that sample is itself a ladder
  or a rope. On the loaded level the player on the rope of row 11 moves right into
  column 3: the bottom sample is the brick of row 10, which is no ladder and no rope,
  the other two samples are the rope, and the motion is not blocked.
\<close>

theorem blocking_sample_itself_counterexample:
  "vx (player ropeGame) = 150 \<and> isOnRope (player ropeGame)
   \<and> hSamples ropeGame 90 430 (player ropeGame) = (BRICK, ROPE, ROPE)
   \<and> blocksAsStated (isClimbing (player ropeGame) \<or> isOnRope (player ropeGame))
       (hSamples ropeGame 90 430 (player ropeGame))
   \<and> horizontalCollision ropeGame 90 430 (player ropeGame) = (90, player ropeGame)
   \<and> player (updatePhysics PlayerRef (1 / 50) ropeGame) = (player ropeGame)\<lparr>ex := 90\<rparr>
   \<and> vx (player (updatePhysics PlayerRef (1 / 50) ropeGame)) = 150"
proof -
  have v: "vx (player ropeGame) = 150" "isOnRope (player ropeGame)"
    by (simp_all add: ropeGame_fields standing_def)
  show ?thesis
    by (simp add: v ropeGame_pass ropeGame_samples ropeGame_step blocksAsStated_def solid_def
        ladderOrRope_def)
qed

text \<open>
  Claim C7 fails on the code for the flags \<open>isClimbing\<close> and \<open>isOnRope\<close> of an enemy.
  \<^verbatim>\<open>handleInput\<close> clears \<open>isOnRope\<close> of the player on a ladder (``cannot be on ladder
  and rope simultaneously''), but \<^verbatim>\<open>updateEnemies\<close> writes \<open>isOnRope\<close> from the rope test
  and \<open>isClimbing\<close> from the decision to climb, independently. In \<open>climbGame\<close> enemy 0
  hangs on the rope of row 8, under the ladder of column 4, and the player stands more
  than three quarters of a tile higher: after one tick the enemy has both flags set.
\<close>

theorem enemy_climbing_and_on_rope:
  "isOnRope (enemies climbGame 0) \<and> \<not> isClimbing (enemies climbGame 0)
   \<and> \<not> isTrapped (enemies climbGame 0) \<and> \<not> isFalling (enemies climbGame 0)
   \<and> isClimbing (enemies (update (1 / 50) heads climbGame) 0)
   \<and> isOnRope (enemies (update (1 / 50) heads climbGame) 0)"
  by (simp add: climbGame_tick climbGame_fields standing_def)

text \<open>
  Claim C8, as amended. A tick that starts with the game over (or won) changes nothing
  but the clock of the effects, \<open>gameTime\<close>: the simulation is not run, the game stays
  over and the lives are the ones before. The lives never increase in a tick, and they
  decrease only in a tick that starts with the game not over. Of the steps of a tick,
  the input, the refill of the holes and the check of the level leave the lives and the
  flag \<open>gameOver\<close> as they are; the step of the player takes one life exactly when the
  player falls below the window, and the step of an enemy takes one life exactly when
  the enemy touches the player while the game is neither over nor won. Each of them sets
  \<open>gameOver\<close> exactly when the life taken was the last one, so that a state in which the
  game is over exactly when no life is left is followed by such a state. Once the game
  is over, the iterations that remain in the loop of the enemies take no life and leave
  the game over. The reset gives the initial lives and clears the flag.
\<close>

theorem lives_and_game_over:
  "(gameOver s \<or> gameWon s \<longrightarrow>
      update elapsed rnd s = s\<lparr>gameTime := gameTime s + clampDelta elapsed\<rparr>)
   \<and> lives (update elapsed rnd s) \<le> lives s
   \<and> (lives (update elapsed rnd s) < lives s \<longrightarrow> \<not> gameOver s)
   \<and> (overIffNoLives s \<longrightarrow> overIffNoLives (update elapsed rnd s))
   \<and> lives (handleInput dt s) = lives s \<and> gameOver (handleInput dt s) = gameOver s
   \<and> lives (updateDigging dt s) = lives s \<and> gameOver (updateDigging dt s) = gameOver s
   \<and> lives (checkLevelCompletion s) = lives s \<and> gameOver (checkLevelCompletion s) = gameOver s
   \<and> lives (updatePlayer dt s) =
       (if isAlive (player s) \<and> fellOff PlayerRef dt s then lives s - 1 else lives s)
   \<and> gameOver (updatePlayer dt s) =
       (if isAlive (player s) \<and> fellOff PlayerRef dt s then gameOver s \<or> lives s - 1 \<le> 0
        else gameOver s)
   \<and> lives (updateEnemy dt rnd i s) = (if caught dt i s then lives s - 1 else lives s)
   \<and> gameOver (updateEnemy dt rnd i s) =
       (if caught dt i s then lives s - 1 \<le> 0 else gameOver s)
   \<and> (gameOver s \<longrightarrow> \<not> caught dt i s)
   \<and> (gameOver s \<longrightarrow>
        lives (fold (updateEnemy dt rnd) js s) = lives s \<and>
        gameOver (fold (updateEnemy dt rnd) js s))
   \<and> (gameOver s \<longrightarrow>
        gameOver (update elapsed rnd s) \<and> lives (update elapsed rnd s) = lives s)
   \<and> lives (init rnd s) = INITIAL_LIVES \<and> \<not> gameOver (init rnd s)"
proof (intro conjI impI)
  let ?s1 = "s\<lparr>gameTime := gameTime s + clampDelta elapsed\<rparr>"
  show "gameOver s \<or> gameWon s \<Longrightarrow>
      update elapsed rnd s = s\<lparr>gameTime := gameTime s + clampDelta elapsed\<rparr>"
    by (auto simp add: update_alt)
  show le: "lives (update elapsed rnd s) \<le> lives s"
    using tickSteps_lives_le [of "clampDelta elapsed" rnd ?s1] by (simp add: update_alt)
  show "lives (update elapsed rnd s) < lives s \<Longrightarrow> \<not> gameOver s"
    by (auto simp add: update_alt split: if_splits)
  show "overIffNoLives s \<Longrightarrow> overIffNoLives (update elapsed rnd s)"
  proof -
    assume "overIffNoLives s"
    then have o: "overIffNoLives ?s1" by (simp add: overIffNoLives_def)
    show ?thesis using o tickSteps_over [OF o] by (simp add: update_alt)
  qed
  show "gameOver s \<Longrightarrow> \<not> caught dt i s" by (simp add: caught_def)
  show "gameOver s \<Longrightarrow> lives (fold (updateEnemy dt rnd) js s) = lives s"
    "gameOver s \<Longrightarrow> gameOver (fold (updateEnemy dt rnd) js s)"
    using fold_updateEnemy_terminal [of s dt rnd js] by simp_all
  show "gameOver s \<Longrightarrow> gameOver (update elapsed rnd s)"
    "gameOver s \<Longrightarrow> lives (update elapsed rnd s) = lives s"
    by (simp_all add: update_alt)
qed (simp_all add: updatePlayer_lives updateEnemy_lives init_def)

theorem lives_and_game_over_witness:
  "gameOver overGame \<and> gameOver (update (1 / 50) heads overGame)
   \<and> lives (fold (updateEnemy (1 / 50) heads) [0, 1, 2] overGame) = lives overGame
   \<and> gameOver (fold (updateEnemy (1 / 50) heads) [0, 1, 2] overGame)
   \<and> update (1 / 50) heads overGame = overGame\<lparr>gameTime := gameTime overGame + 1 / 50\<rparr>
   \<and> lives (update (1 / 50) heads overGame) = lives overGame
   \<and> overIffNoLives overGame \<and> overIffNoLives (update (1 / 50) heads overGame)
   \<and> \<not> caught (1 / 50) 0 overGame
   \<and> lives fallGame = 3 \<and> \<not> gameOver fallGame
   \<and> isAlive (player fallGame) \<and> fellOff PlayerRef (1 / 50) fallGame
   \<and> lives (updatePlayer (1 / 50) fallGame) = 2
   \<and> \<not> gameOver (updatePlayer (1 / 50) fallGame)
   \<and> lives (update (1 / 50) heads fallGame) < lives fallGame
   \<and> lives contactGame = 3 \<and> caught (1 / 50) 0 contactGame
   \<and> lives (updateEnemy (1 / 50) heads 0 contactGame) = 2
   \<and> \<not> gameOver (updateEnemy (1 / 50) heads 0 contactGame)"
proof -
  have c: "clampDelta (1 / 50) = 1 / 50" by (simp add: clampDelta_def)
  have o: "overIffNoLives overGame" by (simp add: overIffNoLives_def overGame_fields)
  have a: "isAlive (player fallGame)" by (simp add: fallGame_fields standing_def)
  have f: "fellOff PlayerRef (1 / 50) fallGame"
    by (rule fall_off [OF fallGame_fields(1,2,3)])
  have t: "lives (update (1 / 50) heads fallGame) < lives fallGame"
    using fallGame_tick by (simp add: fallGame_fields)
  have k: "caught (1 / 50) 0 contactGame"
    by (rule contact_caught [OF contactGame_fields(1,2,3,4,5,6)])
  note g = lives_and_game_over [where s = overGame and elapsed = "1 / 50" and rnd = heads and dt = "1 / 50" and i = 0
    and js = "[0, 1, 2]"]
  note h = lives_and_game_over [where s = fallGame and elapsed = "1 / 50" and rnd = heads and dt = "1 / 50" and i = 0
    and js = "[0, 1, 2]"]
  note j = lives_and_game_over [where s = contactGame and elapsed = "1 / 50" and rnd = heads and dt = "1 / 50" and i = 0
    and js = "[0, 1, 2]"]
  have "update (1 / 50) heads overGame = overGame\<lparr>gameTime := gameTime overGame + 1 / 50\<rparr>"
    "overIffNoLives (update (1 / 50) heads overGame)" "\<not> caught (1 / 50) 0 overGame"
    "gameOver (update (1 / 50) heads overGame)"
    "lives (fold (updateEnemy (1 / 50) heads) [0, 1, 2] overGame) = lives overGame"
    "gameOver (fold (updateEnemy (1 / 50) heads) [0, 1, 2] overGame)"
    using g o by (simp_all add: overGame_fields c overIffNoLives_def)
  moreover have "lives (updatePlayer (1 / 50) fallGame) = 2"
    "\<not> gameOver (updatePlayer (1 / 50) fallGame)" "\<not> gameOver fallGame"
    using h a f t by (simp_all add: fallGame_fields)
  moreover have "lives (updateEnemy (1 / 50) heads 0 contactGame) = 2"
    "\<not> gameOver (updateEnemy (1 / 50) heads 0 contactGame)"
    using j k by (simp_all add: contactGame_fields)
  ultimately show ?thesis
    using o a f t k by (simp add: overGame_fields fallGame_fields contactGame_fields)
qed

text \<open>
  The claim as stated lets no simulation state change once \<open>gameOver\<close> is set.
  \<^verbatim>\<open>update\<close> tests the flag once, before the steps of the tick, and the steps that
  remain in the tick that sets it still run. In \<open>lastLifeGame\<close> the first enemy takes the
  last life in its iteration of the loop; in the rest of that tick the third enemy, at
  rest at \<open>x = 100\<close>, takes up the chase and moves to \<open>x = 488 / 5\<close>.
\<close>

theorem simulation_runs_on_after_game_over_counterexample:
  "\<not> gameOver lastLifeGame \<and> lives lastLifeGame = 1
   \<and> update (1 / 50) heads lastLifeGame =
       checkLevelCompletion (updateDigging (1 / 50)
         (updateEnemy (1 / 50) heads 2 (updateEnemy (1 / 50) heads 1
           (afterFirstEnemy (1 / 50) heads lastLifeGame))))
   \<and> gameOver (afterFirstEnemy (1 / 50) heads lastLifeGame)
   \<and> lives (afterFirstEnemy (1 / 50) heads lastLifeGame) = 0
   \<and> ex (enemies (afterFirstEnemy (1 / 50) heads lastLifeGame) 2) = 100
   \<and> ex (enemies (update (1 / 50) heads lastLifeGame) 2) = 488 / 5
   \<and> vx (enemies (afterFirstEnemy (1 / 50) heads lastLifeGame) 2) = 0
   \<and> vx (enemies (update (1 / 50) heads lastLifeGame) 2) = - 120"
proof -
  have "update (1 / 50) heads lastLifeGame =
       checkLevelCompletion (updateDigging (1 / 50)
         (updateEnemy (1 / 50) heads 2 (updateEnemy (1 / 50) heads 1
           (afterFirstEnemy (1 / 50) heads lastLifeGame))))"
    by (rule lastLifeGame_rest)
  moreover have "ex (enemies (afterFirstEnemy (1 / 50) heads lastLifeGame) 2) = 100"
    "vx (enemies (afterFirstEnemy (1 / 50) heads lastLifeGame) 2) = 0"
    by (simp_all add: lastLifeGame_first standing_def)
  moreover have "ex (enemies (update (1 / 50) heads lastLifeGame) 2) = 488 / 5"
    "vx (enemies (update (1 / 50) heads lastLifeGame) 2) = - 120"
    by (simp_all add: lastLifeGame_tick standing_def)
  ultimately show ?thesis
    using lastLifeGame_first(1,2) by (simp only: lastLifeGame_fields simp_thms)
qed

text \<open>
  Claim C9. When an entity is captured by a hole, its trapped timer is the time left
  of the entry of the hole minus 0.1, or 0.01 when that difference is negative. When
  the trapped timer of a trapped entity reaches 0 or less in \<open>updatePhysics\<close> while
  the registry still has the entry of its cell, the entity stays trapped and the timer
  is set to 0.01; while the timer stays positive it decreases by \<open>deltaTime\<close>.
\<close>

theorem trappedTimer_seed_and_clamp:
  "(\<not> isTrapped (getE r s) \<and> movePhysics r dt s = (e, s') \<and>
    isFalling (landingReset r s' e) \<and> inGrid (fst (footCell e)) (snd (footCell e)) \<and>
    findHole (dugHoles s') (footCell e) = Some h \<longrightarrow>
      dugHoles s' = dugHoles s \<and>
      trappedTimer (getE r (updatePhysics r dt s)) =
        (if timer h - 0.1 < 0 then 0.01 else timer h - 0.1) \<and>
      0 \<le> trappedTimer (getE r (updatePhysics r dt s)))
   \<and> (isTrapped (getE r s) \<and> trappedTimer (getE r s) - dt \<le> 0 \<and>
       findHole (dugHoles s)
         (getGridX (ex (getE r s) + TILE_SIZE * 0.4), getGridY (ey (getE r s))) \<noteq> None \<longrightarrow>
        isTrapped (getE r (updatePhysics r dt s)) \<and>
        trappedTimer (getE r (updatePhysics r dt s)) = 0.01)
   \<and> (isTrapped (getE r s) \<and> 0 < trappedTimer (getE r s) - dt \<longrightarrow>
        isTrapped (getE r (updatePhysics r dt s)) \<and>
        trappedTimer (getE r (updatePhysics r dt s)) = trappedTimer (getE r s) - dt)"
proof (intro conjI impI)
  assume a: "\<not> isTrapped (getE r s) \<and> movePhysics r dt s = (e, s') \<and>
    isFalling (landingReset r s' e) \<and> inGrid (fst (footCell e)) (snd (footCell e)) \<and>
    findHole (dugHoles s') (footCell e) = Some h"
  then have h: "findHole (dugHoles s') (footCell (landingReset r s' e)) = Some h"
    by simp
  from a have "\<not> isTrapped (getE r s)" and "movePhysics r dt s = (e, s')"
    by blast+
  then have "\<not> isTrapped e" by (rule movePhysics_untrapped)
  then have nt: "\<not> isTrapped (landingReset r s' e)"
    by simp
  from a have g: "inGrid (fst (footCell (landingReset r s' e))) (snd (footCell (landingReset r s' e)))"
    by simp
  from a have f: "isFalling (landingReset r s' e)" by simp
  have u: "getE r (updatePhysics r dt s) = holeCapture s' (landingReset r s' e)"
    using a by (auto simp add: updatePhysics_def)
  show "trappedTimer (getE r (updatePhysics r dt s)) =
        (if timer h - 0.1 < 0 then 0.01 else timer h - 0.1)"
    by (simp add: u holeCapture_traps [OF g h f nt])
  then show "0 \<le> trappedTimer (getE r (updatePhysics r dt s))"
    by simp
  from a have "movePhysics r dt s = (e, s')" by blast
  then show "dugHoles s' = dugHoles s"
    by (auto simp add: movePhysics_def boundaryChecks_def Let_def split: prod.splits if_splits)
next
  assume "isTrapped (getE r s) \<and> trappedTimer (getE r s) - dt \<le> 0 \<and>
       findHole (dugHoles s)
         (getGridX (ex (getE r s) + TILE_SIZE * 0.4), getGridY (ey (getE r s))) \<noteq> None"
  then show "isTrapped (getE r (updatePhysics r dt s))"
    "trappedTimer (getE r (updatePhysics r dt s)) = 0.01"
    by (auto simp add: updatePhysics_def trappedPhysics_def Let_def)
next
  assume "isTrapped (getE r s) \<and> 0 < trappedTimer (getE r s) - dt"
  then show "isTrapped (getE r (updatePhysics r dt s))"
    "trappedTimer (getE r (updatePhysics r dt s)) = trappedTimer (getE r s) - dt"
    by (auto simp add: updatePhysics_def trappedPhysics_def Let_def)
qed

theorem trappedTimer_seed_and_clamp_witness:
  "\<not> isTrapped (getE (EnemyRef 2) trapGame)
   \<and> movePhysics (EnemyRef 2) (1 / 50) trapGame =
       ((standing 444 (619 / 5))\<lparr>vy := - 60, isFalling := True\<rparr>, trapGame)
   \<and> findHole (dugHoles trapGame) (11, 3) = Some (snd (brickHole 11 3 5))
   \<and> trappedTimer (getE (EnemyRef 2) (updatePhysics (EnemyRef 2) (1 / 50) trapGame)) = 49 / 10
   \<and> \<not> isTrapped (getE PlayerRef trapGame)
   \<and> movePhysics PlayerRef (1 / 50) trapGame =
       ((standing 204 (619 / 5))\<lparr>vy := - 60, isFalling := True\<rparr>, trapGame)
   \<and> findHole (dugHoles trapGame) (5, 3) = Some (snd (brickHole 5 3 (1 / 20)))
   \<and> trappedTimer (getE PlayerRef (updatePhysics PlayerRef (1 / 50) trapGame)) = 1 / 100
   \<and> isTrapped (getE PlayerRef refillGame) \<and> trappedTimer (getE PlayerRef refillGame) = 1 / 100
   \<and> findHole (dugHoles refillGame) (3, 3) \<noteq> None
   \<and> isTrapped (getE PlayerRef (updatePhysics PlayerRef (1 / 50) refillGame))
   \<and> trappedTimer (getE PlayerRef (updatePhysics PlayerRef (1 / 50) refillGame)) = 1 / 100
   \<and> isTrapped (getE (EnemyRef 0) trapGame) \<and> trappedTimer (getE (EnemyRef 0) trapGame) = 49 / 10
   \<and> trappedTimer (getE (EnemyRef 0) (updatePhysics (EnemyRef 0) (1 / 50) trapGame)) = 122 / 25"
proof -
  have t2: "\<not> isTrapped (enemies trapGame 2)" "\<not> isTrapped (player trapGame)"
    by (simp_all add: trapGame_fields standing_def)
  have f: "isFalling (landingReset r trapGame
             ((standing px (619 / 5))\<lparr>vy := - 60, isFalling := True\<rparr>))" for r px
    by (simp add: trapGame_reset)
  have g: "inGrid 11 3" "inGrid 5 3" by (simp_all add: inGrid_def GRID_WIDTH_def GRID_HEIGHT_def)
  have p: "isTrapped (player refillGame)" "trappedTimer (player refillGame) = 1 / 100"
    "getGridX (ex (player refillGame) + TILE_SIZE * 0.4) = 3"
    "getGridY (ey (player refillGame)) = 3"
    "findHole (dugHoles refillGame) (3, 3) \<noteq> None"
    by (simp_all add: refillGame_fields standing_def getGridX_def getGridY_def TILE_SIZE_def
        findHole_def brickHole_def)
  have t0: "isTrapped (enemies trapGame 0)" "trappedTimer (enemies trapGame 0) = 49 / 10"
    by (simp_all add: trapGame_fields standing_def)
  show ?thesis
    using trappedTimer_seed_and_clamp
      [where r = "EnemyRef 2" and s = trapGame and dt = "1 / 50" and h = "snd (brickHole 11 3 5)"
         and e = "(standing 444 (619 / 5))\<lparr>vy := - 60, isFalling := True\<rparr>" and s' = trapGame]
      trappedTimer_seed_and_clamp
      [where r = PlayerRef and s = trapGame and dt = "1 / 50" and h = "snd (brickHole 5 3 (1 / 20))"
         and e = "(standing 204 (619 / 5))\<lparr>vy := - 60, isFalling := True\<rparr>" and s' = trapGame]
      trappedTimer_seed_and_clamp
      [where r = PlayerRef and s = refillGame and dt = "1 / 50" and h = "snd (brickHole 11 3 5)"
         and e = "(standing 444 (619 / 5))\<lparr>vy := - 60, isFalling := True\<rparr>" and s' = trapGame]
      trappedTimer_seed_and_clamp
      [where r = "EnemyRef 0" and s = trapGame and dt = "1 / 50" and h = "snd (brickHole 11 3 5)"
         and e = "(standing 444 (619 / 5))\<lparr>vy := - 60, isFalling := True\<rparr>" and s' = trapGame]
      p
    by (simp add: t2 f g t0 trapGame_move trapGame_cells trapGame_found brickHole_def)
qed

text \<open>
  Claim C10. \<open>digHole\<close> changes the registry only: the state it returns is the state it
  was given with another registry, so the tile grid, the collectible grid, the player,
  the enemies, the score, the lives and the session flags are the ones before. After a
  dig that succeeds (the cell is in the grid, stores \<open>BRICK\<close> and has no entry) the cell
  has an entry, still stores \<open>BRICK\<close>, and reads as \<open>EMPTY\<close> through \<open>getTileAt\<close>.
  The cells under the entries of the registry store \<open>BRICK\<close> as long as the entries
  live: that property of a state is kept by a dig, by the refill step and by a whole
  tick (with the top centre cell, which the exit reveal may write, not a brick).
\<close>

theorem digHole_writes_registry_only:
  "digHole gx gy s = s\<lparr>dugHoles := dugHoles (digHole gx gy s)\<rparr>
   \<and> level (digHole gx gy s) = level s
   \<and> collectibles (digHole gx gy s) = collectibles s
   \<and> collectiblesCollected (digHole gx gy s) = collectiblesCollected s
   \<and> totalCollectibles (digHole gx gy s) = totalCollectibles s
   \<and> player (digHole gx gy s) = player s \<and> enemies (digHole gx gy s) = enemies s
   \<and> score (digHole gx gy s) = score s \<and> lives (digHole gx gy s) = lives s
   \<and> gameOver (digHole gx gy s) = gameOver s \<and> gameWon (digHole gx gy s) = gameWon s
   \<and> levelComplete (digHole gx gy s) = levelComplete s
   \<and> (inGrid gx gy \<and> level s gy gx = BRICK \<and> findHole (dugHoles s) (gx, gy) = None \<longrightarrow>
        findHole (dugHoles (digHole gx gy s)) (gx, gy) \<noteq> None \<and>
        level (digHole gx gy s) gy gx = BRICK \<and>
        (\<forall>px py. getGridX px = gx \<and> getGridY py = gy \<longrightarrow>
           getTileAt (digHole gx gy s) px py = EMPTY))
   \<and> (brickUnderHoles s \<longrightarrow>
        brickUnderHoles (digHole gx gy s) \<and> brickUnderHoles (updateDigging dt s))
   \<and> (brickUnderHoles s \<and> topCentreNotBrick s \<longrightarrow>
        brickUnderHoles (update elapsed rnd s) \<and> topCentreNotBrick (update elapsed rnd s))"
proof (intro conjI impI allI)
  show "digHole gx gy s = s\<lparr>dugHoles := dugHoles (digHole gx gy s)\<rparr>"
    by (simp add: digHole_def)
next
  assume a: "inGrid gx gy \<and> level s gy gx = BRICK \<and> findHole (dugHoles s) (gx, gy) = None"
  then have d: "dugHoles (digHole gx gy s) = assignHole (gx, gy)
      \<lparr>hgridX = gx, hgridY = gy, timer = DIG_REFILL_TIME, originalType = BRICK\<rparr> (dugHoles s)"
    by (simp add: digHole_def inGrid_def)
  then show f: "findHole (dugHoles (digHole gx gy s)) (gx, gy) \<noteq> None"
    by (simp add: findHole_assignHole)
  from a show "level (digHole gx gy s) gy gx = BRICK" by simp
  fix px py assume "getGridX px = gx \<and> getGridY py = gy"
  then show "getTileAt (digHole gx gy s) px py = EMPTY"
    using a f by (auto simp add: getTileAt_def Let_def getGridX_def getGridY_def inGrid_def)
next
  assume "brickUnderHoles s"
  then show "brickUnderHoles (digHole gx gy s)" "brickUnderHoles (updateDigging dt s)"
    by (simp_all add: brickUnderHoles_digHole brickUnderHoles_updateDigging)
next
  assume a: "brickUnderHoles s \<and> topCentreNotBrick s"
  let ?s1 = "s\<lparr>gameTime := gameTime s + clampDelta elapsed\<rparr>"
  from a have i1: "brickUnderHoles ?s1" "topCentreNotBrick ?s1"
    by (simp_all add: brickUnderHoles_def topCentreNotBrick_def)
  show "brickUnderHoles (update elapsed rnd s)" "topCentreNotBrick (update elapsed rnd s)"
    using i1 tickSteps_brickUnderHoles [OF i1] by (simp_all add: update_alt)
qed simp_all

theorem digHole_writes_registry_only_witness:
  "inGrid 3 3 \<and> level (newGame heads) 3 3 = BRICK
   \<and> findHole (dugHoles (newGame heads)) (3, 3) = None
   \<and> findHole (dugHoles dugGame) (3, 3) \<noteq> None
   \<and> level dugGame 3 3 = BRICK \<and> getGridX 130 = 3 \<and> getGridY 130 = 3
   \<and> getTileAt dugGame 130 130 = EMPTY
   \<and> brickUnderHoles (newGame heads) \<and> topCentreNotBrick (newGame heads)
   \<and> brickUnderHoles dugGame \<and> brickUnderHoles (updateDigging (1 / 50) dugGame)
   \<and> brickUnderHoles (update (1 / 50) heads (newGame heads))"
proof -
  have g: "inGrid 3 3" by (simp add: inGrid_def GRID_WIDTH_def GRID_HEIGHT_def)
  have l: "level (newGame heads) 3 3 = BRICK" by (simp add: level_newGame layoutTile_3_3)
  have c: "getGridX 130 = 3" "getGridY 130 = 3"
    by (simp_all add: getGridX_def getGridY_def TILE_SIZE_def)
  have i: "sessionInv (newGame heads)" by (simp add: newGame_def sessionInv_init)
  then have b: "brickUnderHoles (newGame heads)" "topCentreNotBrick (newGame heads)"
    by (simp_all add: sessionInv_def)
  have t: "\<forall>px py. getGridX px = 3 \<and> getGridY py = 3 \<longrightarrow>
           getTileAt (digHole 3 3 (newGame heads)) px py = EMPTY"
    using digHole_writes_registry_only [of 3 3 "newGame heads" "1 / 50" "1 / 50" heads] g l
    by simp
  then have t': "getTileAt (digHole 3 3 (newGame heads)) 130 130 = EMPTY"
    using c by blast
  have d: "brickUnderHoles dugGame \<longrightarrow> brickUnderHoles (updateDigging (1 / 50) dugGame)"
    using digHole_writes_registry_only [of 3 3 dugGame "1 / 50" "1 / 50" heads] by simp
  show ?thesis
    using digHole_writes_registry_only [of 3 3 "newGame heads" "1 / 50" "1 / 50" heads] d t'
    by (simp add: g l c b dugGame_def)
qed

end
